theory Spec2Isabelle
  imports Main "HOL-Library.Word"
begin

section \<open>The JNI binding of libselinux: data model\<close>

text \<open>
  The theory embeds \<^verbatim>\<open>library/src/main/jni/libselinux-jni.c\<close>. Every function of the
  file is a HOL function of the same name. What the C code leaves implicit is explicit here:
  \<^item> the process state (\<^verbatim>\<open>errno\<close>, the pending exception of the JNI
    environment, the native heap, the function-local \<^verbatim>\<open>static\<close> caches) is the record
    \<open>world\<close>, passed in and returned;
  \<^item> \<^verbatim>\<open>abort()\<close> is the outcome \<open>Aborted\<close>; behaviour that C or JNI leaves undefined
    (a NULL pointer handed to \<^verbatim>\<open>memcpy\<close>, \<^verbatim>\<open>strlen\<close> or \<^verbatim>\<open>Throw\<close>, a read past the end of a
    block) is the outcome \<open>Crashed\<close>;
  \<^item> the \<^verbatim>\<open>do ... while\<close> loop of \<^verbatim>\<open>TEMP_FAILURE_RETRY\<close> may run forever: the functions
    that use it return an \<open>option\<close>, and \<open>None\<close> means that the call never returns;
  \<^item> the JNI runtime and libselinux are not part of the file. Their behaviour is a parameter:
    the record \<open>JNIEnv\<close> says which lookups and allocations of the runtime succeed, and a
    function from the number of the native invocation to a \<open>response\<close> says what libselinux
    does at each invocation.
\<close>

type_synonym byte = "8 word"
type_synonym cint = "32 word"

text \<open>
  Modelled from the spec: the error codes \<^verbatim>\<open>EINTR\<close> (the transient-interruption signal) and
  \<^verbatim>\<open>EIO\<close> (the generic I/O failure code) of \<^verbatim>\<open>errno.h\<close>, a header that is not in the
  repository. The values are those of the Linux ABI.
\<close>

definition EINTR :: cint where
  "EINTR = 4"

definition EIO :: cint where
  "EIO = 5"

datatype 'a outcome = Returned 'a | Aborted | Crashed

text \<open>
  The trace lists, in program order, the steps of the code that the properties below talk
  about. It is ghost state: no function reads it.
\<close>

datatype event =
    EvFindClass string
  | EvGetFieldID string string
  | EvGetMethodID string string
  | EvMalloc nat nat
  | EvFree nat
  | EvFreecon nat
  | EvNativeCall string
  | EvInspectErrno cint
  | EvExceptionClear
  | EvNewObject nat "nat option"
  | EvThrow nat

text \<open>
  Modelled from the spec: the exception object that \<^verbatim>\<open>NewObject\<close> builds. The class
  \<^verbatim>\<open>android.system.ErrnoException\<close> belongs to the platform; the spec gives its shape
  (message, error code, optional cause) and its two construction forms. The object records
  the class and the constructor it was built with as well.
\<close>

record jexception =
  clazz :: nat
  constructor :: nat
  detailMessage :: "string option"
  errorCode :: cint
  cause :: "nat option"

record world =
  errno :: cint
  pending :: "nat option"
  objects :: "nat \<Rightarrow> jexception option"
  next_ref :: nat
  heap :: "nat \<Rightarrow> byte list option"
  next_addr :: nat
  avail :: nat
  uninit :: "nat \<Rightarrow> byte"
  errnoExceptionClass :: "nat option"
  fileDescriptorClass :: "nat option"
  fileDescriptorDescriptorField :: "nat option"
  constructor3 :: "nat option"
  constructor2 :: "nat option"
  calls :: nat
  trace :: "event list"

text \<open>
  The behaviour of the JNI runtime behind \<^verbatim>\<open>JNIEnv *env\<close>. A lookup returns \<open>None\<close> for
  NULL. \<open>oom\<close> is the reference of the exception that the runtime leaves pending when one of
  its allocations fails.
\<close>

record JNIEnv =
  FindClass :: "string \<Rightarrow> nat option"
  NewGlobalRef :: "nat \<Rightarrow> nat option"
  GetFieldID :: "nat \<Rightarrow> string \<Rightarrow> string \<Rightarrow> nat option"
  GetMethodID :: "nat \<Rightarrow> string \<Rightarrow> string \<Rightarrow> nat option"
  GetByteArrayElements_ok :: bool
  NewStringUTF_ok :: bool
  NewObject_ok :: bool
  NewByteArray_ok :: bool
  oom :: nat

text \<open>
  What one invocation of a libselinux function does: the integer it returns, the value it
  stores to \<^verbatim>\<open>errno\<close> (\<open>None\<close> when it leaves \<^verbatim>\<open>errno\<close> alone, as a successful call of a
  C library function does), and the block it stores through its \<^verbatim>\<open>security_context_t *\<close>
  argument (\<open>None\<close> when it stores nothing).
\<close>

record response =
  rc :: cint
  set_errno :: "cint option"
  out :: "byte list option"

record FileDescriptor =
  descriptor :: cint

definition bindM :: "(world \<Rightarrow> 'a outcome \<times> world) \<Rightarrow> ('a \<Rightarrow> world \<Rightarrow> 'b outcome \<times> world)
    \<Rightarrow> world \<Rightarrow> 'b outcome \<times> world" where
  "bindM m f w =
     (case m w of
        (Returned x, w1) \<Rightarrow> f x w1
      | (Aborted, w1) \<Rightarrow> (Aborted, w1)
      | (Crashed, w1) \<Rightarrow> (Crashed, w1))"

definition log_event :: "event \<Rightarrow> world \<Rightarrow> world" where
  "log_event e w = w\<lparr>trace := trace w @ [e]\<rparr>"

section \<open>The C library: malloc, memcpy, free, strlen\<close>

text \<open>
  \<^verbatim>\<open>malloc(n)\<close> returns NULL when fewer than \<open>n\<close> bytes are available, and a fresh block
  of \<open>n\<close> bytes of unspecified content (\<open>uninit\<close>) otherwise.
\<close>

definition malloc :: "nat \<Rightarrow> world \<Rightarrow> nat option \<times> world" where
  "malloc n w =
     (if avail w < n then (None, w)
      else (Some (next_addr w),
            log_event (EvMalloc (next_addr w) n)
              (w\<lparr>heap := (heap w)(next_addr w \<mapsto> map (uninit w) [0..<n]),
                 next_addr := Suc (next_addr w),
                 avail := avail w - n\<rparr>)))"

definition memcpy :: "nat option \<Rightarrow> byte list option \<Rightarrow> nat \<Rightarrow> world \<Rightarrow> unit outcome \<times> world" where
  "memcpy dst src n w =
     (case (dst, src) of
        (Some a, Some bs) \<Rightarrow>
          (case heap w a of
             Some block \<Rightarrow>
               if n \<le> length block \<and> n \<le> length bs
               then (Returned (), w\<lparr>heap := (heap w)(a \<mapsto> take n bs @ drop n block)\<rparr>)
               else (Crashed, w)
           | None \<Rightarrow> (Crashed, w))
      | _ \<Rightarrow> (Crashed, w))"

definition store_byte :: "nat option \<Rightarrow> nat \<Rightarrow> byte \<Rightarrow> world \<Rightarrow> unit outcome \<times> world" where
  "store_byte p i b w =
     (case p of
        Some a \<Rightarrow>
          (case heap w a of
             Some block \<Rightarrow>
               if i < length block
               then (Returned (), w\<lparr>heap := (heap w)(a \<mapsto> block[i := b])\<rparr>)
               else (Crashed, w)
           | None \<Rightarrow> (Crashed, w))
      | None \<Rightarrow> (Crashed, w))"

text \<open>\<^verbatim>\<open>free(NULL)\<close> does nothing; freeing an address that holds no block is undefined.\<close>

definition free :: "nat option \<Rightarrow> world \<Rightarrow> unit outcome \<times> world" where
  "free p w =
     (case p of
        None \<Rightarrow> (Returned (), w)
      | Some a \<Rightarrow>
          (case heap w a of
             Some block \<Rightarrow>
               (Returned (),
                log_event (EvFree a)
                  (w\<lparr>heap := (heap w)(a := None), avail := avail w + length block\<rparr>))
           | None \<Rightarrow> (Crashed, w)))"

fun strlen_block :: "byte list \<Rightarrow> nat option" where
  "strlen_block [] = None"
| "strlen_block (b # bs) =
     (if b = 0 then Some 0
      else (case strlen_block bs of None \<Rightarrow> None | Some n \<Rightarrow> Some (Suc n)))"

definition strlen :: "nat option \<Rightarrow> world \<Rightarrow> nat option" where
  "strlen p w =
     (case p of
        None \<Rightarrow> None
      | Some a \<Rightarrow> (case heap w a of None \<Rightarrow> None | Some block \<Rightarrow> strlen_block block))"

section \<open>The JNI functions the file calls\<close>

definition ExceptionCheck :: "world \<Rightarrow> bool" where
  "ExceptionCheck w = (pending w \<noteq> None)"

definition ExceptionOccurred :: "world \<Rightarrow> nat option" where
  "ExceptionOccurred w = pending w"

definition ExceptionClear :: "world \<Rightarrow> world" where
  "ExceptionClear w = log_event EvExceptionClear (w\<lparr>pending := None\<rparr>)"

definition NewStringUTF :: "JNIEnv \<Rightarrow> string \<Rightarrow> world \<Rightarrow> string option \<times> world" where
  "NewStringUTF env s w =
     (if NewStringUTF_ok env then (Some s, w) else (None, w\<lparr>pending := Some (oom env)\<rparr>))"

text \<open>
  The event of \<^verbatim>\<open>NewObject\<close> records the new reference and the pending exception at the
  moment of the call.
\<close>

definition NewObject :: "JNIEnv \<Rightarrow> nat \<Rightarrow> nat \<Rightarrow> string option \<Rightarrow> cint \<Rightarrow> nat option
    \<Rightarrow> world \<Rightarrow> nat option \<times> world" where
  "NewObject env cls ctor msg code cs w =
     (if NewObject_ok env
      then (Some (next_ref w),
            log_event (EvNewObject (next_ref w) (pending w))
              (w\<lparr>objects := (objects w)(next_ref w \<mapsto>
                    \<lparr>clazz = cls, constructor = ctor, detailMessage = msg,
                     errorCode = code, cause = cs\<rparr>),
                 next_ref := Suc (next_ref w)\<rparr>))
      else (None, w\<lparr>pending := Some (oom env)\<rparr>))"

definition Throw :: "nat option \<Rightarrow> world \<Rightarrow> unit outcome \<times> world" where
  "Throw exc w =
     (case exc of
        None \<Rightarrow> (Crashed, w)
      | Some e \<Rightarrow> (Returned (), log_event (EvThrow e) (w\<lparr>pending := Some e\<rparr>)))"

definition GetByteArrayElements :: "JNIEnv \<Rightarrow> byte list \<Rightarrow> byte list option" where
  "GetByteArrayElements env javaBytes =
     (if GetByteArrayElements_ok env then Some javaBytes else None)"

definition GetArrayLength :: "byte list \<Rightarrow> int" where
  "GetArrayLength javaBytes = int (length javaBytes)"

text \<open>
  \<^verbatim>\<open>NewByteArray\<close> returns NULL, with an exception pending, for a negative length or when
  the runtime cannot allocate; a new array holds zeros.
\<close>

definition NewByteArray :: "JNIEnv \<Rightarrow> int \<Rightarrow> world \<Rightarrow> byte list option \<times> world" where
  "NewByteArray env n w =
     (if 0 \<le> n \<and> NewByteArray_ok env then (Some (replicate (nat n) 0), w)
      else (None, w\<lparr>pending := Some (oom env)\<rparr>))"

definition SetByteArrayRegion :: "byte list \<Rightarrow> nat \<Rightarrow> int \<Rightarrow> byte list \<Rightarrow> byte list" where
  "SetByteArrayRegion arr start n buf =
     take start arr @ take (nat n) buf @ drop (start + nat n) arr"

definition GetIntField :: "FileDescriptor \<Rightarrow> nat \<Rightarrow> cint" where
  "GetIntField obj field = descriptor obj"

section \<open>The symbol cache\<close>

definition findClass :: "JNIEnv \<Rightarrow> string \<Rightarrow> world \<Rightarrow> nat outcome \<times> world" where
  "findClass env name w =
     (let w1 = log_event (EvFindClass name) w in
      case FindClass env name of
        None \<Rightarrow> (Aborted, w1)
      | Some localClass \<Rightarrow>
          (case NewGlobalRef env localClass of
             None \<Rightarrow> (Aborted, w1)
           | Some globalClass \<Rightarrow> (Returned globalClass, w1)))"

definition findField :: "JNIEnv \<Rightarrow> nat \<Rightarrow> string \<Rightarrow> string \<Rightarrow> world \<Rightarrow> nat outcome \<times> world" where
  "findField env cls name signature w =
     (let w1 = log_event (EvGetFieldID name signature) w in
      case GetFieldID env cls name signature of
        None \<Rightarrow> (Aborted, w1)
      | Some field \<Rightarrow> (Returned field, w1))"

definition findMethod :: "JNIEnv \<Rightarrow> nat \<Rightarrow> string \<Rightarrow> string \<Rightarrow> world \<Rightarrow> nat outcome \<times> world" where
  "findMethod env cls name signature w =
     (let w1 = log_event (EvGetMethodID name signature) w in
      case GetMethodID env cls name signature of
        None \<Rightarrow> (Aborted, w1)
      | Some m \<Rightarrow> (Returned m, w1))"

definition getErrnoExceptionClass :: "JNIEnv \<Rightarrow> world \<Rightarrow> nat outcome \<times> world" where
  "getErrnoExceptionClass env w =
     (case errnoExceptionClass w of
        Some c \<Rightarrow> (Returned c, w)
      | None \<Rightarrow>
          bindM (findClass env ''android/system/ErrnoException'')
            (\<lambda>c w1. (Returned c, w1\<lparr>errnoExceptionClass := Some c\<rparr>)) w)"

definition getFileDescriptorClass :: "JNIEnv \<Rightarrow> world \<Rightarrow> nat outcome \<times> world" where
  "getFileDescriptorClass env w =
     (case fileDescriptorClass w of
        Some c \<Rightarrow> (Returned c, w)
      | None \<Rightarrow>
          bindM (findClass env ''java/io/FileDescriptor'')
            (\<lambda>c w1. (Returned c, w1\<lparr>fileDescriptorClass := Some c\<rparr>)) w)"

definition getFileDescriptorDescriptorField :: "JNIEnv \<Rightarrow> world \<Rightarrow> nat outcome \<times> world" where
  "getFileDescriptorDescriptorField env w =
     (case fileDescriptorDescriptorField w of
        Some f \<Rightarrow> (Returned f, w)
      | None \<Rightarrow>
          bindM (getFileDescriptorClass env)
            (\<lambda>cls. bindM (findField env cls ''descriptor'' ''I'')
               (\<lambda>f w2. (Returned f, w2\<lparr>fileDescriptorDescriptorField := Some f\<rparr>))) w)"

section \<open>Raising the translated exception\<close>

definition throwException :: "JNIEnv \<Rightarrow> nat \<Rightarrow> nat \<Rightarrow> nat \<Rightarrow> string \<Rightarrow> cint
    \<Rightarrow> world \<Rightarrow> unit outcome \<times> world" where
  "throwException env exceptionClass ctor3 ctor2 functionName error w =
     (let (cs, w1) = (if ExceptionCheck w then (ExceptionOccurred w, ExceptionClear w)
                      else (None, w));
          (msg, w2) = NewStringUTF env functionName w1;
          w3 = (if msg = None then ExceptionClear w2 else w2);
          (exception, w4) =
            (case cs of
               Some c \<Rightarrow> NewObject env exceptionClass ctor3 msg error (Some c) w3
             | None \<Rightarrow> NewObject env exceptionClass ctor2 msg error None w3)
      in Throw exception w4)"

definition throwErrnoException :: "JNIEnv \<Rightarrow> string \<Rightarrow> world \<Rightarrow> unit outcome \<times> world" where
  "throwErrnoException env functionName w =
     (let error = errno w in
      bindM (\<lambda>w. case constructor3 w of
                   Some m \<Rightarrow> (Returned m, w)
                 | None \<Rightarrow>
                     bindM (getErrnoExceptionClass env)
                       (\<lambda>cls. bindM (findMethod env cls ''<init>''
                                  ''(Ljava/lang/String;ILjava/lang/Throwable;)V'')
                          (\<lambda>m w2. (Returned m, w2\<lparr>constructor3 := Some m\<rparr>))) w)
        (\<lambda>ctor3.
           bindM (\<lambda>w. case constructor2 w of
                        Some m \<Rightarrow> (Returned m, w)
                      | None \<Rightarrow>
                          bindM (getErrnoExceptionClass env)
                            (\<lambda>cls. bindM (findMethod env cls ''<init>''
                                       ''(Ljava/lang/String;I)V'')
                               (\<lambda>m w2. (Returned m, w2\<lparr>constructor2 := Some m\<rparr>))) w)
             (\<lambda>ctor2.
                bindM (getErrnoExceptionClass env)
                  (\<lambda>cls. throwException env cls ctor3 ctor2 functionName error))) w)"

section \<open>Marshaling\<close>

definition mallocStringFromBytes :: "JNIEnv \<Rightarrow> byte list \<Rightarrow> world \<Rightarrow> nat option outcome \<times> world" where
  "mallocStringFromBytes env javaBytes w =
     (let bytes = GetByteArrayElements env javaBytes;
          javaLength = GetArrayLength javaBytes;
          len = nat javaLength;
          (str, w1) = malloc (len + 1) w
      in bindM (memcpy str bytes len)
           (\<lambda>_. bindM (store_byte str len 0)
              (\<lambda>_ w3. (Returned str, w3))) w1)"

text \<open>The cast \<^verbatim>\<open>(jsize) length\<close> keeps the low 32 bits, read as a signed number.\<close>

definition jsize_of_size_t :: "nat \<Rightarrow> int" where
  "jsize_of_size_t n = sint (word_of_nat n :: 32 word)"

definition newBytesFromString :: "JNIEnv \<Rightarrow> nat option \<Rightarrow> world
    \<Rightarrow> byte list option outcome \<times> world" where
  "newBytesFromString env str w =
     (case str of
        None \<Rightarrow> (Crashed, w)
      | Some a \<Rightarrow>
          (case heap w a of
             None \<Rightarrow> (Crashed, w)
           | Some block \<Rightarrow>
               (case strlen_block block of
                  None \<Rightarrow> (Crashed, w)
                | Some len \<Rightarrow>
                    (let javaLength = jsize_of_size_t len;
                         (javaBytes, w1) = NewByteArray env javaLength w
                     in case javaBytes of
                          None \<Rightarrow> (Returned None, w1)
                        | Some arr \<Rightarrow>
                            (Returned (Some (SetByteArrayRegion arr 0 javaLength block)),
                             w1)))))"

section \<open>libselinux and the retry macro\<close>

text \<open>
  One invocation of a libselinux function: the next response of the library is consumed,
  \<^verbatim>\<open>errno\<close> is stored when the response says so, and the invocation is logged under the
  function's name.
\<close>

definition native_call :: "(nat \<Rightarrow> response) \<Rightarrow> string \<Rightarrow> world \<Rightarrow> response \<times> world" where
  "native_call lib fname w =
     (let r = lib (calls w)
      in (r, log_event (EvNativeCall fname)
               (w\<lparr>calls := Suc (calls w),
                  errno := (case set_errno r of None \<Rightarrow> errno w | Some e \<Rightarrow> e)\<rparr>)))"

text \<open>
  The functions that return a context store a block of the library's own through their
  \<^verbatim>\<open>security_context_t *\<close> argument; the local variable \<^verbatim>\<open>context\<close> of the caller is the
  second component of the argument and of the result.
\<close>

definition native_get :: "(nat \<Rightarrow> response) \<Rightarrow> string \<Rightarrow> nat option \<Rightarrow> world
    \<Rightarrow> cint \<times> nat option \<times> world" where
  "native_get lib fname ctx w =
     (let (r, w1) = native_call lib fname w
      in case out r of
           None \<Rightarrow> (rc r, ctx, w1)
         | Some block \<Rightarrow>
             (rc r, Some (next_addr w1),
              w1\<lparr>heap := (heap w1)(next_addr w1 \<mapsto> block), next_addr := Suc (next_addr w1)\<rparr>))"

definition native_plain :: "(nat \<Rightarrow> response) \<Rightarrow> string \<Rightarrow> unit \<Rightarrow> world
    \<Rightarrow> cint \<times> unit \<times> world" where
  "native_plain lib fname u w =
     (let (r, w1) = native_call lib fname w in (rc r, (), w1))"

definition fgetfilecon :: "(nat \<Rightarrow> response) \<Rightarrow> cint \<Rightarrow> nat option \<Rightarrow> world
    \<Rightarrow> cint \<times> nat option \<times> world" where
  "fgetfilecon lib fd = native_get lib ''fgetfilecon''"

definition getfilecon :: "(nat \<Rightarrow> response) \<Rightarrow> nat option \<Rightarrow> nat option \<Rightarrow> world
    \<Rightarrow> cint \<times> nat option \<times> world" where
  "getfilecon lib path = native_get lib ''getfilecon''"

definition lgetfilecon :: "(nat \<Rightarrow> response) \<Rightarrow> nat option \<Rightarrow> nat option \<Rightarrow> world
    \<Rightarrow> cint \<times> nat option \<times> world" where
  "lgetfilecon lib path = native_get lib ''lgetfilecon''"

definition fsetfilecon :: "(nat \<Rightarrow> response) \<Rightarrow> cint \<Rightarrow> nat option \<Rightarrow> unit \<Rightarrow> world
    \<Rightarrow> cint \<times> unit \<times> world" where
  "fsetfilecon lib fd ctx = native_plain lib ''fsetfilecon''"

definition setfilecon :: "(nat \<Rightarrow> response) \<Rightarrow> nat option \<Rightarrow> nat option \<Rightarrow> unit \<Rightarrow> world
    \<Rightarrow> cint \<times> unit \<times> world" where
  "setfilecon lib path ctx = native_plain lib ''setfilecon''"

definition lsetfilecon :: "(nat \<Rightarrow> response) \<Rightarrow> nat option \<Rightarrow> nat option \<Rightarrow> unit \<Rightarrow> world
    \<Rightarrow> cint \<times> unit \<times> world" where
  "lsetfilecon lib path ctx = native_plain lib ''lsetfilecon''"

definition is_selinux_enabled :: "(nat \<Rightarrow> response) \<Rightarrow> unit \<Rightarrow> world \<Rightarrow> cint \<times> unit \<times> world" where
  "is_selinux_enabled lib = native_plain lib ''is_selinux_enabled''"

definition security_getenforce :: "(nat \<Rightarrow> response) \<Rightarrow> unit \<Rightarrow> world \<Rightarrow> cint \<times> unit \<times> world" where
  "security_getenforce lib = native_plain lib ''security_getenforce''"

definition freecon :: "nat option \<Rightarrow> world \<Rightarrow> unit outcome \<times> world" where
  "freecon p w =
     (case p of
        None \<Rightarrow> (Returned (), w)
      | Some a \<Rightarrow>
          (case heap w a of
             Some block \<Rightarrow> (Returned (), log_event (EvFreecon a) (w\<lparr>heap := (heap w)(a := None)\<rparr>))
           | None \<Rightarrow> (Crashed, w)))"

text \<open>
  The macro \<^verbatim>\<open>TEMP_FAILURE_RETRY(exp)\<close>: \<^verbatim>\<open>errno = 0\<close> once, then the loop
  \<^verbatim>\<open>do { _rc = (exp); } while (errno == EINTR)\<close>. The expression is a function of the local
  state it writes (\<open>st\<close>) and of the world. The loop has no bound: \<open>None\<close> is the run that
  never leaves it.
\<close>

partial_function (option) retry_loop :: "('s \<Rightarrow> world \<Rightarrow> cint \<times> 's \<times> world) \<Rightarrow> 's \<Rightarrow> world
    \<Rightarrow> (cint \<times> 's \<times> world) option" where
  "retry_loop exp st w =
     (case exp st w of
        (r, st1, w1) \<Rightarrow>
          if errno w1 = EINTR then retry_loop exp st1 w1 else Some (r, st1, w1))"

definition TEMP_FAILURE_RETRY :: "('s \<Rightarrow> world \<Rightarrow> cint \<times> 's \<times> world) \<Rightarrow> 's \<Rightarrow> world
    \<Rightarrow> (cint \<times> 's \<times> world) option" where
  "TEMP_FAILURE_RETRY exp st w = retry_loop exp st (w\<lparr>errno := 0\<rparr>)"

section \<open>The exported operations\<close>

text \<open>
  The \<^verbatim>\<open>jclass clazz\<close> argument of the exported functions is unused and left out. A
  managed argument is the object it refers to: a \<open>FileDescriptor\<close> or the bytes of a byte
  array.
\<close>

definition Java_me_zhanghai_android_libselinux_SeLinux_fgetfilecon ::
    "JNIEnv \<Rightarrow> (nat \<Rightarrow> response) \<Rightarrow> FileDescriptor \<Rightarrow> world
     \<Rightarrow> (byte list option outcome \<times> world) option" where
  "Java_me_zhanghai_android_libselinux_SeLinux_fgetfilecon env lib javaFd w =
     (case getFileDescriptorDescriptorField env w of
        (Returned field, w1) \<Rightarrow>
          (let fd = GetIntField javaFd field in
           case TEMP_FAILURE_RETRY (fgetfilecon lib fd) None w1 of
             None \<Rightarrow> None
           | Some (r, ctx, w2) \<Rightarrow>
               Some (let w3 = log_event (EvInspectErrno (errno w2)) w2 in
                     if errno w3 \<noteq> 0
                     then bindM (throwErrnoException env ''fgetfilecon'')
                            (\<lambda>_ w4. (Returned None, w4)) w3
                     else bindM (newBytesFromString env ctx)
                            (\<lambda>javaContext. bindM (freecon ctx)
                               (\<lambda>_ w5. (Returned javaContext, w5))) w3))
      | (Aborted, w1) \<Rightarrow> Some (Aborted, w1)
      | (Crashed, w1) \<Rightarrow> Some (Crashed, w1))"

definition Java_me_zhanghai_android_libselinux_SeLinux_fsetfilecon ::
    "JNIEnv \<Rightarrow> (nat \<Rightarrow> response) \<Rightarrow> FileDescriptor \<Rightarrow> byte list \<Rightarrow> world
     \<Rightarrow> (unit outcome \<times> world) option" where
  "Java_me_zhanghai_android_libselinux_SeLinux_fsetfilecon env lib javaFd javaContext w =
     (case getFileDescriptorDescriptorField env w of
        (Returned field, w1) \<Rightarrow>
          (let fd = GetIntField javaFd field in
           case mallocStringFromBytes env javaContext w1 of
             (Returned ctx, w2) \<Rightarrow>
               (case TEMP_FAILURE_RETRY (fsetfilecon lib fd ctx) () w2 of
                  None \<Rightarrow> None
                | Some (r, _, w3) \<Rightarrow>
                    Some (bindM (free ctx)
                            (\<lambda>_ w4. let w5 = log_event (EvInspectErrno (errno w4)) w4 in
                                     if errno w5 \<noteq> 0
                                     then throwErrnoException env ''fsetfilecon'' w5
                                     else (Returned (), w5)) w3))
           | (Aborted, w2) \<Rightarrow> Some (Aborted, w2)
           | (Crashed, w2) \<Rightarrow> Some (Crashed, w2))
      | (Aborted, w1) \<Rightarrow> Some (Aborted, w1)
      | (Crashed, w1) \<Rightarrow> Some (Crashed, w1))"

definition doGetfilecon :: "JNIEnv \<Rightarrow> (nat \<Rightarrow> response) \<Rightarrow> byte list \<Rightarrow> bool \<Rightarrow> world
    \<Rightarrow> (byte list option outcome \<times> world) option" where
  "doGetfilecon env lib javaPath isLgetfilecon w =
     (case mallocStringFromBytes env javaPath w of
        (Returned path, w1) \<Rightarrow>
          (case TEMP_FAILURE_RETRY
                  ((if isLgetfilecon then lgetfilecon else getfilecon) lib path) None w1 of
             None \<Rightarrow> None
           | Some (r, ctx, w2) \<Rightarrow>
               Some (bindM (free path)
                       (\<lambda>_ w3. let w4 = log_event (EvInspectErrno (errno w3)) w3 in
                                if errno w4 \<noteq> 0
                                then bindM (throwErrnoException env
                                              (if isLgetfilecon then ''lgetfilecon''
                                               else ''getfilecon''))
                                       (\<lambda>_ w5. (Returned None, w5)) w4
                                else bindM (newBytesFromString env ctx)
                                       (\<lambda>javaContext. bindM (freecon ctx)
                                          (\<lambda>_ w6. (Returned javaContext, w6))) w4) w2))
      | (Aborted, w1) \<Rightarrow> Some (Aborted, w1)
      | (Crashed, w1) \<Rightarrow> Some (Crashed, w1))"

definition Java_me_zhanghai_android_libselinux_SeLinux_getfilecon ::
    "JNIEnv \<Rightarrow> (nat \<Rightarrow> response) \<Rightarrow> byte list \<Rightarrow> world
     \<Rightarrow> (byte list option outcome \<times> world) option" where
  "Java_me_zhanghai_android_libselinux_SeLinux_getfilecon env lib javaPath =
     doGetfilecon env lib javaPath False"

definition Java_me_zhanghai_android_libselinux_SeLinux_is_1selinux_1enabled ::
    "(nat \<Rightarrow> response) \<Rightarrow> world \<Rightarrow> bool outcome \<times> world" where
  "Java_me_zhanghai_android_libselinux_SeLinux_is_1selinux_1enabled lib w =
     (let (enabled, _, w1) = is_selinux_enabled lib () w;
          javaEnabled = (if enabled \<noteq> 0 then True else False)
      in (Returned javaEnabled, w1))"

definition Java_me_zhanghai_android_libselinux_SeLinux_lgetfilecon ::
    "JNIEnv \<Rightarrow> (nat \<Rightarrow> response) \<Rightarrow> byte list \<Rightarrow> world
     \<Rightarrow> (byte list option outcome \<times> world) option" where
  "Java_me_zhanghai_android_libselinux_SeLinux_lgetfilecon env lib javaPath =
     doGetfilecon env lib javaPath True"

definition doSetfilecon :: "JNIEnv \<Rightarrow> (nat \<Rightarrow> response) \<Rightarrow> byte list \<Rightarrow> byte list \<Rightarrow> bool
    \<Rightarrow> world \<Rightarrow> (unit outcome \<times> world) option" where
  "doSetfilecon env lib javaPath javaContext isLsetfilecon w =
     (case mallocStringFromBytes env javaPath w of
        (Returned path, w1) \<Rightarrow>
          (case mallocStringFromBytes env javaContext w1 of
             (Returned ctx, w2) \<Rightarrow>
               (case TEMP_FAILURE_RETRY
                       ((if isLsetfilecon then lsetfilecon else setfilecon) lib path ctx)
                       () w2 of
                  None \<Rightarrow> None
                | Some (r, _, w3) \<Rightarrow>
                    Some (bindM (free path)
                            (\<lambda>_. bindM (free ctx)
                               (\<lambda>_ w5. let w6 = log_event (EvInspectErrno (errno w5)) w5 in
                                        if errno w6 \<noteq> 0
                                        then throwErrnoException env
                                               (if isLsetfilecon then ''lsetfilecon''
                                                else ''setfilecon'') w6
                                        else (Returned (), w6))) w3))
           | (Aborted, w2) \<Rightarrow> Some (Aborted, w2)
           | (Crashed, w2) \<Rightarrow> Some (Crashed, w2))
      | (Aborted, w1) \<Rightarrow> Some (Aborted, w1)
      | (Crashed, w1) \<Rightarrow> Some (Crashed, w1))"

definition Java_me_zhanghai_android_libselinux_SeLinux_lsetfilecon ::
    "JNIEnv \<Rightarrow> (nat \<Rightarrow> response) \<Rightarrow> byte list \<Rightarrow> byte list \<Rightarrow> world
     \<Rightarrow> (unit outcome \<times> world) option" where
  "Java_me_zhanghai_android_libselinux_SeLinux_lsetfilecon env lib javaPath javaContext =
     doSetfilecon env lib javaPath javaContext True"

definition Java_me_zhanghai_android_libselinux_SeLinux_security_1getenforce ::
    "JNIEnv \<Rightarrow> (nat \<Rightarrow> response) \<Rightarrow> world \<Rightarrow> (bool outcome \<times> world) option" where
  "Java_me_zhanghai_android_libselinux_SeLinux_security_1getenforce env lib w =
     (case TEMP_FAILURE_RETRY (security_getenforce lib) () w of
        None \<Rightarrow> None
      | Some (enforce, _, w1) \<Rightarrow>
          Some (let w2 = (if enforce = - 1 \<and> errno w1 = 0 then w1\<lparr>errno := EIO\<rparr> else w1);
                    w3 = log_event (EvInspectErrno (errno w2)) w2
                in bindM (\<lambda>w. if errno w \<noteq> 0
                               then throwErrnoException env ''security_getenforce'' w
                               else (Returned (), w))
                     (\<lambda>_ w4. (Returned (if enforce \<noteq> 0 then True else False), w4)) w3))"

definition Java_me_zhanghai_android_libselinux_SeLinux_setfilecon ::
    "JNIEnv \<Rightarrow> (nat \<Rightarrow> response) \<Rightarrow> byte list \<Rightarrow> byte list \<Rightarrow> world
     \<Rightarrow> (unit outcome \<times> world) option" where
  "Java_me_zhanghai_android_libselinux_SeLinux_setfilecon env lib javaPath javaContext =
     doSetfilecon env lib javaPath javaContext False"

section \<open>A runtime and a process state to run the code on\<close>

text \<open>
  \<open>example_env\<close> is a runtime in which every lookup and every allocation succeeds;
  \<open>example_world\<close> is a process that has resolved no symbol yet, holds a stale
  \<^verbatim>\<open>errno\<close> and has no exception pending. The examples below run the code on them.
\<close>

definition example_env :: JNIEnv where
  "example_env =
     \<lparr>FindClass = (\<lambda>name. if name = ''android/system/ErrnoException'' then Some 1
                           else if name = ''java/io/FileDescriptor'' then Some 2 else None),
      NewGlobalRef = (\<lambda>c. Some (c + 10)),
      GetFieldID = (\<lambda>cls name signature.
                      if cls = 12 \<and> name = ''descriptor'' \<and> signature = ''I'' then Some 20
                      else None),
      GetMethodID = (\<lambda>cls name signature.
                       if cls = 11 \<and> name = ''<init>''
                       then (if signature = ''(Ljava/lang/String;ILjava/lang/Throwable;)V''
                             then Some 33
                             else if signature = ''(Ljava/lang/String;I)V'' then Some 32
                             else None)
                       else None),
      GetByteArrayElements_ok = True,
      NewStringUTF_ok = True,
      NewObject_ok = True,
      NewByteArray_ok = True,
      oom = 99\<rparr>"

definition example_world :: world where
  "example_world =
     \<lparr>errno = 7,
      pending = None,
      objects = (\<lambda>_. None),
      next_ref = 100,
      heap = (\<lambda>_. None),
      next_addr = 0,
      avail = 4096,
      uninit = (\<lambda>_. 170),
      errnoExceptionClass = None,
      fileDescriptorClass = None,
      fileDescriptorDescriptorField = None,
      constructor3 = None,
      constructor2 = None,
      calls = 0,
      trace = []\<rparr>"

section \<open>When the symbols resolve\<close>

text \<open>
  \<open>class_handle\<close> is the handle a class getter hands out: the cached one, else the global
  reference of the class the runtime finds; \<open>None\<close> when the lookup fails (and the getter
  aborts). \<open>member_handle\<close> is the same for a field or a constructor, given what the lookup
  in the resolved class finds. \<open>symbols_resolve env w cls m3 m2\<close> says that
  \<open>throwErrnoException\<close> finds, in the caches of \<open>w\<close> or through \<open>env\<close>, the exception class
  \<open>cls\<close> and its constructors \<open>m3\<close> (with a cause) and \<open>m2\<close> (without).
\<close>

definition class_handle :: "JNIEnv \<Rightarrow> string \<Rightarrow> nat option \<Rightarrow> nat option" where
  "class_handle env name cache =
     (case cache of
        Some c \<Rightarrow> Some c
      | None \<Rightarrow> (case FindClass env name of None \<Rightarrow> None | Some l \<Rightarrow> NewGlobalRef env l))"

definition member_handle :: "nat option \<Rightarrow> nat option \<Rightarrow> nat option" where
  "member_handle cache found = (case cache of Some m \<Rightarrow> Some m | None \<Rightarrow> found)"

definition symbols_resolve :: "JNIEnv \<Rightarrow> world \<Rightarrow> nat \<Rightarrow> nat \<Rightarrow> nat \<Rightarrow> bool" where
  "symbols_resolve env w cls m3 m2 =
     (class_handle env ''android/system/ErrnoException'' (errnoExceptionClass w) = Some cls
      \<and> member_handle (constructor3 w)
            (GetMethodID env cls ''<init>'' ''(Ljava/lang/String;ILjava/lang/Throwable;)V'')
          = Some m3
      \<and> member_handle (constructor2 w)
            (GetMethodID env cls ''<init>'' ''(Ljava/lang/String;I)V'') = Some m2)"

definition descriptor_resolves :: "JNIEnv \<Rightarrow> world \<Rightarrow> nat \<Rightarrow> bool" where
  "descriptor_resolves env w field =
     (case fileDescriptorDescriptorField w of
        Some f \<Rightarrow> f = field
      | None \<Rightarrow>
          (case class_handle env ''java/io/FileDescriptor'' (fileDescriptorClass w) of
             None \<Rightarrow> False
           | Some cls \<Rightarrow> GetFieldID env cls ''descriptor'' ''I'' = Some field))"

text \<open>The events of a symbol lookup.\<close>

fun is_lookup :: "event \<Rightarrow> bool" where
  "is_lookup (EvFindClass _) = True"
| "is_lookup (EvGetFieldID _ _) = True"
| "is_lookup (EvGetMethodID _ _) = True"
| "is_lookup _ = False"

section \<open>What the caller sees\<close>

text \<open>
  \<open>raised w w' msg code\<close>: the exception pending in \<open>w'\<close> is an object built since \<open>w\<close>, with
  message \<open>msg\<close> (\<open>None\<close> for a null message) and error code \<open>code\<close>. \<open>is_raise\<close> picks the
  events of building and throwing an exception.
\<close>

definition raised :: "world \<Rightarrow> world \<Rightarrow> string option \<Rightarrow> cint \<Rightarrow> bool" where
  "raised w w' msg code =
     (case pending w' of
        None \<Rightarrow> False
      | Some e \<Rightarrow>
          next_ref w \<le> e \<and>
          (case objects w' e of
             None \<Rightarrow> False
           | Some x \<Rightarrow> detailMessage x = msg \<and> errorCode x = code))"

fun is_raise :: "event \<Rightarrow> bool" where
  "is_raise (EvNewObject _ _) = True"
| "is_raise (EvThrow _) = True"
| "is_raise _ = False"

definition pending_exception :: "world \<Rightarrow> jexception option" where
  "pending_exception w = (case pending w of None \<Rightarrow> None | Some e \<Rightarrow> objects w e)"

text \<open>A library whose every invocation fails with the error code \<open>e\<close>.\<close>

definition lib_fails :: "cint \<Rightarrow> nat \<Rightarrow> response" where
  "lib_fails e k = \<lparr>rc = - 1, set_errno = Some e, out = None\<rparr>"

text \<open>
  A library whose every invocation succeeds: it returns \<open>0\<close>, leaves \<^verbatim>\<open>errno\<close> alone and
  stores the context \<open>bs\<close>, terminated, through its output argument.
\<close>

definition lib_gives :: "byte list \<Rightarrow> nat \<Rightarrow> response" where
  "lib_gives bs k = \<lparr>rc = 0, set_errno = None, out = Some (bs @ [0])\<rparr>"

section \<open>The buffer discipline, seen in the trace\<close>

text \<open>
  \<open>watched\<close> picks the steps that the buffer discipline is about: allocating and freeing a
  native buffer, and the inspection of \<^verbatim>\<open>errno\<close> after the native call.
  \<open>appends_unwatched v v'\<close> says that from \<open>v\<close> to \<open>v'\<close> the trace has only grown, by steps
  that are not watched.
\<close>

fun watched :: "event \<Rightarrow> bool" where
  "watched (EvMalloc _ _) = True"
| "watched (EvFree _) = True"
| "watched (EvInspectErrno _) = True"
| "watched _ = False"

definition appends_unwatched :: "world \<Rightarrow> world \<Rightarrow> bool" where
  "appends_unwatched v v' = (\<exists>evs. trace v' = trace v @ evs \<and> filter watched evs = [])"

text \<open>
  A library whose first \<open>N\<close> invocations are interrupted (they return \<open>-1\<close> and store
  \<^verbatim>\<open>EINTR\<close> in \<^verbatim>\<open>errno\<close>) and whose later invocations succeed: they return \<open>0\<close> and, as a
  successful call does, store nothing in \<^verbatim>\<open>errno\<close>.
\<close>

definition interrupted_then_ok :: "nat \<Rightarrow> nat \<Rightarrow> response" where
  "interrupted_then_ok N k =
     (if k < N then \<lparr>rc = - 1, set_errno = Some EINTR, out = None\<rparr>
      else \<lparr>rc = 0, set_errno = None, out = None\<rparr>)"

section \<open>Marshaling: the round trip\<close>

lemma strlen_block_terminated:
  "strlen_block (B @ [0]) = Some (length (takeWhile (\<lambda>b. b \<noteq> 0) B))"
  by (induction B) auto

lemma jsize_of_size_t_small: "n < 2 ^ 31 \<Longrightarrow> jsize_of_size_t n = int n"
proof -
  assume "n < 2 ^ 31"
  then have "int n < 2 ^ 31" by simp
  moreover have "- (2 ^ 31) \<le> int n" by simp
  ultimately have "signed_take_bit 31 (int n) = int n"
    by (simp add: signed_take_bit_int_eq_self)
  then show ?thesis
    by (simp add: jsize_of_size_t_def signed_of_nat)
qed

lemma take_takeWhile_snoc:
  "take (length (takeWhile P B)) (B @ [x]) = takeWhile P B"
proof -
  have "take (length (takeWhile P B)) (B @ [x]) = take (length (takeWhile P B)) B"
    by (simp add: length_takeWhile_le)
  also have "\<dots> = takeWhile P B"
    by (simp add: takeWhile_eq_take [symmetric])
  finally show ?thesis .
qed

lemma mallocStringFromBytes_ok:
  assumes "GetByteArrayElements_ok env" and "length B + 1 \<le> avail w"
  shows "mallocStringFromBytes env B w =
     (Returned (Some (next_addr w)),
      log_event (EvMalloc (next_addr w) (length B + 1))
        (w\<lparr>heap := (heap w)(next_addr w \<mapsto> B @ [0]),
           next_addr := Suc (next_addr w),
           avail := avail w - (length B + 1)\<rparr>))"
  using assms
  by (simp add: mallocStringFromBytes_def GetByteArrayElements_def GetArrayLength_def malloc_def
      memcpy_def store_byte_def bindM_def log_event_def Let_def)

lemma newBytesFromString_terminated:
  assumes "NewByteArray_ok env" and "heap w a = Some (B @ [0])" and "length B < 2 ^ 31"
  shows "newBytesFromString env (Some a) w =
     (Returned (Some (takeWhile (\<lambda>b. b \<noteq> 0) B)), w)"
proof -
  let ?n = "length (takeWhile (\<lambda>b. b \<noteq> 0) B)"
  have "?n \<le> length B" by (rule length_takeWhile_le)
  then have "?n < 2 ^ 31" using assms(3) by simp
  then have js: "jsize_of_size_t ?n = int ?n" by (rule jsize_of_size_t_small)
  show ?thesis
    using assms(1,2) js
    by (simp add: newBytesFromString_def strlen_block_terminated NewByteArray_def
        SetByteArrayRegion_def take_takeWhile_snoc del: take_append)
qed

text \<open>
  C1, as the code has it. For every byte array \<open>B\<close> (of a length a Java array can have), when
  the runtime hands out the array's elements and \<^verbatim>\<open>malloc\<close> finds \<open>length B + 1\<close> bytes,
  \<open>mallocStringFromBytes\<close> returns a fresh block of exactly \<open>length B + 1\<close> bytes that
  holds the bytes of \<open>B\<close> followed by the terminator 0. When the runtime can allocate the new
  array, \<open>newBytesFromString\<close> on that block returns the bytes of \<open>B\<close> before its first zero
  byte: all of \<open>B\<close> exactly when \<open>B\<close> holds no zero byte.
\<close>

theorem C1_round_trip_up_to_first_zero:
  assumes "GetByteArrayElements_ok env" and "NewByteArray_ok env"
    and "length B + 1 \<le> avail w" and "length B < 2 ^ 31"
  shows "\<exists>str w1 block.
           mallocStringFromBytes env B w = (Returned (Some str), w1)
         \<and> heap w1 str = Some block
         \<and> length block = length B + 1
         \<and> take (length B) block = B
         \<and> last block = 0
         \<and> newBytesFromString env (Some str) w1 =
             (Returned (Some (takeWhile (\<lambda>b. b \<noteq> 0) B)), w1)
         \<and> (0 \<notin> set B \<longrightarrow>
             newBytesFromString env (Some str) w1 = (Returned (Some B), w1))"
proof -
  define w1 where "w1 = snd (mallocStringFromBytes env B w)"
  have m: "mallocStringFromBytes env B w = (Returned (Some (next_addr w)), w1)"
    unfolding w1_def using assms(1,3) by (simp add: mallocStringFromBytes_ok)
  have h: "heap w1 (next_addr w) = Some (B @ [0])"
    unfolding w1_def using assms(1,3) by (simp add: mallocStringFromBytes_ok log_event_def)
  have n: "newBytesFromString env (Some (next_addr w)) w1 =
      (Returned (Some (takeWhile (\<lambda>b. b \<noteq> 0) B)), w1)"
    using assms(2) h assms(4) by (rule newBytesFromString_terminated)
  have z: "0 \<notin> set B \<Longrightarrow> takeWhile (\<lambda>b. b \<noteq> 0) B = B"
    by (rule takeWhile_eq_all_conv [THEN iffD2]) auto
  show ?thesis
    using m h n z by auto
qed

theorem C1_round_trip_witness:
  "\<exists>str w1 block.
     mallocStringFromBytes example_env [97, 98] example_world = (Returned (Some str), w1)
   \<and> heap w1 str = Some block
   \<and> length block = 3
   \<and> last block = 0
   \<and> newBytesFromString example_env (Some str) w1 = (Returned (Some [97, 98]), w1)"
proof -
  have e1: "GetByteArrayElements_ok example_env" and e2: "NewByteArray_ok example_env"
    by (simp_all add: example_env_def)
  have e3: "length [97, 98 :: byte] + 1 \<le> avail example_world"
    by (simp add: example_world_def)
  have e4: "length [97, 98 :: byte] < 2 ^ 31"
    by simp
  from C1_round_trip_up_to_first_zero [OF e1 e2 e3 e4]
  obtain str w1 block where
    "mallocStringFromBytes example_env [97, 98] example_world = (Returned (Some str), w1)"
    "heap w1 str = Some block"
    "length block = length [97, 98 :: byte] + 1"
    "last block = 0"
    "newBytesFromString example_env (Some str) w1 =
       (Returned (Some (takeWhile (\<lambda>b. b \<noteq> 0) [97, 98])), w1)"
    by blast
  then show ?thesis
    by simp
qed

theorem C1_embedded_zero_counterexample:
  "fst (mallocStringFromBytes example_env [1, 0, 2] example_world) = Returned (Some 0)
   \<and> fst (newBytesFromString example_env (Some 0)
            (snd (mallocStringFromBytes example_env [1, 0, 2] example_world)))
       = Returned (Some [1])
   \<and> [1 :: byte] \<noteq> [1, 0, 2]"
  by (simp add: mallocStringFromBytes_def GetByteArrayElements_def GetArrayLength_def malloc_def
      memcpy_def store_byte_def bindM_def log_event_def Let_def newBytesFromString_def
      NewByteArray_def SetByteArrayRegion_def jsize_of_size_t_def example_env_def
      example_world_def)

section \<open>The retry loop\<close>

lemma retry_loop_exit:
  "exp st w = (r, st1, w1) \<Longrightarrow> errno w1 \<noteq> EINTR \<Longrightarrow> retry_loop exp st w = Some (r, st1, w1)"
  by (subst retry_loop.simps) simp

lemma retry_loop_again:
  "exp st w = (r, st1, w1) \<Longrightarrow> errno w1 = EINTR \<Longrightarrow> retry_loop exp st w = retry_loop exp st1 w1"
  by (subst retry_loop.simps) simp

text \<open>
  What a run that leaves the loop ends with: the last evaluation of the expression, from a
  state that an invariant of the retried evaluations holds in, with \<^verbatim>\<open>errno\<close> other than
  \<^verbatim>\<open>EINTR\<close>.
\<close>

lemma retry_loop_final_aux:
  assumes "retry_loop exp0 st w = Some y"
  shows "exp0 = exp \<longrightarrow> I st w \<longrightarrow>
         (\<forall>s v a s1 v1. I s v \<longrightarrow> exp s v = (a, s1, v1) \<longrightarrow> errno v1 = EINTR \<longrightarrow> I s1 v1) \<longrightarrow>
         (\<exists>stp wp. I stp wp \<and> exp stp wp = y \<and> errno (snd (snd y)) \<noteq> EINTR)"
proof (rule retry_loop.raw_induct [where P = "\<lambda>exp0 st w y. exp0 = exp \<longrightarrow> I st w \<longrightarrow>
         (\<forall>s v a s1 v1. I s v \<longrightarrow> exp s v = (a, s1, v1) \<longrightarrow> errno v1 = EINTR \<longrightarrow> I s1 v1) \<longrightarrow>
         (\<exists>stp wp. I stp wp \<and> exp stp wp = y \<and> errno (snd (snd y)) \<noteq> EINTR)", OF _ assms])
  fix loop exp0 st w y
  assume IH: "\<And>e s v z. loop e s v = Some z \<Longrightarrow> e = exp \<longrightarrow> I s v \<longrightarrow>
         (\<forall>s v a s1 v1. I s v \<longrightarrow> exp s v = (a, s1, v1) \<longrightarrow> errno v1 = EINTR \<longrightarrow> I s1 v1) \<longrightarrow>
         (\<exists>stp wp. I stp wp \<and> exp stp wp = z \<and> errno (snd (snd z)) \<noteq> EINTR)"
    and prems: "(case exp0 st w of
        (r, st1, w1) \<Rightarrow> if errno w1 = EINTR then loop exp0 st1 w1 else Some (r, st1, w1)) = Some y"
  show "exp0 = exp \<longrightarrow> I st w \<longrightarrow>
         (\<forall>s v a s1 v1. I s v \<longrightarrow> exp s v = (a, s1, v1) \<longrightarrow> errno v1 = EINTR \<longrightarrow> I s1 v1) \<longrightarrow>
         (\<exists>stp wp. I stp wp \<and> exp stp wp = y \<and> errno (snd (snd y)) \<noteq> EINTR)"
  proof (intro impI)
    assume e: "exp0 = exp" and i: "I st w"
      and step: "\<forall>s v a s1 v1. I s v \<longrightarrow> exp s v = (a, s1, v1) \<longrightarrow> errno v1 = EINTR \<longrightarrow> I s1 v1"
    obtain r st1 w1 where x: "exp st w = (r, st1, w1)"
      by (cases "exp st w") auto
    show "\<exists>stp wp. I stp wp \<and> exp stp wp = y \<and> errno (snd (snd y)) \<noteq> EINTR"
    proof (cases "errno w1 = EINTR")
      case True
      with prems e x have "loop exp st1 w1 = Some y" by simp
      moreover from step i x True have "I st1 w1" by blast
      ultimately show ?thesis using IH step by blast
    next
      case False
      with prems e x have "y = (r, st1, w1)" by simp
      with i x False show ?thesis by auto
    qed
  qed
qed

lemma retry_loop_final:
  assumes "retry_loop exp st w = Some (r, st', w')" and "I st w"
    and "\<And>s v a s1 v1. I s v \<Longrightarrow> exp s v = (a, s1, v1) \<Longrightarrow> errno v1 = EINTR \<Longrightarrow> I s1 v1"
  shows "\<exists>stp wp. I stp wp \<and> exp stp wp = (r, st', w') \<and> errno w' \<noteq> EINTR"
  using retry_loop_final_aux [OF assms(1), of exp I] assms(2,3) by auto

text \<open>A run that can only see \<^verbatim>\<open>EINTR\<close> after every evaluation never leaves the loop.\<close>

lemma retry_loop_diverges_aux:
  assumes "retry_loop exp0 st w = Some y"
  shows "exp0 = exp \<longrightarrow>
         (\<forall>s v a s1 v1. I s v \<longrightarrow> exp s v = (a, s1, v1) \<longrightarrow> errno v1 = EINTR \<and> I s1 v1) \<longrightarrow>
         \<not> I st w"
proof (rule retry_loop.raw_induct [where P = "\<lambda>exp0 st w y. exp0 = exp \<longrightarrow>
         (\<forall>s v a s1 v1. I s v \<longrightarrow> exp s v = (a, s1, v1) \<longrightarrow> errno v1 = EINTR \<and> I s1 v1) \<longrightarrow>
         \<not> I st w", OF _ assms])
  fix loop exp0 st w y
  assume IH: "\<And>e s v z. loop e s v = Some z \<Longrightarrow> e = exp \<longrightarrow>
         (\<forall>s v a s1 v1. I s v \<longrightarrow> exp s v = (a, s1, v1) \<longrightarrow> errno v1 = EINTR \<and> I s1 v1) \<longrightarrow>
         \<not> I s v"
    and prems: "(case exp0 st w of
        (r, st1, w1) \<Rightarrow> if errno w1 = EINTR then loop exp0 st1 w1 else Some (r, st1, w1)) = Some y"
  show "exp0 = exp \<longrightarrow>
         (\<forall>s v a s1 v1. I s v \<longrightarrow> exp s v = (a, s1, v1) \<longrightarrow> errno v1 = EINTR \<and> I s1 v1) \<longrightarrow>
         \<not> I st w"
  proof (intro impI notI)
    assume e: "exp0 = exp" and i: "I st w"
      and step: "\<forall>s v a s1 v1. I s v \<longrightarrow> exp s v = (a, s1, v1) \<longrightarrow> errno v1 = EINTR \<and> I s1 v1"
    obtain r st1 w1 where x: "exp st w = (r, st1, w1)"
      by (cases "exp st w") auto
    from step i x have again: "errno w1 = EINTR" and i1: "I st1 w1" by blast+
    from prems e x again have "loop exp st1 w1 = Some y" by simp
    with IH step i1 show False by blast
  qed
qed

lemma retry_loop_diverges:
  assumes "I st w"
    and "\<And>s v a s1 v1. I s v \<Longrightarrow> exp s v = (a, s1, v1) \<Longrightarrow> errno v1 = EINTR \<and> I s1 v1"
  shows "retry_loop exp st w = None"
proof (cases "retry_loop exp st w")
  case None
  then show ?thesis .
next
  case (Some y)
  from retry_loop_diverges_aux [OF Some, of exp I] assms show ?thesis by blast
qed

text \<open>The integer that the expression returns has no influence on the loop.\<close>

lemma retry_loop_rc_irrelevant_aux:
  assumes "retry_loop exp0 st w = Some y"
  shows "exp0 = exp \<longrightarrow> (\<forall>s v. snd (exp s v) = snd (exp' s v)) \<longrightarrow>
         (\<exists>r'. retry_loop exp' st w = Some (r', snd y))"
proof (rule retry_loop.raw_induct [where P = "\<lambda>exp0 st w y. exp0 = exp \<longrightarrow>
         (\<forall>s v. snd (exp s v) = snd (exp' s v)) \<longrightarrow>
         (\<exists>r'. retry_loop exp' st w = Some (r', snd y))", OF _ assms])
  fix loop exp0 st w y
  assume IH: "\<And>e s v z. loop e s v = Some z \<Longrightarrow> e = exp \<longrightarrow>
         (\<forall>s v. snd (exp s v) = snd (exp' s v)) \<longrightarrow>
         (\<exists>r'. retry_loop exp' s v = Some (r', snd z))"
    and prems: "(case exp0 st w of
        (r, st1, w1) \<Rightarrow> if errno w1 = EINTR then loop exp0 st1 w1 else Some (r, st1, w1)) = Some y"
  show "exp0 = exp \<longrightarrow> (\<forall>s v. snd (exp s v) = snd (exp' s v)) \<longrightarrow>
         (\<exists>r'. retry_loop exp' st w = Some (r', snd y))"
  proof (intro impI)
    assume e: "exp0 = exp" and same: "\<forall>s v. snd (exp s v) = snd (exp' s v)"
    obtain r st1 w1 where x: "exp st w = (r, st1, w1)"
      by (cases "exp st w") auto
    from same have "snd (exp st w) = snd (exp' st w)" by blast
    with x obtain r' where x': "exp' st w = (r', st1, w1)"
      by (cases "exp' st w") auto
    show "\<exists>r'. retry_loop exp' st w = Some (r', snd y)"
    proof (cases "errno w1 = EINTR")
      case True
      with prems e x have "loop exp st1 w1 = Some y" by simp
      with IH same obtain r2 where "retry_loop exp' st1 w1 = Some (r2, snd y)" by blast
      with x' True show ?thesis by (simp add: retry_loop_again)
    next
      case False
      with prems e x have "y = (r, st1, w1)" by simp
      with x' False show ?thesis by (simp add: retry_loop_exit)
    qed
  qed
qed

lemma retry_loop_rc_irrelevant:
  assumes "\<And>s v. snd (exp s v) = snd (exp' s v)"
  shows "map_option snd (retry_loop exp st w) = map_option snd (retry_loop exp' st w)"
proof (cases "retry_loop exp st w")
  case None
  show ?thesis
  proof (cases "retry_loop exp' st w")
    case None
    with \<open>retry_loop exp st w = None\<close> show ?thesis by simp
  next
    case (Some y')
    from retry_loop_rc_irrelevant_aux [OF Some, of exp' exp] assms None
    show ?thesis by auto
  qed
next
  case (Some y)
  from retry_loop_rc_irrelevant_aux [OF Some, of exp exp'] assms
  obtain r' where "retry_loop exp' st w = Some (r', snd y)" by auto
  with Some show ?thesis by simp
qed

text \<open>Unfolding the loop on a run whose evaluations are known.\<close>

lemma retry_loop_once:
  "errno (snd (snd (exp st w))) \<noteq> EINTR \<Longrightarrow> retry_loop exp st w = Some (exp st w)"
  by (subst retry_loop.simps) (simp add: case_prod_beta)

lemma retry_loop_more:
  "errno (snd (snd (exp st w))) = EINTR \<Longrightarrow>
   retry_loop exp st w = retry_loop exp (fst (snd (exp st w))) (snd (snd (exp st w)))"
  by (subst retry_loop.simps) (simp add: case_prod_beta)

text \<open>A native call that is not interrupted is invoked once.\<close>

lemma TEMP_FAILURE_RETRY_plain_once:
  assumes "set_errno (lib (calls w)) \<noteq> Some EINTR"
  shows "TEMP_FAILURE_RETRY (native_plain lib f) u w
         = Some (native_plain lib f u (w\<lparr>errno := 0\<rparr>))"
  unfolding TEMP_FAILURE_RETRY_def
  using assms
  by (intro retry_loop_once)
     (auto simp: native_plain_def native_call_def log_event_def EINTR_def Let_def
        split: option.splits)

lemma TEMP_FAILURE_RETRY_get_once:
  assumes "set_errno (lib (calls w)) \<noteq> Some EINTR"
  shows "TEMP_FAILURE_RETRY (native_get lib f) ctx w
         = Some (native_get lib f ctx (w\<lparr>errno := 0\<rparr>))"
  unfolding TEMP_FAILURE_RETRY_def
  using assms
  by (intro retry_loop_once)
     (auto simp: native_get_def native_call_def log_event_def EINTR_def Let_def
        split: option.splits)

section \<open>The symbol cache: resolution, abort, reuse\<close>

lemma getErrnoExceptionClass_cached:
  "errnoExceptionClass w = Some c \<Longrightarrow> getErrnoExceptionClass env w = (Returned c, w)"
  by (simp add: getErrnoExceptionClass_def)

lemma getFileDescriptorClass_cached:
  "fileDescriptorClass w = Some c \<Longrightarrow> getFileDescriptorClass env w = (Returned c, w)"
  by (simp add: getFileDescriptorClass_def)

lemma getFileDescriptorDescriptorField_cached:
  "fileDescriptorDescriptorField w = Some f \<Longrightarrow>
   getFileDescriptorDescriptorField env w = (Returned f, w)"
  by (simp add: getFileDescriptorDescriptorField_def)

lemma findClass_result:
  "findClass env name w =
     (case class_handle env name None of None \<Rightarrow> Aborted | Some g \<Rightarrow> Returned g,
      log_event (EvFindClass name) w)"
  by (simp add: findClass_def class_handle_def Let_def split: option.splits)

lemma getErrnoExceptionClass_resolves:
  assumes "class_handle env ''android/system/ErrnoException'' (errnoExceptionClass w) = Some cls"
  shows "\<exists>evs. list_all is_lookup evs \<and>
           getErrnoExceptionClass env w =
             (Returned cls, w\<lparr>errnoExceptionClass := Some cls, trace := trace w @ evs\<rparr>)"
proof (cases "errnoExceptionClass w")
  case None
  with assms have "getErrnoExceptionClass env w =
      (Returned cls, w\<lparr>errnoExceptionClass := Some cls,
                       trace := trace w @ [EvFindClass ''android/system/ErrnoException'']\<rparr>)"
    by (simp add: getErrnoExceptionClass_def findClass_result bindM_def log_event_def)
  then show ?thesis
    by (intro exI [of _ "[EvFindClass ''android/system/ErrnoException'']"]) simp
next
  case (Some c)
  with assms have "c = cls" by (simp add: class_handle_def)
  with Some have "getErrnoExceptionClass env w =
      (Returned cls, w\<lparr>errnoExceptionClass := Some cls, trace := trace w @ []\<rparr>)"
    by (simp add: getErrnoExceptionClass_def)
  then show ?thesis
    by (intro exI [of _ "[]"]) simp
qed

section \<open>Raising: what the thrown exception is\<close>

text \<open>
  \<open>throwException\<close> in a runtime that can allocate the exception object. The new object is
  built with the constructor for a cause exactly when an exception was pending; its message is
  the function name, or NULL when the runtime could not allocate the string (the branch "let's
  try to stumble on" of the source).
\<close>

lemma throwException_result:
  assumes "NewObject_ok env"
  shows "throwException env cls m3 m2 fn err w =
     (Returned (),
      w\<lparr>pending := Some (next_ref w),
        objects := (objects w)(next_ref w \<mapsto>
           \<lparr>clazz = cls,
            constructor = (case pending w of None \<Rightarrow> m2 | Some _ \<Rightarrow> m3),
            detailMessage = (if NewStringUTF_ok env then Some fn else None),
            errorCode = err,
            cause = pending w\<rparr>),
        next_ref := Suc (next_ref w),
        trace := trace w
          @ (case pending w of None \<Rightarrow> [] | Some _ \<Rightarrow> [EvExceptionClear])
          @ (if NewStringUTF_ok env then [] else [EvExceptionClear])
          @ [EvNewObject (next_ref w) None, EvThrow (next_ref w)]\<rparr>)"
  using assms
  by (cases "pending w"; cases "NewStringUTF_ok env")
     (simp_all add: throwException_def ExceptionCheck_def ExceptionOccurred_def
        ExceptionClear_def NewStringUTF_def NewObject_def Throw_def log_event_def)

lemma findMethod_result:
  "findMethod env cls name signature w =
     (case GetMethodID env cls name signature of None \<Rightarrow> Aborted | Some m \<Rightarrow> Returned m,
      log_event (EvGetMethodID name signature) w)"
  by (simp add: findMethod_def Let_def split: option.splits)

lemma findField_result:
  "findField env cls name signature w =
     (case GetFieldID env cls name signature of None \<Rightarrow> Aborted | Some f \<Rightarrow> Returned f,
      log_event (EvGetFieldID name signature) w)"
  by (simp add: findField_def Let_def split: option.splits)

text \<open>
  When the symbols resolve, \<open>throwErrnoException\<close> is \<open>throwException\<close> on the resolved
  handles and the \<^verbatim>\<open>errno\<close> read at entry; the lookups only fill the caches and log their
  events.
\<close>

lemma throwErrnoException_resolved_events:
  assumes "symbols_resolve env w cls m3 m2"
  shows "throwErrnoException env fn w =
           throwException env cls m3 m2 fn (errno w)
             (w\<lparr>errnoExceptionClass := Some cls, constructor3 := Some m3,
                constructor2 := Some m2,
                trace := trace w
                  @ (case constructor3 w of
                       None \<Rightarrow>
                         (case errnoExceptionClass w of
                            None \<Rightarrow> [EvFindClass ''android/system/ErrnoException'']
                          | Some _ \<Rightarrow> [])
                         @ [EvGetMethodID ''<init>''
                              ''(Ljava/lang/String;ILjava/lang/Throwable;)V'']
                     | Some _ \<Rightarrow> [])
                  @ (case constructor2 w of
                       None \<Rightarrow>
                         (case errnoExceptionClass w of
                            None \<Rightarrow>
                              (case constructor3 w of
                                 None \<Rightarrow> []
                               | Some _ \<Rightarrow> [EvFindClass ''android/system/ErrnoException''])
                          | Some _ \<Rightarrow> [])
                         @ [EvGetMethodID ''<init>'' ''(Ljava/lang/String;I)V'']
                     | Some _ \<Rightarrow> [])
                  @ (case errnoExceptionClass w of
                       None \<Rightarrow>
                         (case (constructor3 w, constructor2 w) of
                            (Some _, Some _) \<Rightarrow> [EvFindClass ''android/system/ErrnoException'']
                          | _ \<Rightarrow> [])
                     | Some _ \<Rightarrow> [])\<rparr>)"
  using assms
  by (cases w)
     (auto simp: symbols_resolve_def class_handle_def member_handle_def throwErrnoException_def
        getErrnoExceptionClass_def findClass_def findMethod_def bindM_def log_event_def Let_def
        split: option.splits)


lemma throwErrnoException_raises:
  assumes "symbols_resolve env w cls m3 m2" and "NewObject_ok env"
  shows "\<exists>evs. list_all (\<lambda>e. is_lookup e \<or> e = EvExceptionClear) evs
           \<and> (pending w = None \<or> EvExceptionClear \<in> set evs)
           \<and> throwErrnoException env fn w =
               (Returned (),
                w\<lparr>pending := Some (next_ref w),
                  objects := (objects w)(next_ref w \<mapsto>
                     \<lparr>clazz = cls,
                      constructor = (case pending w of None \<Rightarrow> m2 | Some _ \<Rightarrow> m3),
                      detailMessage = (if NewStringUTF_ok env then Some fn else None),
                      errorCode = errno w,
                      cause = pending w\<rparr>),
                  next_ref := Suc (next_ref w),
                  errnoExceptionClass := Some cls,
                  constructor3 := Some m3,
                  constructor2 := Some m2,
                  trace := trace w @ evs
                    @ [EvNewObject (next_ref w) None, EvThrow (next_ref w)]\<rparr>)"
proof -
  define lk where "lk = (case constructor3 w of
                       None \<Rightarrow>
                         (case errnoExceptionClass w of
                            None \<Rightarrow> [EvFindClass ''android/system/ErrnoException'']
                          | Some _ \<Rightarrow> [])
                         @ [EvGetMethodID ''<init>''
                              ''(Ljava/lang/String;ILjava/lang/Throwable;)V'']
                     | Some _ \<Rightarrow> [])
                  @ (case constructor2 w of
                       None \<Rightarrow>
                         (case errnoExceptionClass w of
                            None \<Rightarrow>
                              (case constructor3 w of
                                 None \<Rightarrow> []
                               | Some _ \<Rightarrow> [EvFindClass ''android/system/ErrnoException''])
                          | Some _ \<Rightarrow> [])
                         @ [EvGetMethodID ''<init>'' ''(Ljava/lang/String;I)V'']
                     | Some _ \<Rightarrow> [])
                  @ (case errnoExceptionClass w of
                       None \<Rightarrow>
                         (case (constructor3 w, constructor2 w) of
                            (Some _, Some _) \<Rightarrow> [EvFindClass ''android/system/ErrnoException'']
                          | _ \<Rightarrow> [])
                     | Some _ \<Rightarrow> [])"
  define evs where "evs = lk @ (case pending w of None \<Rightarrow> [] | Some _ \<Rightarrow> [EvExceptionClear])
          @ (if NewStringUTF_ok env then [] else [EvExceptionClear])"
  have "list_all is_lookup lk"
    by (simp add: lk_def split: option.splits)
  then have "list_all (\<lambda>e. is_lookup e \<or> e = EvExceptionClear) lk"
    by (simp add: list_all_iff)
  then have 1: "list_all (\<lambda>e. is_lookup e \<or> e = EvExceptionClear) evs"
    by (simp add: evs_def split: option.splits)
  have 2: "pending w = None \<or> EvExceptionClear \<in> set evs"
    by (cases "pending w") (simp_all add: evs_def)
  have "throwErrnoException env fn w =
           throwException env cls m3 m2 fn (errno w)
             (w\<lparr>errnoExceptionClass := Some cls, constructor3 := Some m3,
                constructor2 := Some m2, trace := trace w @ lk\<rparr>)"
    unfolding lk_def by (rule throwErrnoException_resolved_events [OF assms(1)])
  then have 3: "throwErrnoException env fn w =
               (Returned (),
                w\<lparr>pending := Some (next_ref w),
                  objects := (objects w)(next_ref w \<mapsto>
                     \<lparr>clazz = cls,
                      constructor = (case pending w of None \<Rightarrow> m2 | Some _ \<Rightarrow> m3),
                      detailMessage = (if NewStringUTF_ok env then Some fn else None),
                      errorCode = errno w,
                      cause = pending w\<rparr>),
                  next_ref := Suc (next_ref w),
                  errnoExceptionClass := Some cls,
                  constructor3 := Some m3,
                  constructor2 := Some m2,
                  trace := trace w @ evs
                    @ [EvNewObject (next_ref w) None, EvThrow (next_ref w)]\<rparr>)"
    by (cases w) (simp add: throwException_result [OF assms(2)] evs_def)
  from 1 2 3 show ?thesis by blast
qed

section \<open>What the retried native call leaves behind\<close>

text \<open>
  A run of the macro on a function without a context argument that leaves the loop has made
  one or more invocations; it changes \<^verbatim>\<open>errno\<close>, the count of invocations and the trace,
  and nothing else. Its value is the integer of the last invocation.
\<close>

lemma native_plain_step:
  assumes "native_plain lib f u v = (a, u1, v1)"
  shows "v1 = v\<lparr>errno := errno v1, calls := Suc (calls v),
                 trace := trace v @ [EvNativeCall f]\<rparr>"
    and "a = rc (lib (calls v))"
    and "errno v1 = (case set_errno (lib (calls v)) of None \<Rightarrow> errno v | Some e \<Rightarrow> e)"
  using assms
  by (cases v; auto simp: native_plain_def native_call_def log_event_def Let_def
        split: option.splits)+

lemma TEMP_FAILURE_RETRY_plain:
  assumes "TEMP_FAILURE_RETRY (native_plain lib f) u w = Some (r, u', w')"
  shows "\<exists>n E. w' = w\<lparr>errno := E, calls := calls w + Suc n,
                       trace := trace w @ replicate (Suc n) (EvNativeCall f)\<rparr>
              \<and> r = rc (lib (calls w + n)) \<and> E \<noteq> EINTR"
proof -
  define I where "I = (\<lambda>(s :: unit) v. \<exists>n. v = w\<lparr>errno := errno v, calls := calls w + n,
                     trace := trace w @ replicate n (EvNativeCall f)\<rparr>)"
  from assms have run: "retry_loop (native_plain lib f) u (w\<lparr>errno := 0\<rparr>) = Some (r, u', w')"
    by (simp add: TEMP_FAILURE_RETRY_def)
  have init: "I u (w\<lparr>errno := 0\<rparr>)"
    unfolding I_def by (rule exI [of _ 0]) (cases w, simp)
  have next_state: "\<exists>n. v1 = w\<lparr>errno := errno v1, calls := calls w + Suc n,
                     trace := trace w @ replicate (Suc n) (EvNativeCall f)\<rparr>
                  \<and> a = rc (lib (calls w + n))"
    if "I s v" and "native_plain lib f s v = (a, s1, v1)" for s v a s1 v1
  proof -
    from that(1) [unfolded I_def] obtain n where v: "v = w\<lparr>errno := errno v, calls := calls w + n,
                     trace := trace w @ replicate n (EvNativeCall f)\<rparr>" by blast
    have c: "calls v = calls w + n" and t: "trace v = trace w @ replicate n (EvNativeCall f)"
      by (subst v, simp)+
    note v1 = native_plain_step(1) [OF that(2)]
    have "v1 = w\<lparr>errno := errno v1, calls := calls w + Suc n,
                     trace := trace w @ replicate (Suc n) (EvNativeCall f)\<rparr>"
      by (subst v1, subst v) (simp add: c t replicate_append_same)
    with native_plain_step(2) [OF that(2)] c show ?thesis by auto
  qed
  have step: "I s1 v1"
    if "I s v" and "native_plain lib f s v = (a, s1, v1)" and "errno v1 = EINTR" for s v a s1 v1
    using next_state [OF that(1,2)] unfolding I_def by blast
  from retry_loop_final [where I = I, OF run init] step
  obtain stp wp where i: "I stp wp" and x: "native_plain lib f stp wp = (r, u', w')"
    and e: "errno w' \<noteq> EINTR"
    by blast
  from next_state [OF i x]
  obtain n where "w' = w\<lparr>errno := errno w', calls := calls w + Suc n,
                     trace := trace w @ replicate (Suc n) (EvNativeCall f)\<rparr>"
    and "r = rc (lib (calls w + n))" by blast
  with e show ?thesis
    by (intro exI [of _ n] exI [of _ "errno w'"] conjI) assumption+
qed

text \<open>
  The same for a function that stores a context: the library's blocks go to fresh addresses,
  so every block that existed before the call is still there, unchanged.
\<close>

lemma native_get_step:
  assumes "native_get lib f ctx v = (a, ctx1, v1)"
  shows "v1 = v\<lparr>errno := errno v1, heap := heap v1, next_addr := next_addr v1,
                 calls := Suc (calls v), trace := trace v @ [EvNativeCall f]\<rparr>"
    and "a = rc (lib (calls v))"
    and "errno v1 = (case set_errno (lib (calls v)) of None \<Rightarrow> errno v | Some e \<Rightarrow> e)"
    and "next_addr v \<le> next_addr v1"
    and "\<And>p. p < next_addr v \<Longrightarrow> heap v1 p = heap v p"
    and "ctx1 = ctx \<or> ctx1 = Some (next_addr v)"
  using assms
  by (cases v; auto simp: native_get_def native_call_def log_event_def Let_def
        split: option.splits)+

lemma TEMP_FAILURE_RETRY_get:
  assumes "TEMP_FAILURE_RETRY (native_get lib f) ctx w = Some (r, ctx', w')"
  shows "\<exists>n E H N. w' = w\<lparr>errno := E, heap := H, next_addr := N,
                     calls := calls w + Suc n,
                     trace := trace w @ replicate (Suc n) (EvNativeCall f)\<rparr>
            \<and> r = rc (lib (calls w + n)) \<and> E \<noteq> EINTR
            \<and> next_addr w \<le> N
            \<and> (\<forall>p. p < next_addr w \<longrightarrow> H p = heap w p)
            \<and> (ctx' = ctx \<or> (\<exists>c. ctx' = Some c \<and> next_addr w \<le> c))"
proof -
  define I where "I = (\<lambda>(s :: nat option) v.
              \<exists>n. v = w\<lparr>errno := errno v, heap := heap v, next_addr := next_addr v,
                         calls := calls w + n,
                         trace := trace w @ replicate n (EvNativeCall f)\<rparr>
                 \<and> next_addr w \<le> next_addr v
                 \<and> (\<forall>p. p < next_addr w \<longrightarrow> heap v p = heap w p)
                 \<and> (s = ctx \<or> (\<exists>c. s = Some c \<and> next_addr w \<le> c)))"
  from assms have run: "retry_loop (native_get lib f) ctx (w\<lparr>errno := 0\<rparr>) = Some (r, ctx', w')"
    by (simp add: TEMP_FAILURE_RETRY_def)
  have init: "I ctx (w\<lparr>errno := 0\<rparr>)"
    unfolding I_def by (rule exI [of _ 0]) (cases w, simp)
  have next_state: "\<exists>n. v1 = w\<lparr>errno := errno v1, heap := heap v1, next_addr := next_addr v1,
                     calls := calls w + Suc n,
                     trace := trace w @ replicate (Suc n) (EvNativeCall f)\<rparr>
                  \<and> a = rc (lib (calls w + n))
                  \<and> next_addr w \<le> next_addr v1
                  \<and> (\<forall>p. p < next_addr w \<longrightarrow> heap v1 p = heap w p)
                  \<and> (s1 = ctx \<or> (\<exists>c. s1 = Some c \<and> next_addr w \<le> c))"
    if "I s v" and "native_get lib f s v = (a, s1, v1)" for s v a s1 v1
  proof -
    from that(1) [unfolded I_def] obtain n where v: "v = w\<lparr>errno := errno v, heap := heap v,
                     next_addr := next_addr v, calls := calls w + n,
                     trace := trace w @ replicate n (EvNativeCall f)\<rparr>"
      and le: "next_addr w \<le> next_addr v"
      and same: "\<forall>p. p < next_addr w \<longrightarrow> heap v p = heap w p"
      and s: "s = ctx \<or> (\<exists>c. s = Some c \<and> next_addr w \<le> c)" by blast
    have c: "calls v = calls w + n" and t: "trace v = trace w @ replicate n (EvNativeCall f)"
      by (subst v, simp)+
    note v1 = native_get_step(1) [OF that(2)]
    have "v1 = w\<lparr>errno := errno v1, heap := heap v1, next_addr := next_addr v1,
                     calls := calls w + Suc n,
                     trace := trace w @ replicate (Suc n) (EvNativeCall f)\<rparr>"
      by (subst v1, subst v) (simp add: c t replicate_append_same)
    moreover from le native_get_step(4) [OF that(2)] have "next_addr w \<le> next_addr v1"
      by simp
    moreover have "\<forall>p. p < next_addr w \<longrightarrow> heap v1 p = heap w p"
      using same le native_get_step(5) [OF that(2)] by auto
    moreover have "s1 = ctx \<or> (\<exists>c. s1 = Some c \<and> next_addr w \<le> c)"
      using s le native_get_step(6) [OF that(2)] by auto
    ultimately show ?thesis
      using native_get_step(2) [OF that(2)] c by auto
  qed
  have step: "I s1 v1"
    if "I s v" and "native_get lib f s v = (a, s1, v1)" and "errno v1 = EINTR" for s v a s1 v1
    using next_state [OF that(1,2)] unfolding I_def by blast
  from retry_loop_final [where I = I, OF run init] step
  obtain stp wp where i: "I stp wp" and x: "native_get lib f stp wp = (r, ctx', w')"
    and e: "errno w' \<noteq> EINTR"
    by blast
  from next_state [OF i x]
  obtain n where "w' = w\<lparr>errno := errno w', heap := heap w', next_addr := next_addr w',
                     calls := calls w + Suc n,
                     trace := trace w @ replicate (Suc n) (EvNativeCall f)\<rparr>"
    and "r = rc (lib (calls w + n))"
    and "next_addr w \<le> next_addr w'"
    and "\<forall>p. p < next_addr w \<longrightarrow> heap w' p = heap w p"
    and "ctx' = ctx \<or> (\<exists>c. ctx' = Some c \<and> next_addr w \<le> c)" by blast
  with e show ?thesis
    by (intro exI [of _ n] exI [of _ "errno w'"] exI [of _ "heap w'"]
          exI [of _ "next_addr w'"] conjI) assumption+
qed

section \<open>Marshaling inside the operations\<close>

lemma mallocStringFromBytes_Returned:
  assumes "mallocStringFromBytes env B w = (Returned p, w1)"
  shows "GetByteArrayElements_ok env" and "length B + 1 \<le> avail w"
    and "p = Some (next_addr w)"
    and "w1 = w\<lparr>heap := (heap w)(next_addr w \<mapsto> B @ [0]),
                 next_addr := Suc (next_addr w),
                 avail := avail w - (length B + 1),
                 trace := trace w @ [EvMalloc (next_addr w) (length B + 1)]\<rparr>"
proof -
  show e: "GetByteArrayElements_ok env"
    using assms
    by (auto simp: mallocStringFromBytes_def GetByteArrayElements_def memcpy_def bindM_def
        Let_def split: prod.splits option.splits if_splits)
  show a: "length B + 1 \<le> avail w"
    using assms
    by (auto simp: mallocStringFromBytes_def GetArrayLength_def malloc_def memcpy_def bindM_def
        Let_def split: prod.splits option.splits if_splits)
  from assms mallocStringFromBytes_ok [OF e a]
  show "p = Some (next_addr w)"
    and "w1 = w\<lparr>heap := (heap w)(next_addr w \<mapsto> B @ [0]),
                 next_addr := Suc (next_addr w),
                 avail := avail w - (length B + 1),
                 trace := trace w @ [EvMalloc (next_addr w) (length B + 1)]\<rparr>"
    by (auto simp: log_event_def)
qed

section \<open>The operations, after the native call has returned\<close>

text \<open>
  Each lemma takes the results of the statements of the source up to the retried native
  call, and gives the rest of the run: the input buffers are freed, \<^verbatim>\<open>errno\<close> is
  inspected, and the operation raises or returns.
\<close>

lemma free_allocated:
  "heap v a = Some block \<Longrightarrow>
   free (Some a) v =
     (Returned (),
      v\<lparr>heap := (heap v)(a := None), avail := avail v + length block,
        trace := trace v @ [EvFree a]\<rparr>)"
  by (simp add: free_def log_event_def)

lemma doSetfilecon_after_call:
  assumes m1: "mallocStringFromBytes env javaPath w = (Returned path, w1)"
    and m2: "mallocStringFromBytes env javaContext w1 = (Returned ctx, w2)"
    and run: "TEMP_FAILURE_RETRY ((if isL then lsetfilecon else setfilecon) lib path ctx) () w2
                = Some (r, u, w3)"
  shows "\<exists>n. doSetfilecon env lib javaPath javaContext isL w =
           Some ((if errno w3 \<noteq> 0
                  then throwErrnoException env (if isL then ''lsetfilecon'' else ''setfilecon'')
                  else (\<lambda>v. (Returned (), v)))
                 (w\<lparr>errno := errno w3,
                    heap := (heap w)(next_addr w := None, Suc (next_addr w) := None),
                    next_addr := Suc (Suc (next_addr w)),
                    calls := calls w + Suc n,
                    trace := trace w
                      @ [EvMalloc (next_addr w) (length javaPath + 1),
                         EvMalloc (Suc (next_addr w)) (length javaContext + 1)]
                      @ replicate (Suc n)
                          (EvNativeCall (if isL then ''lsetfilecon'' else ''setfilecon''))
                      @ [EvFree (next_addr w), EvFree (Suc (next_addr w)),
                         EvInspectErrno (errno w3)]\<rparr>))"
proof -
  let ?name = "if isL then ''lsetfilecon'' else ''setfilecon''"
  let ?a = "next_addr w"
  note p = mallocStringFromBytes_Returned [OF m1]
  note c = mallocStringFromBytes_Returned [OF m2]
  from run have "TEMP_FAILURE_RETRY (native_plain lib ?name) () w2 = Some (r, u, w3)"
    by (simp add: lsetfilecon_def setfilecon_def split: if_splits)
  from TEMP_FAILURE_RETRY_plain [OF this]
  obtain n E where w3: "w3 = w2\<lparr>errno := E, calls := calls w2 + Suc n,
                     trace := trace w2 @ replicate (Suc n) (EvNativeCall ?name)\<rparr>"
    by blast
  have w2: "w2 = w\<lparr>heap := (heap w)(?a \<mapsto> javaPath @ [0], Suc ?a \<mapsto> javaContext @ [0]),
                 next_addr := Suc (Suc ?a),
                 avail := avail w - (length javaPath + 1) - (length javaContext + 1),
                 trace := trace w @ [EvMalloc ?a (length javaPath + 1),
                                     EvMalloc (Suc ?a) (length javaContext + 1)]\<rparr>"
    by (simp add: c(4) p(4))
  have space: "length javaPath + 1 + (length javaContext + 1) \<le> avail w"
    using p(2) c(2) by (simp add: p(4))
  have path: "path = Some ?a" and ctx: "ctx = Some (Suc ?a)"
    using p(3) c(3) by (simp_all add: p(4))
  define w4 where "w4 = w3\<lparr>heap := (heap w3)(?a := None),
      avail := avail w3 + length (javaPath @ [0]), trace := trace w3 @ [EvFree ?a]\<rparr>"
  define w5 where "w5 = w4\<lparr>heap := (heap w4)(Suc ?a := None),
      avail := avail w4 + length (javaContext @ [0]), trace := trace w4 @ [EvFree (Suc ?a)]\<rparr>"
  have "heap w3 ?a = Some (javaPath @ [0])"
    by (simp add: w3 w2)
  then have f1: "free path w3 = (Returned (), w4)"
    unfolding path w4_def by (rule free_allocated)
  have "heap w4 (Suc ?a) = Some (javaContext @ [0])"
    by (simp add: w4_def w3 w2)
  then have f2: "free ctx w4 = (Returned (), w5)"
    unfolding ctx w5_def by (rule free_allocated)
  have e5: "errno w5 = errno w3"
    by (simp add: w5_def w4_def)
  have fin: "log_event (EvInspectErrno (errno w3)) w5
           = w\<lparr>errno := errno w3,
                    heap := (heap w)(?a := None, Suc ?a := None),
                    next_addr := Suc (Suc ?a),
                    calls := calls w + Suc n,
                    trace := trace w
                      @ [EvMalloc ?a (length javaPath + 1),
                         EvMalloc (Suc ?a) (length javaContext + 1)]
                      @ replicate (Suc n) (EvNativeCall ?name)
                      @ [EvFree ?a, EvFree (Suc ?a), EvInspectErrno (errno w3)]\<rparr>"
    by (rule world.equality)
       (use space in \<open>simp_all add: log_event_def w5_def w4_def w3 w2\<close>)
  have "doSetfilecon env lib javaPath javaContext isL w =
          Some (bindM (free path)
                  (\<lambda>_. bindM (free ctx)
                     (\<lambda>_ w5. let w6 = log_event (EvInspectErrno (errno w5)) w5 in
                              if errno w6 \<noteq> 0
                              then throwErrnoException env ?name w6
                              else (Returned (), w6))) w3)"
    by (simp add: doSetfilecon_def m1 m2 run)
  also have "\<dots> =
           Some ((if errno w3 \<noteq> 0
                  then throwErrnoException env ?name
                  else (\<lambda>v. (Returned (), v)))
                 (log_event (EvInspectErrno (errno w3)) w5))"
    by (simp add: bindM_def f1 f2 e5 Let_def log_event_def)
  finally show ?thesis
    unfolding fin by blast
qed

lemma Java_fsetfilecon_after_call:
  assumes fd: "getFileDescriptorDescriptorField env w0 = (Returned field, w)"
    and m: "mallocStringFromBytes env javaContext w = (Returned ctx, w2)"
    and run: "TEMP_FAILURE_RETRY (fsetfilecon lib (GetIntField javaFd field) ctx) () w2
                = Some (r, u, w3)"
  shows "\<exists>n. Java_me_zhanghai_android_libselinux_SeLinux_fsetfilecon env lib javaFd javaContext w0 =
           Some ((if errno w3 \<noteq> 0
                  then throwErrnoException env ''fsetfilecon''
                  else (\<lambda>v. (Returned (), v)))
                 (w\<lparr>errno := errno w3,
                    heap := (heap w)(next_addr w := None),
                    next_addr := Suc (next_addr w),
                    calls := calls w + Suc n,
                    trace := trace w
                      @ [EvMalloc (next_addr w) (length javaContext + 1)]
                      @ replicate (Suc n) (EvNativeCall ''fsetfilecon'')
                      @ [EvFree (next_addr w), EvInspectErrno (errno w3)]\<rparr>))"
proof -
  let ?a = "next_addr w"
  note c = mallocStringFromBytes_Returned [OF m]
  from run have "TEMP_FAILURE_RETRY (native_plain lib ''fsetfilecon'') () w2 = Some (r, u, w3)"
    by (simp add: fsetfilecon_def)
  from TEMP_FAILURE_RETRY_plain [OF this]
  obtain n E where w3: "w3 = w2\<lparr>errno := E, calls := calls w2 + Suc n,
                     trace := trace w2 @ replicate (Suc n) (EvNativeCall ''fsetfilecon'')\<rparr>"
    by blast
  note w2 = c(4)
  define w4 where "w4 = w3\<lparr>heap := (heap w3)(?a := None),
      avail := avail w3 + length (javaContext @ [0]), trace := trace w3 @ [EvFree ?a]\<rparr>"
  have "heap w3 ?a = Some (javaContext @ [0])"
    by (simp add: w3 w2)
  then have f1: "free ctx w3 = (Returned (), w4)"
    unfolding c(3) w4_def by (rule free_allocated)
  have e4: "errno w4 = errno w3"
    by (simp add: w4_def)
  have fin: "log_event (EvInspectErrno (errno w3)) w4
           = w\<lparr>errno := errno w3,
                    heap := (heap w)(?a := None),
                    next_addr := Suc ?a,
                    calls := calls w + Suc n,
                    trace := trace w
                      @ [EvMalloc ?a (length javaContext + 1)]
                      @ replicate (Suc n) (EvNativeCall ''fsetfilecon'')
                      @ [EvFree ?a, EvInspectErrno (errno w3)]\<rparr>"
    by (rule world.equality)
       (use c(2) in \<open>simp_all add: log_event_def w4_def w3 w2\<close>)
  have "Java_me_zhanghai_android_libselinux_SeLinux_fsetfilecon env lib javaFd javaContext w0 =
          Some (bindM (free ctx)
                  (\<lambda>_ w4. let w5 = log_event (EvInspectErrno (errno w4)) w4 in
                           if errno w5 \<noteq> 0
                           then throwErrnoException env ''fsetfilecon'' w5
                           else (Returned (), w5)) w3)"
    by (simp add: Java_me_zhanghai_android_libselinux_SeLinux_fsetfilecon_def fd m run)
  also have "\<dots> =
           Some ((if errno w3 \<noteq> 0
                  then throwErrnoException env ''fsetfilecon''
                  else (\<lambda>v. (Returned (), v)))
                 (log_event (EvInspectErrno (errno w3)) w4))"
    by (simp add: bindM_def f1 e4 Let_def log_event_def)
  finally show ?thesis
    unfolding fin by blast
qed

lemma doGetfilecon_after_call:
  assumes m1: "mallocStringFromBytes env javaPath w = (Returned path, w1)"
    and run: "TEMP_FAILURE_RETRY ((if isL then lgetfilecon else getfilecon) lib path) None w1
                = Some (r, ctx, w2)"
  shows "\<exists>n. doGetfilecon env lib javaPath isL w =
           Some ((if errno w2 \<noteq> 0
                  then bindM (throwErrnoException env
                                (if isL then ''lgetfilecon'' else ''getfilecon''))
                         (\<lambda>_ v. (Returned None, v))
                  else bindM (newBytesFromString env ctx)
                         (\<lambda>javaContext. bindM (freecon ctx)
                            (\<lambda>_ v. (Returned javaContext, v))))
                 (w\<lparr>errno := errno w2,
                    heap := (heap w2)(next_addr w := None),
                    next_addr := next_addr w2,
                    calls := calls w + Suc n,
                    trace := trace w
                      @ [EvMalloc (next_addr w) (length javaPath + 1)]
                      @ replicate (Suc n)
                          (EvNativeCall (if isL then ''lgetfilecon'' else ''getfilecon''))
                      @ [EvFree (next_addr w), EvInspectErrno (errno w2)]\<rparr>))"
    and "ctx = None \<or> (\<exists>c. ctx = Some c \<and> next_addr w < c)"
proof -
  let ?name = "if isL then ''lgetfilecon'' else ''getfilecon''"
  let ?a = "next_addr w"
  note p = mallocStringFromBytes_Returned [OF m1]
  note w1 = p(4)
  from run have "TEMP_FAILURE_RETRY (native_get lib ?name) None w1 = Some (r, ctx, w2)"
    by (simp add: lgetfilecon_def getfilecon_def split: if_splits)
  from TEMP_FAILURE_RETRY_get [OF this]
  obtain n E H N where w2: "w2 = w1\<lparr>errno := E, heap := H, next_addr := N,
                     calls := calls w1 + Suc n,
                     trace := trace w1 @ replicate (Suc n) (EvNativeCall ?name)\<rparr>"
    and H: "\<forall>p. p < next_addr w1 \<longrightarrow> H p = heap w1 p"
    and cx: "ctx = None \<or> (\<exists>c. ctx = Some c \<and> next_addr w1 \<le> c)"
    by blast
  from cx show "ctx = None \<or> (\<exists>c. ctx = Some c \<and> next_addr w < c)"
    by (auto simp: w1)
  define w3 where "w3 = w2\<lparr>heap := (heap w2)(?a := None),
      avail := avail w2 + length (javaPath @ [0]), trace := trace w2 @ [EvFree ?a]\<rparr>"
  from H have "H ?a = heap w1 ?a"
    by (simp add: w1)
  then have "heap w2 ?a = Some (javaPath @ [0])"
    by (simp add: w2 w1)
  then have f1: "free path w2 = (Returned (), w3)"
    unfolding p(3) w3_def by (rule free_allocated)
  have e3: "errno w3 = errno w2"
    by (simp add: w3_def)
  have fin: "log_event (EvInspectErrno (errno w2)) w3
           = w\<lparr>errno := errno w2,
                    heap := (heap w2)(?a := None),
                    next_addr := next_addr w2,
                    calls := calls w + Suc n,
                    trace := trace w
                      @ [EvMalloc ?a (length javaPath + 1)]
                      @ replicate (Suc n) (EvNativeCall ?name)
                      @ [EvFree ?a, EvInspectErrno (errno w2)]\<rparr>"
    by (rule world.equality)
       (use p(2) in \<open>simp_all add: log_event_def w3_def w2 w1\<close>)
  have "doGetfilecon env lib javaPath isL w =
          Some (bindM (free path)
                  (\<lambda>_ w3. let w4 = log_event (EvInspectErrno (errno w3)) w3 in
                           if errno w4 \<noteq> 0
                           then bindM (throwErrnoException env ?name)
                                  (\<lambda>_ w5. (Returned None, w5)) w4
                           else bindM (newBytesFromString env ctx)
                                  (\<lambda>javaContext. bindM (freecon ctx)
                                     (\<lambda>_ w6. (Returned javaContext, w6))) w4) w2)"
    by (simp add: doGetfilecon_def m1 run)
  also have "\<dots> =
           Some ((if errno w2 \<noteq> 0
                  then bindM (throwErrnoException env ?name) (\<lambda>_ v. (Returned None, v))
                  else bindM (newBytesFromString env ctx)
                         (\<lambda>javaContext. bindM (freecon ctx)
                            (\<lambda>_ v. (Returned javaContext, v))))
                 (log_event (EvInspectErrno (errno w2)) w3))"
    by (simp add: bindM_def [of "free path"] f1 e3 Let_def log_event_def)
  finally show "\<exists>n. doGetfilecon env lib javaPath isL w =
           Some ((if errno w2 \<noteq> 0
                  then bindM (throwErrnoException env ?name) (\<lambda>_ v. (Returned None, v))
                  else bindM (newBytesFromString env ctx)
                         (\<lambda>javaContext. bindM (freecon ctx)
                            (\<lambda>_ v. (Returned javaContext, v))))
                 (w\<lparr>errno := errno w2,
                    heap := (heap w2)(?a := None),
                    next_addr := next_addr w2,
                    calls := calls w + Suc n,
                    trace := trace w
                      @ [EvMalloc ?a (length javaPath + 1)]
                      @ replicate (Suc n) (EvNativeCall ?name)
                      @ [EvFree ?a, EvInspectErrno (errno w2)]\<rparr>))"
    unfolding fin by blast
qed

lemma Java_fgetfilecon_after_call:
  assumes fd: "getFileDescriptorDescriptorField env w0 = (Returned field, w)"
    and run: "TEMP_FAILURE_RETRY (fgetfilecon lib (GetIntField javaFd field)) None w
                = Some (r, ctx, w2)"
  shows "\<exists>n. Java_me_zhanghai_android_libselinux_SeLinux_fgetfilecon env lib javaFd w0 =
           Some ((if errno w2 \<noteq> 0
                  then bindM (throwErrnoException env ''fgetfilecon'')
                         (\<lambda>_ v. (Returned None, v))
                  else bindM (newBytesFromString env ctx)
                         (\<lambda>javaContext. bindM (freecon ctx)
                            (\<lambda>_ v. (Returned javaContext, v))))
                 (w\<lparr>errno := errno w2,
                    heap := heap w2,
                    next_addr := next_addr w2,
                    calls := calls w + Suc n,
                    trace := trace w
                      @ replicate (Suc n) (EvNativeCall ''fgetfilecon'')
                      @ [EvInspectErrno (errno w2)]\<rparr>))"
proof -
  from run have "TEMP_FAILURE_RETRY (native_get lib ''fgetfilecon'') None w = Some (r, ctx, w2)"
    by (simp add: fgetfilecon_def)
  from TEMP_FAILURE_RETRY_get [OF this]
  obtain n E H N where w2: "w2 = w\<lparr>errno := E, heap := H, next_addr := N,
                     calls := calls w + Suc n,
                     trace := trace w @ replicate (Suc n) (EvNativeCall ''fgetfilecon'')\<rparr>"
    by blast
  have fin: "log_event (EvInspectErrno (errno w2)) w2
           = w\<lparr>errno := errno w2,
                    heap := heap w2,
                    next_addr := next_addr w2,
                    calls := calls w + Suc n,
                    trace := trace w
                      @ replicate (Suc n) (EvNativeCall ''fgetfilecon'')
                      @ [EvInspectErrno (errno w2)]\<rparr>"
    by (rule world.equality) (simp_all add: log_event_def w2)
  have "Java_me_zhanghai_android_libselinux_SeLinux_fgetfilecon env lib javaFd w0 =
           Some ((if errno w2 \<noteq> 0
                  then bindM (throwErrnoException env ''fgetfilecon'')
                         (\<lambda>_ v. (Returned None, v))
                  else bindM (newBytesFromString env ctx)
                         (\<lambda>javaContext. bindM (freecon ctx)
                            (\<lambda>_ v. (Returned javaContext, v))))
                 (log_event (EvInspectErrno (errno w2)) w2))"
    by (simp add: Java_me_zhanghai_android_libselinux_SeLinux_fgetfilecon_def fd run Let_def
          log_event_def)
  then show ?thesis
    unfolding fin by blast
qed

lemma Java_security_getenforce_after_call:
  assumes run: "TEMP_FAILURE_RETRY (security_getenforce lib) () w = Some (enforce, u, w1)"
  shows "\<exists>n. Java_me_zhanghai_android_libselinux_SeLinux_security_1getenforce env lib w =
           Some (bindM (\<lambda>v. if errno v \<noteq> 0
                             then throwErrnoException env ''security_getenforce'' v
                             else (Returned (), v))
                   (\<lambda>_ v. (Returned (enforce \<noteq> 0), v))
                   (w\<lparr>errno := (if enforce = - 1 \<and> errno w1 = 0 then EIO else errno w1),
                      calls := calls w + Suc n,
                      trace := trace w
                        @ replicate (Suc n) (EvNativeCall ''security_getenforce'')
                        @ [EvInspectErrno
                             (if enforce = - 1 \<and> errno w1 = 0 then EIO else errno w1)]\<rparr>))"
proof -
  from run
  have "TEMP_FAILURE_RETRY (native_plain lib ''security_getenforce'') () w = Some (enforce, u, w1)"
    by (simp add: security_getenforce_def)
  from TEMP_FAILURE_RETRY_plain [OF this]
  obtain n E where w1: "w1 = w\<lparr>errno := E, calls := calls w + Suc n,
        trace := trace w @ replicate (Suc n) (EvNativeCall ''security_getenforce'')\<rparr>"
    by blast
  let ?E = "if enforce = - 1 \<and> errno w1 = 0 then EIO else errno w1"
  have fin: "log_event (EvInspectErrno ?E) (w1\<lparr>errno := ?E\<rparr>)
           = w\<lparr>errno := ?E, calls := calls w + Suc n,
                trace := trace w @ replicate (Suc n) (EvNativeCall ''security_getenforce'')
                  @ [EvInspectErrno ?E]\<rparr>"
    by (rule world.equality) (simp_all add: log_event_def w1)
  have same: "(if enforce = - 1 \<and> errno w1 = 0 then w1\<lparr>errno := EIO\<rparr> else w1) = w1\<lparr>errno := ?E\<rparr>"
    by simp
  have "Java_me_zhanghai_android_libselinux_SeLinux_security_1getenforce env lib w =
           Some (bindM (\<lambda>v. if errno v \<noteq> 0
                             then throwErrnoException env ''security_getenforce'' v
                             else (Returned (), v))
                   (\<lambda>_ v. (Returned (enforce \<noteq> 0), v))
                   (log_event (EvInspectErrno ?E) (w1\<lparr>errno := ?E\<rparr>)))"
    unfolding Java_me_zhanghai_android_libselinux_SeLinux_security_1getenforce_def run
    by (simp only: option.case prod.case Let_def same)
       (simp add: log_event_def)
  then show ?thesis
    unfolding fin by blast
qed

section \<open>The enforcement-mode query\<close>

lemma symbols_resolve_frame:
  "symbols_resolve env
     (w\<lparr>errno := e, heap := h, next_addr := a, calls := c, trace := t\<rparr>) cls m3 m2
   = symbols_resolve env w cls m3 m2"
  "symbols_resolve env (w\<lparr>errno := e, calls := c, trace := t\<rparr>) cls m3 m2
   = symbols_resolve env w cls m3 m2"
  by (simp_all add: symbols_resolve_def)

text \<open>
  C3. Let the retried call of \<^verbatim>\<open>security_getenforce\<close> return \<open>enforce\<close> and leave the world
  \<open>w1\<close>. With \<^verbatim>\<open>errno\<close> unset (zero) after the call: for \<open>enforce = 1\<close> the operation returns
  true and for \<open>enforce = 0\<close> it returns false, with no exception raised; for \<open>enforce = -1\<close>
  \<^verbatim>\<open>errno\<close> becomes \<open>EIO\<close> and, when the exception symbols resolve and the runtime
  allocates the exception object, the pending exception on return is a new
  \<^verbatim>\<open>ErrnoException\<close> whose error code is \<open>EIO\<close>. Whatever \<^verbatim>\<open>errno\<close> is, the value the C
  function returns is \<open>enforce \<noteq> 0\<close>.
\<close>

theorem C3_security_getenforce:
  assumes run: "TEMP_FAILURE_RETRY (security_getenforce lib) () w = Some (enforce, u, w1)"
  shows "(enforce = 1 \<and> errno w1 = 0 \<longrightarrow>
            (\<exists>w'. Java_me_zhanghai_android_libselinux_SeLinux_security_1getenforce env lib w
                     = Some (Returned True, w')
                 \<and> pending w' = pending w \<and> objects w' = objects w))
       \<and> (enforce = 0 \<and> errno w1 = 0 \<longrightarrow>
            (\<exists>w'. Java_me_zhanghai_android_libselinux_SeLinux_security_1getenforce env lib w
                     = Some (Returned False, w')
                 \<and> pending w' = pending w \<and> objects w' = objects w))
       \<and> (enforce = - 1 \<and> errno w1 = 0 \<and> symbols_resolve env w cls m3 m2 \<and> NewObject_ok env \<longrightarrow>
            (\<exists>w' x. Java_me_zhanghai_android_libselinux_SeLinux_security_1getenforce env lib w
                       = Some (Returned True, w')
                 \<and> errno w' = EIO
                 \<and> pending w' = Some (next_ref w)
                 \<and> objects w' (next_ref w) = Some x
                 \<and> clazz x = cls
                 \<and> errorCode x = EIO))
       \<and> (symbols_resolve env w cls m3 m2 \<and> NewObject_ok env \<longrightarrow>
            (\<exists>w'. Java_me_zhanghai_android_libselinux_SeLinux_security_1getenforce env lib w
                     = Some (Returned (enforce \<noteq> 0), w')))"
proof -
  from Java_security_getenforce_after_call [OF run, of env]
  obtain n where op: "Java_me_zhanghai_android_libselinux_SeLinux_security_1getenforce env lib w =
           Some (bindM (\<lambda>v. if errno v \<noteq> 0
                             then throwErrnoException env ''security_getenforce'' v
                             else (Returned (), v))
                   (\<lambda>_ v. (Returned (enforce \<noteq> 0), v))
                   (w\<lparr>errno := (if enforce = - 1 \<and> errno w1 = 0 then EIO else errno w1),
                      calls := calls w + Suc n,
                      trace := trace w
                        @ replicate (Suc n) (EvNativeCall ''security_getenforce'')
                        @ [EvInspectErrno
                             (if enforce = - 1 \<and> errno w1 = 0 then EIO else errno w1)]\<rparr>))"
    by blast
  have quiet: "\<exists>w'. Java_me_zhanghai_android_libselinux_SeLinux_security_1getenforce env lib w
                     = Some (Returned (enforce \<noteq> 0), w')
                 \<and> pending w' = pending w \<and> objects w' = objects w"
    if "enforce \<noteq> - 1" and "errno w1 = 0"
    using that by (simp add: op bindM_def)
  have raise: "\<exists>w' x. Java_me_zhanghai_android_libselinux_SeLinux_security_1getenforce env lib w
                       = Some (Returned (enforce \<noteq> 0), w')
                 \<and> errno w' = E
                 \<and> pending w' = Some (next_ref w)
                 \<and> objects w' (next_ref w) = Some x
                 \<and> clazz x = cls
                 \<and> errorCode x = E"
    if sym: "symbols_resolve env w cls m3 m2" and obj: "NewObject_ok env"
      and E: "E = (if enforce = - 1 \<and> errno w1 = 0 then EIO else errno w1)" and nz: "E \<noteq> 0"
    for E
  proof -
    let ?v = "w\<lparr>errno := E, calls := calls w + Suc n,
                trace := trace w @ replicate (Suc n) (EvNativeCall ''security_getenforce'')
                  @ [EvInspectErrno E]\<rparr>"
    from sym have "symbols_resolve env ?v cls m3 m2"
      by (simp add: symbols_resolve_frame)
    from throwErrnoException_raises [OF this obj, of "''security_getenforce''"]
    obtain evs where "throwErrnoException env ''security_getenforce'' ?v =
               (Returned (),
                ?v\<lparr>pending := Some (next_ref ?v),
                  objects := (objects ?v)(next_ref ?v \<mapsto>
                     \<lparr>clazz = cls,
                      constructor = (case pending ?v of None \<Rightarrow> m2 | Some _ \<Rightarrow> m3),
                      detailMessage = (if NewStringUTF_ok env then Some ''security_getenforce''
                                       else None),
                      errorCode = errno ?v,
                      cause = pending ?v\<rparr>),
                  next_ref := Suc (next_ref ?v),
                  errnoExceptionClass := Some cls,
                  constructor3 := Some m3,
                  constructor2 := Some m2,
                  trace := trace ?v @ evs
                    @ [EvNewObject (next_ref ?v) None, EvThrow (next_ref ?v)]\<rparr>)"
      by blast
    with nz show ?thesis
      unfolding op E [symmetric] by (simp add: bindM_def)
  qed
  have eio: "EIO \<noteq> 0"
    by (simp add: EIO_def)
  show ?thesis
  proof (intro conjI impI)
    assume "enforce = 1 \<and> errno w1 = 0"
    with quiet show "\<exists>w'. Java_me_zhanghai_android_libselinux_SeLinux_security_1getenforce env lib w
                     = Some (Returned True, w') \<and> pending w' = pending w \<and> objects w' = objects w"
      by simp
  next
    assume "enforce = 0 \<and> errno w1 = 0"
    with quiet show "\<exists>w'. Java_me_zhanghai_android_libselinux_SeLinux_security_1getenforce env lib w
                     = Some (Returned False, w') \<and> pending w' = pending w \<and> objects w' = objects w"
      by simp
  next
    assume a: "enforce = - 1 \<and> errno w1 = 0 \<and> symbols_resolve env w cls m3 m2 \<and> NewObject_ok env"
    then have "EIO = (if enforce = - 1 \<and> errno w1 = 0 then EIO else errno w1)"
      by simp
    from raise [OF _ _ this eio] a
    show "\<exists>w' x. Java_me_zhanghai_android_libselinux_SeLinux_security_1getenforce env lib w
                       = Some (Returned True, w')
                 \<and> errno w' = EIO
                 \<and> pending w' = Some (next_ref w)
                 \<and> objects w' (next_ref w) = Some x
                 \<and> clazz x = cls
                 \<and> errorCode x = EIO"
      by simp
  next
    assume a: "symbols_resolve env w cls m3 m2 \<and> NewObject_ok env"
    show "\<exists>w'. Java_me_zhanghai_android_libselinux_SeLinux_security_1getenforce env lib w
                     = Some (Returned (enforce \<noteq> 0), w')"
    proof (cases "(if enforce = - 1 \<and> errno w1 = 0 then EIO else errno w1) = 0")
      case True
      then have "enforce \<noteq> - 1" and "errno w1 = 0"
        using eio by (auto split: if_splits)
      from quiet [OF this] show ?thesis by blast
    next
      case False
      from raise [OF _ _ refl False] a show ?thesis by blast
    qed
  qed
qed

theorem C3_security_getenforce_witness:
  "\<exists>w' x. Java_me_zhanghai_android_libselinux_SeLinux_security_1getenforce example_env
             (\<lambda>_. \<lparr>rc = - 1, set_errno = None, out = None\<rparr>) example_world
           = Some (Returned True, w')
         \<and> errno w' = EIO
         \<and> pending w' = Some 100
         \<and> objects w' 100 = Some x
         \<and> errorCode x = EIO"
proof -
  let ?lib = "\<lambda>_ :: nat. \<lparr>rc = - 1, set_errno = None, out = None\<rparr>"
  let ?w1 = "snd (snd (security_getenforce ?lib () (example_world\<lparr>errno := 0\<rparr>)))"
  have e: "errno ?w1 = 0"
    by (simp add: security_getenforce_def native_plain_def native_call_def log_event_def)
  have run: "TEMP_FAILURE_RETRY (security_getenforce ?lib) () example_world
               = Some (- 1, (), ?w1)"
    unfolding TEMP_FAILURE_RETRY_def
    by (subst retry_loop_once)
       (simp_all add: EINTR_def security_getenforce_def native_plain_def native_call_def
          log_event_def)
  have sym: "symbols_resolve example_env example_world 11 33 32"
    by (simp add: symbols_resolve_def class_handle_def member_handle_def example_env_def
        example_world_def)
  have obj: "NewObject_ok example_env"
    by (simp add: example_env_def)
  have r: "next_ref example_world = 100"
    by (simp add: example_world_def)
  from C3_security_getenforce [OF run, of example_env 11 33 32] e sym obj
  show ?thesis
    unfolding r by blast
qed

section \<open>The subsystem-enabled query\<close>

lemma Java_is_selinux_enabled_result:
  "Java_me_zhanghai_android_libselinux_SeLinux_is_1selinux_1enabled lib w =
     (Returned (rc (lib (calls w)) \<noteq> 0),
      w\<lparr>errno := (case set_errno (lib (calls w)) of None \<Rightarrow> errno w | Some e \<Rightarrow> e),
        calls := Suc (calls w),
        trace := trace w @ [EvNativeCall ''is_selinux_enabled'']\<rparr>)"
  by (cases w)
     (simp add: Java_me_zhanghai_android_libselinux_SeLinux_is_1selinux_1enabled_def
        is_selinux_enabled_def native_plain_def native_call_def log_event_def Let_def
        split: option.splits)

text \<open>
  C8. Whatever the native query does (any returned integer, any value stored to
  \<^verbatim>\<open>errno\<close>), the operation returns a boolean; it neither aborts nor crashes, the pending
  exception and the exception objects are what they were, and the only step it logs is the
  native call: nothing is constructed or thrown.
\<close>

theorem C8_is_selinux_enabled_never_raises:
  "\<exists>b w'. Java_me_zhanghai_android_libselinux_SeLinux_is_1selinux_1enabled lib w
             = (Returned b, w')
         \<and> pending w' = pending w
         \<and> objects w' = objects w
         \<and> trace w' = trace w @ [EvNativeCall ''is_selinux_enabled'']"
  by (simp add: Java_is_selinux_enabled_result)

text \<open>
  C10. The operation returns true exactly when the integer returned by the native query is
  not zero; in particular it returns true for the error sentinel -1.
\<close>

theorem C10_is_selinux_enabled_nonzero_is_true:
  "fst (Java_me_zhanghai_android_libselinux_SeLinux_is_1selinux_1enabled lib w)
     = Returned (rc (lib (calls w)) \<noteq> 0)
   \<and> fst (Java_me_zhanghai_android_libselinux_SeLinux_is_1selinux_1enabled
            (\<lambda>k. \<lparr>rc = - 1, set_errno = e, out = None\<rparr>) w) = Returned True
   \<and> (fst (Java_me_zhanghai_android_libselinux_SeLinux_is_1selinux_1enabled lib w)
        = Returned False) = (rc (lib (calls w)) = 0)"
  by (simp add: Java_is_selinux_enabled_result)

section \<open>The chained cause\<close>

text \<open>
  C4. The failure path of every operation is the call \<open>throwErrnoException env name\<close>. When
  the exception symbols resolve and the runtime allocates the exception object, the call
  returns with a new exception object pending. If an exception \<open>p\<close> was pending at the call,
  the new object was built with the three-argument constructor and its cause is the
  reference \<open>p\<close> itself; the trace shows \<^verbatim>\<open>ExceptionClear\<close> before \<^verbatim>\<open>NewObject\<close>, and
  \<^verbatim>\<open>NewObject\<close> found the pending slot empty. If no exception was pending, the object was
  built with the two-argument constructor and has no cause.
\<close>

theorem C4_pending_exception_becomes_cause:
  assumes "symbols_resolve env w cls m3 m2" and "NewObject_ok env"
  shows "\<exists>w' x evs.
           throwErrnoException env functionName w = (Returned (), w')
         \<and> pending w' = Some (next_ref w)
         \<and> objects w' (next_ref w) = Some x
         \<and> trace w' = trace w @ evs @ [EvNewObject (next_ref w) None, EvThrow (next_ref w)]
         \<and> list_all (\<lambda>e. is_lookup e \<or> e = EvExceptionClear) evs
         \<and> (\<forall>p. pending w = Some p \<longrightarrow>
                cause x = Some p \<and> constructor x = m3 \<and> EvExceptionClear \<in> set evs)
         \<and> (pending w = None \<longrightarrow> cause x = None \<and> constructor x = m2)"
proof -
  from throwErrnoException_raises [OF assms, of functionName]
  obtain evs where l: "list_all (\<lambda>e. is_lookup e \<or> e = EvExceptionClear) evs"
    and c: "pending w = None \<or> EvExceptionClear \<in> set evs"
    and t: "throwErrnoException env functionName w =
               (Returned (),
                w\<lparr>pending := Some (next_ref w),
                  objects := (objects w)(next_ref w \<mapsto>
                     \<lparr>clazz = cls,
                      constructor = (case pending w of None \<Rightarrow> m2 | Some _ \<Rightarrow> m3),
                      detailMessage = (if NewStringUTF_ok env then Some functionName else None),
                      errorCode = errno w,
                      cause = pending w\<rparr>),
                  next_ref := Suc (next_ref w),
                  errnoExceptionClass := Some cls,
                  constructor3 := Some m3,
                  constructor2 := Some m2,
                  trace := trace w @ evs
                    @ [EvNewObject (next_ref w) None, EvThrow (next_ref w)]\<rparr>)"
    by blast
  let ?x = "\<lparr>clazz = cls,
             constructor = (case pending w of None \<Rightarrow> m2 | Some _ \<Rightarrow> m3),
             detailMessage = (if NewStringUTF_ok env then Some functionName else None),
             errorCode = errno w,
             cause = pending w\<rparr>"
  have "(\<forall>p. pending w = Some p \<longrightarrow>
                cause ?x = Some p \<and> constructor ?x = m3 \<and> EvExceptionClear \<in> set evs)
         \<and> (pending w = None \<longrightarrow> cause ?x = None \<and> constructor ?x = m2)"
    using c by auto
  with l show ?thesis
    unfolding t
    by (rule_tac x = "snd (throwErrnoException env functionName w)" in exI,
        rule_tac x = ?x in exI, rule_tac x = evs in exI)
       (simp add: t)
qed

theorem C4_pending_exception_becomes_cause_witness:
  "\<exists>w' x evs.
     throwErrnoException example_env ''fsetfilecon'' (example_world\<lparr>pending := Some 7\<rparr>)
       = (Returned (), w')
   \<and> pending w' = Some 100
   \<and> objects w' 100 = Some x
   \<and> cause x = Some 7
   \<and> constructor x = 33
   \<and> trace w' = evs @ [EvNewObject 100 None, EvThrow 100]
   \<and> EvExceptionClear \<in> set evs"
proof -
  have sym: "symbols_resolve example_env (example_world\<lparr>pending := Some 7\<rparr>) 11 33 32"
    by (simp add: symbols_resolve_def class_handle_def member_handle_def example_env_def
        example_world_def)
  have obj: "NewObject_ok example_env"
    by (simp add: example_env_def)
  have r: "next_ref (example_world\<lparr>pending := Some 7\<rparr>) = 100"
    "trace (example_world\<lparr>pending := Some 7\<rparr>) = []"
    "pending (example_world\<lparr>pending := Some 7\<rparr>) = Some 7"
    by (simp_all add: example_world_def)
  from C4_pending_exception_becomes_cause [OF sym obj, of "''fsetfilecon''"]
  show ?thesis
    unfolding r by (simp only: append_Nil) blast
qed

section \<open>errno decides, and the exception names the function\<close>

lemma throwErrnoException_raised:
  assumes "symbols_resolve env w cls m3 m2" and "NewObject_ok env"
  shows "\<exists>w'. throwErrnoException env fn w = (Returned (), w')
            \<and> raised w w' (if NewStringUTF_ok env then Some fn else None) (errno w)"
proof -
  from throwErrnoException_raises [OF assms, of fn]
  obtain evs where t: "throwErrnoException env fn w =
               (Returned (),
                w\<lparr>pending := Some (next_ref w),
                  objects := (objects w)(next_ref w \<mapsto>
                     \<lparr>clazz = cls,
                      constructor = (case pending w of None \<Rightarrow> m2 | Some _ \<Rightarrow> m3),
                      detailMessage = (if NewStringUTF_ok env then Some fn else None),
                      errorCode = errno w,
                      cause = pending w\<rparr>),
                  next_ref := Suc (next_ref w),
                  errnoExceptionClass := Some cls,
                  constructor3 := Some m3,
                  constructor2 := Some m2,
                  trace := trace w @ evs
                    @ [EvNewObject (next_ref w) None, EvThrow (next_ref w)]\<rparr>)"
    by blast
  show ?thesis
    unfolding t by (simp add: raised_def)
qed

lemma raised_frame:
  "next_ref v = next_ref w \<Longrightarrow> errno v = E \<Longrightarrow> raised v w' msg (errno v) \<Longrightarrow> raised w w' msg E"
  by (auto simp: raised_def split: option.splits)

text \<open>Converting the context back and releasing it raises nothing.\<close>

lemma newBytesFromString_quiet:
  assumes "newBytesFromString env str v = (res, v')"
  shows "objects v' = objects v" and "trace v' = trace v" and "heap v' = heap v"
    and "pending v' = pending v \<or> pending v' = Some (oom env)"
  using assms
  by (auto simp: newBytesFromString_def NewByteArray_def Let_def
      split: option.splits prod.splits if_splits)

lemma freecon_quiet:
  assumes "freecon p v = (res, v')"
  shows "objects v' = objects v" and "pending v' = pending v"
    and "\<exists>evs. trace v' = trace v @ evs \<and> \<not> list_ex is_raise evs"
proof -
  show "objects v' = objects v" and "pending v' = pending v"
    using assms by (auto simp: freecon_def log_event_def split: option.splits)
  show "\<exists>evs. trace v' = trace v @ evs \<and> \<not> list_ex is_raise evs"
  proof (cases "trace v' = trace v")
    case True
    then show ?thesis by (intro exI [of _ "[]"]) simp
  next
    case False
    with assms obtain a where "trace v' = trace v @ [EvFreecon a]"
      by (auto simp: freecon_def log_event_def split: option.splits)
    then show ?thesis by (intro exI [of _ "[EvFreecon a]"]) simp
  qed
qed

lemma convert_context_quiet:
  assumes "bindM (newBytesFromString env ctx)
             (\<lambda>javaContext. bindM (freecon ctx) (\<lambda>_ v. (Returned javaContext, v))) v = (res, v')"
  shows "objects v' = objects v"
    and "pending v' = pending v \<or> pending v' = Some (oom env)"
    and "\<exists>evs. trace v' = trace v @ evs \<and> \<not> list_ex is_raise evs"
proof -
  obtain r1 v1 where n: "newBytesFromString env ctx v = (r1, v1)"
    by (cases "newBytesFromString env ctx v") auto
  note q1 = newBytesFromString_quiet [OF n]
  obtain r2 v2 where f: "freecon ctx v1 = (r2, v2)"
    by (cases "freecon ctx v1") auto
  note q2 = freecon_quiet [OF f]
  from assms n f have "v' = v1 \<or> v' = v2"
    by (auto simp: bindM_def split: outcome.splits)
  then show "objects v' = objects v"
    and "pending v' = pending v \<or> pending v' = Some (oom env)"
    and "\<exists>evs. trace v' = trace v @ evs \<and> \<not> list_ex is_raise evs"
    using q1 q2 by auto
qed

text \<open>A context that holds a terminated string comes back as the bytes before the terminator.\<close>

lemma convert_context_result:
  assumes "heap v c = Some block" and "strlen_block block = Some n" and "n < 2 ^ 31"
    and "NewByteArray_ok env"
  shows "bindM (newBytesFromString env (Some c))
           (\<lambda>javaContext. bindM (freecon (Some c)) (\<lambda>_ v. (Returned javaContext, v))) v
         = (Returned (Some (take n block)),
            v\<lparr>heap := (heap v)(c := None), trace := trace v @ [EvFreecon c]\<rparr>)"
  using assms
  by (simp add: bindM_def newBytesFromString_def NewByteArray_def SetByteArrayRegion_def
      jsize_of_size_t_small freecon_def log_event_def)

lemma getFileDescriptorDescriptorField_frame:
  assumes "getFileDescriptorDescriptorField env w0 = (Returned field, w)"
  shows "pending w = pending w0" and "objects w = objects w0" and "next_ref w = next_ref w0"
    and "errnoExceptionClass w = errnoExceptionClass w0"
    and "constructor3 w = constructor3 w0" and "constructor2 w = constructor2 w0"
    and "\<exists>evs. trace w = trace w0 @ evs \<and> list_all is_lookup evs"
proof -
  have all: "pending w = pending w0 \<and> objects w = objects w0 \<and> next_ref w = next_ref w0
      \<and> errnoExceptionClass w = errnoExceptionClass w0
      \<and> constructor3 w = constructor3 w0 \<and> constructor2 w = constructor2 w0
      \<and> (trace w = trace w0 \<or> trace w = trace w0 @ [EvGetFieldID ''descriptor'' ''I'']
          \<or> trace w = trace w0 @ [EvFindClass ''java/io/FileDescriptor'',
                                    EvGetFieldID ''descriptor'' ''I''])"
    using assms
    by (auto simp: getFileDescriptorDescriptorField_def getFileDescriptorClass_def
        findClass_def findField_def bindM_def log_event_def Let_def
        split: option.splits outcome.splits prod.splits)
  then show "pending w = pending w0" and "objects w = objects w0"
    and "next_ref w = next_ref w0"
    and "errnoExceptionClass w = errnoExceptionClass w0"
    and "constructor3 w = constructor3 w0" and "constructor2 w = constructor2 w0"
    by simp_all
  from all have "trace w = trace w0 @ [] \<or> trace w = trace w0 @ [EvGetFieldID ''descriptor'' ''I'']
          \<or> trace w = trace w0 @ [EvFindClass ''java/io/FileDescriptor'',
                                    EvGetFieldID ''descriptor'' ''I'']"
    by simp
  then show "\<exists>evs. trace w = trace w0 @ evs \<and> list_all is_lookup evs"
  proof (elim disjE)
    assume "trace w = trace w0 @ []"
    then show ?thesis by (intro exI [of _ "[]"]) simp
  next
    assume "trace w = trace w0 @ [EvGetFieldID ''descriptor'' ''I'']"
    then show ?thesis by (intro exI [of _ "[EvGetFieldID ''descriptor'' ''I'']"]) simp
  next
    assume "trace w = trace w0 @ [EvFindClass ''java/io/FileDescriptor'',
                                    EvGetFieldID ''descriptor'' ''I'']"
    then show ?thesis
      by (intro exI [of _ "[EvFindClass ''java/io/FileDescriptor'',
                            EvGetFieldID ''descriptor'' ''I'']"]) simp
  qed
qed

lemma symbols_resolve_cong:
  "symbols_resolve env w cls m3 m2 \<Longrightarrow>
   errnoExceptionClass v = errnoExceptionClass w \<Longrightarrow> constructor3 v = constructor3 w \<Longrightarrow>
   constructor2 v = constructor2 w \<Longrightarrow>
   symbols_resolve env v cls m3 m2"
  by (simp add: symbols_resolve_def)

lemma raise_then_return:
  assumes "symbols_resolve env w cls m3 m2" and "NewObject_ok env"
    and "errnoExceptionClass v = errnoExceptionClass w" and "constructor3 v = constructor3 w"
    and "constructor2 v = constructor2 w" and "next_ref v = next_ref w"
  shows "\<exists>w'. bindM (throwErrnoException env fn) (\<lambda>_ u. (Returned res, u)) v = (Returned res, w')
            \<and> throwErrnoException env fn v = (Returned (), w')
            \<and> raised w w' (if NewStringUTF_ok env then Some fn else None) (errno v)"
proof -
  from assms(1,3,4,5) have "symbols_resolve env v cls m3 m2"
    by (rule symbols_resolve_cong)
  from throwErrnoException_raised [OF this assms(2), of fn]
  obtain w' where t: "throwErrnoException env fn v = (Returned (), w')"
    and r: "raised v w' (if NewStringUTF_ok env then Some fn else None) (errno v)"
    by blast
  from r assms(6) have "raised w w' (if NewStringUTF_ok env then Some fn else None) (errno v)"
    by (auto simp: raised_def split: option.splits)
  with t show ?thesis
    by (simp add: bindM_def)
qed

text \<open>
  The summaries of the operations again, with the world before the last step described by
  what it shares with the world at entry.
\<close>

lemma not_raise_replicate:
  "\<not> list_ex is_raise (replicate k (EvNativeCall f))"
  by (auto simp: list_ex_iff)

lemma doGetfilecon_after_call_frame:
  assumes m1: "mallocStringFromBytes env javaPath w = (Returned path, w1)"
    and run: "TEMP_FAILURE_RETRY ((if isL then lgetfilecon else getfilecon) lib path) None w1
                = Some (r, ctx, w2)"
  shows "\<exists>v evs. doGetfilecon env lib javaPath isL w =
           Some ((if errno w2 \<noteq> 0
                  then bindM (throwErrnoException env
                                (if isL then ''lgetfilecon'' else ''getfilecon''))
                         (\<lambda>_ v. (Returned None, v))
                  else bindM (newBytesFromString env ctx)
                         (\<lambda>javaContext. bindM (freecon ctx)
                            (\<lambda>_ v. (Returned javaContext, v)))) v)
         \<and> errno v = errno w2 \<and> pending v = pending w \<and> objects v = objects w
         \<and> next_ref v = next_ref w \<and> errnoExceptionClass v = errnoExceptionClass w
         \<and> constructor3 v = constructor3 w \<and> constructor2 v = constructor2 w
         \<and> heap v = (heap w2)(next_addr w := None)
         \<and> trace v = trace w @ evs \<and> \<not> list_ex is_raise evs"
proof -
  from doGetfilecon_after_call(1) [OF m1 run]
  obtain n where op: "doGetfilecon env lib javaPath isL w =
           Some ((if errno w2 \<noteq> 0
                  then bindM (throwErrnoException env
                                (if isL then ''lgetfilecon'' else ''getfilecon''))
                         (\<lambda>_ v. (Returned None, v))
                  else bindM (newBytesFromString env ctx)
                         (\<lambda>javaContext. bindM (freecon ctx)
                            (\<lambda>_ v. (Returned javaContext, v))))
                 (w\<lparr>errno := errno w2,
                    heap := (heap w2)(next_addr w := None),
                    next_addr := next_addr w2,
                    calls := calls w + Suc n,
                    trace := trace w
                      @ [EvMalloc (next_addr w) (length javaPath + 1)]
                      @ replicate (Suc n)
                          (EvNativeCall (if isL then ''lgetfilecon'' else ''getfilecon''))
                      @ [EvFree (next_addr w), EvInspectErrno (errno w2)]\<rparr>))"
    by (rule exE)
  show ?thesis
    unfolding op
    by (rule exI, rule exI [of _ "[EvMalloc (next_addr w) (length javaPath + 1)]
                      @ replicate (Suc n)
                          (EvNativeCall (if isL then ''lgetfilecon'' else ''getfilecon''))
                      @ [EvFree (next_addr w), EvInspectErrno (errno w2)]"],
        rule conjI, rule refl)
       (simp add: not_raise_replicate)
qed

lemma doSetfilecon_after_call_frame:
  assumes m1: "mallocStringFromBytes env javaPath w = (Returned path, w1)"
    and m2: "mallocStringFromBytes env javaContext w1 = (Returned ctx, w2)"
    and run: "TEMP_FAILURE_RETRY ((if isL then lsetfilecon else setfilecon) lib path ctx) () w2
                = Some (r, u, w3)"
  shows "\<exists>v evs. doSetfilecon env lib javaPath javaContext isL w =
           Some ((if errno w3 \<noteq> 0
                  then throwErrnoException env (if isL then ''lsetfilecon'' else ''setfilecon'')
                  else (\<lambda>v. (Returned (), v))) v)
         \<and> errno v = errno w3 \<and> pending v = pending w \<and> objects v = objects w
         \<and> next_ref v = next_ref w \<and> errnoExceptionClass v = errnoExceptionClass w
         \<and> constructor3 v = constructor3 w \<and> constructor2 v = constructor2 w
         \<and> trace v = trace w @ evs \<and> \<not> list_ex is_raise evs"
proof -
  from doSetfilecon_after_call [OF m1 m2 run]
  obtain n where op: "doSetfilecon env lib javaPath javaContext isL w =
           Some ((if errno w3 \<noteq> 0
                  then throwErrnoException env (if isL then ''lsetfilecon'' else ''setfilecon'')
                  else (\<lambda>v. (Returned (), v)))
                 (w\<lparr>errno := errno w3,
                    heap := (heap w)(next_addr w := None, Suc (next_addr w) := None),
                    next_addr := Suc (Suc (next_addr w)),
                    calls := calls w + Suc n,
                    trace := trace w
                      @ [EvMalloc (next_addr w) (length javaPath + 1),
                         EvMalloc (Suc (next_addr w)) (length javaContext + 1)]
                      @ replicate (Suc n)
                          (EvNativeCall (if isL then ''lsetfilecon'' else ''setfilecon''))
                      @ [EvFree (next_addr w), EvFree (Suc (next_addr w)),
                         EvInspectErrno (errno w3)]\<rparr>))"
    by (rule exE)
  show ?thesis
    unfolding op
    by (rule exI, rule exI [of _ "[EvMalloc (next_addr w) (length javaPath + 1),
                         EvMalloc (Suc (next_addr w)) (length javaContext + 1)]
                      @ replicate (Suc n)
                          (EvNativeCall (if isL then ''lsetfilecon'' else ''setfilecon''))
                      @ [EvFree (next_addr w), EvFree (Suc (next_addr w)),
                         EvInspectErrno (errno w3)]"],
        rule conjI, rule refl)
       (simp add: not_raise_replicate)
qed

lemma Java_fsetfilecon_after_call_frame:
  assumes fd: "getFileDescriptorDescriptorField env w0 = (Returned field, w)"
    and m: "mallocStringFromBytes env javaContext w = (Returned ctx, w2)"
    and run: "TEMP_FAILURE_RETRY (fsetfilecon lib (GetIntField javaFd field) ctx) () w2
                = Some (r, u, w3)"
  shows "\<exists>v evs. Java_me_zhanghai_android_libselinux_SeLinux_fsetfilecon env lib javaFd javaContext w0 =
           Some ((if errno w3 \<noteq> 0
                  then throwErrnoException env ''fsetfilecon''
                  else (\<lambda>v. (Returned (), v))) v)
         \<and> errno v = errno w3 \<and> pending v = pending w \<and> objects v = objects w
         \<and> next_ref v = next_ref w \<and> errnoExceptionClass v = errnoExceptionClass w
         \<and> constructor3 v = constructor3 w \<and> constructor2 v = constructor2 w
         \<and> trace v = trace w @ evs \<and> \<not> list_ex is_raise evs"
proof -
  from Java_fsetfilecon_after_call [OF fd m run]
  obtain n where op: "Java_me_zhanghai_android_libselinux_SeLinux_fsetfilecon env lib javaFd javaContext w0 =
           Some ((if errno w3 \<noteq> 0
                  then throwErrnoException env ''fsetfilecon''
                  else (\<lambda>v. (Returned (), v)))
                 (w\<lparr>errno := errno w3,
                    heap := (heap w)(next_addr w := None),
                    next_addr := Suc (next_addr w),
                    calls := calls w + Suc n,
                    trace := trace w
                      @ [EvMalloc (next_addr w) (length javaContext + 1)]
                      @ replicate (Suc n) (EvNativeCall ''fsetfilecon'')
                      @ [EvFree (next_addr w), EvInspectErrno (errno w3)]\<rparr>))"
    by (rule exE)
  show ?thesis
    unfolding op
    by (rule exI, rule exI [of _ "[EvMalloc (next_addr w) (length javaContext + 1)]
                      @ replicate (Suc n) (EvNativeCall ''fsetfilecon'')
                      @ [EvFree (next_addr w), EvInspectErrno (errno w3)]"],
        rule conjI, rule refl)
       (simp add: not_raise_replicate)
qed

lemma Java_fgetfilecon_after_call_frame:
  assumes fd: "getFileDescriptorDescriptorField env w0 = (Returned field, w)"
    and run: "TEMP_FAILURE_RETRY (fgetfilecon lib (GetIntField javaFd field)) None w
                = Some (r, ctx, w2)"
  shows "\<exists>v evs. Java_me_zhanghai_android_libselinux_SeLinux_fgetfilecon env lib javaFd w0 =
           Some ((if errno w2 \<noteq> 0
                  then bindM (throwErrnoException env ''fgetfilecon'')
                         (\<lambda>_ v. (Returned None, v))
                  else bindM (newBytesFromString env ctx)
                         (\<lambda>javaContext. bindM (freecon ctx)
                            (\<lambda>_ v. (Returned javaContext, v)))) v)
         \<and> errno v = errno w2 \<and> pending v = pending w \<and> objects v = objects w
         \<and> next_ref v = next_ref w \<and> errnoExceptionClass v = errnoExceptionClass w
         \<and> constructor3 v = constructor3 w \<and> constructor2 v = constructor2 w
         \<and> heap v = heap w2
         \<and> trace v = trace w @ evs \<and> \<not> list_ex is_raise evs"
proof -
  from Java_fgetfilecon_after_call [OF fd run]
  obtain n where op: "Java_me_zhanghai_android_libselinux_SeLinux_fgetfilecon env lib javaFd w0 =
           Some ((if errno w2 \<noteq> 0
                  then bindM (throwErrnoException env ''fgetfilecon'')
                         (\<lambda>_ v. (Returned None, v))
                  else bindM (newBytesFromString env ctx)
                         (\<lambda>javaContext. bindM (freecon ctx)
                            (\<lambda>_ v. (Returned javaContext, v))))
                 (w\<lparr>errno := errno w2,
                    heap := heap w2,
                    next_addr := next_addr w2,
                    calls := calls w + Suc n,
                    trace := trace w
                      @ replicate (Suc n) (EvNativeCall ''fgetfilecon'')
                      @ [EvInspectErrno (errno w2)]\<rparr>))"
    by (rule exE)
  show ?thesis
    unfolding op
    by (rule exI, rule exI [of _ "replicate (Suc n) (EvNativeCall ''fgetfilecon'')
                      @ [EvInspectErrno (errno w2)]"],
        rule conjI, rule refl)
       (simp add: not_raise_replicate)
qed


lemma doGetfilecon_raises:
  assumes m1: "mallocStringFromBytes env javaPath w = (Returned path, w1)"
    and run: "TEMP_FAILURE_RETRY ((if isL then lgetfilecon else getfilecon) lib path) None w1
                = Some (r, ctx, w2)"
    and nz: "errno w2 \<noteq> 0"
    and sym: "symbols_resolve env w cls m3 m2" and obj: "NewObject_ok env"
  shows "\<exists>w'. doGetfilecon env lib javaPath isL w = Some (Returned None, w')
            \<and> raised w w' (if NewStringUTF_ok env
                            then Some (if isL then ''lgetfilecon'' else ''getfilecon'')
                            else None) (errno w2)"
proof -
  from doGetfilecon_after_call_frame [OF m1 run] nz
  obtain v where op: "doGetfilecon env lib javaPath isL w =
       Some (bindM (throwErrnoException env (if isL then ''lgetfilecon'' else ''getfilecon''))
               (\<lambda>_ u. (Returned None, u)) v)"
    and v: "errnoExceptionClass v = errnoExceptionClass w" "constructor3 v = constructor3 w"
      "constructor2 v = constructor2 w" "next_ref v = next_ref w"
    and e: "errno v = errno w2"
    by auto
  from raise_then_return [OF sym obj v,
      where res = None and fn = "if isL then ''lgetfilecon'' else ''getfilecon''"]
  show ?thesis
    unfolding op e by auto
qed

lemma doGetfilecon_quiet:
  assumes m1: "mallocStringFromBytes env javaPath w = (Returned path, w1)"
    and run: "TEMP_FAILURE_RETRY ((if isL then lgetfilecon else getfilecon) lib path) None w1
                = Some (r, ctx, w2)"
    and z: "errno w2 = 0"
  shows "\<exists>res w' evs. doGetfilecon env lib javaPath isL w = Some (res, w')
            \<and> objects w' = objects w
            \<and> (pending w' = pending w \<or> pending w' = Some (oom env))
            \<and> trace w' = trace w @ evs \<and> \<not> list_ex is_raise evs"
proof -
  from doGetfilecon_after_call_frame [OF m1 run] z
  obtain v evs where op: "doGetfilecon env lib javaPath isL w =
       Some (bindM (newBytesFromString env ctx)
               (\<lambda>javaContext. bindM (freecon ctx) (\<lambda>_ v. (Returned javaContext, v))) v)"
    and v: "pending v = pending w" "objects v = objects w" "trace v = trace w @ evs"
      "\<not> list_ex is_raise evs"
    by auto
  obtain res w' where c: "bindM (newBytesFromString env ctx)
               (\<lambda>javaContext. bindM (freecon ctx) (\<lambda>_ v. (Returned javaContext, v))) v
               = (res, w')"
    by (cases "bindM (newBytesFromString env ctx)
               (\<lambda>javaContext. bindM (freecon ctx) (\<lambda>_ v. (Returned javaContext, v))) v") auto
  from convert_context_quiet(3) [OF c]
  obtain evs2 where t: "trace w' = trace v @ evs2" and q: "\<not> list_ex is_raise evs2"
    by blast
  from t q v have "trace w' = trace w @ (evs @ evs2)" and "\<not> list_ex is_raise (evs @ evs2)"
    by simp_all
  with convert_context_quiet(1,2) [OF c] v show ?thesis
    unfolding op c by (intro exI [of _ res] exI [of _ w'] exI [of _ "evs @ evs2"]) simp
qed

lemma doGetfilecon_returns_context:
  assumes m1: "mallocStringFromBytes env javaPath w = (Returned path, w1)"
    and run: "TEMP_FAILURE_RETRY ((if isL then lgetfilecon else getfilecon) lib path) None w1
                = Some (r, Some c, w2)"
    and z: "errno w2 = 0"
    and blk: "heap w2 c = Some block" and len: "strlen_block block = Some n" "n < 2 ^ 31"
    and arr: "NewByteArray_ok env"
  shows "\<exists>w'. doGetfilecon env lib javaPath isL w = Some (Returned (Some (take n block)), w')
            \<and> pending w' = pending w \<and> objects w' = objects w"
proof -
  from doGetfilecon_after_call(2) [OF m1 run] have ne: "c \<noteq> next_addr w"
    by auto
  from doGetfilecon_after_call_frame [OF m1 run] z
  obtain v where op: "doGetfilecon env lib javaPath isL w =
       Some (bindM (newBytesFromString env (Some c))
               (\<lambda>javaContext. bindM (freecon (Some c)) (\<lambda>_ v. (Returned javaContext, v))) v)"
    and v: "pending v = pending w" "objects v = objects w"
    and h: "heap v = (heap w2)(next_addr w := None)"
    by auto
  from h blk ne have "heap v c = Some block"
    by simp
  from convert_context_result [OF this len arr] v show ?thesis
    unfolding op by simp
qed

lemma doSetfilecon_raises:
  assumes m1: "mallocStringFromBytes env javaPath w = (Returned path, w1)"
    and m2: "mallocStringFromBytes env javaContext w1 = (Returned ctx, w2)"
    and run: "TEMP_FAILURE_RETRY ((if isL then lsetfilecon else setfilecon) lib path ctx) () w2
                = Some (r, u, w3)"
    and nz: "errno w3 \<noteq> 0"
    and sym: "symbols_resolve env w cls m3 m2" and obj: "NewObject_ok env"
  shows "\<exists>w'. doSetfilecon env lib javaPath javaContext isL w = Some (Returned (), w')
            \<and> raised w w' (if NewStringUTF_ok env
                            then Some (if isL then ''lsetfilecon'' else ''setfilecon'')
                            else None) (errno w3)"
proof -
  from doSetfilecon_after_call_frame [OF m1 m2 run] nz
  obtain v where op: "doSetfilecon env lib javaPath javaContext isL w =
       Some (throwErrnoException env (if isL then ''lsetfilecon'' else ''setfilecon'') v)"
    and v: "errnoExceptionClass v = errnoExceptionClass w" "constructor3 v = constructor3 w"
      "constructor2 v = constructor2 w" "next_ref v = next_ref w"
    and e: "errno v = errno w3"
    by auto
  from raise_then_return [OF sym obj v,
      where res = "()" and fn = "if isL then ''lsetfilecon'' else ''setfilecon''"]
  show ?thesis
    unfolding op e by auto
qed

lemma doSetfilecon_quiet:
  assumes m1: "mallocStringFromBytes env javaPath w = (Returned path, w1)"
    and m2: "mallocStringFromBytes env javaContext w1 = (Returned ctx, w2)"
    and run: "TEMP_FAILURE_RETRY ((if isL then lsetfilecon else setfilecon) lib path ctx) () w2
                = Some (r, u, w3)"
    and z: "errno w3 = 0"
  shows "\<exists>w' evs. doSetfilecon env lib javaPath javaContext isL w = Some (Returned (), w')
            \<and> objects w' = objects w \<and> pending w' = pending w
            \<and> trace w' = trace w @ evs \<and> \<not> list_ex is_raise evs"
  using doSetfilecon_after_call_frame [OF m1 m2 run] z by auto

lemma Java_fgetfilecon_raises:
  assumes fd: "getFileDescriptorDescriptorField env w0 = (Returned field, w)"
    and run: "TEMP_FAILURE_RETRY (fgetfilecon lib (GetIntField javaFd field)) None w
                = Some (r, ctx, w2)"
    and nz: "errno w2 \<noteq> 0"
    and sym: "symbols_resolve env w0 cls m3 m2" and obj: "NewObject_ok env"
  shows "\<exists>w'. Java_me_zhanghai_android_libselinux_SeLinux_fgetfilecon env lib javaFd w0
                = Some (Returned None, w')
            \<and> raised w0 w' (if NewStringUTF_ok env then Some ''fgetfilecon'' else None)
                 (errno w2)"
proof -
  note f = getFileDescriptorDescriptorField_frame [OF fd]
  from Java_fgetfilecon_after_call_frame [OF fd run] nz
  obtain v where op: "Java_me_zhanghai_android_libselinux_SeLinux_fgetfilecon env lib javaFd w0 =
       Some (bindM (throwErrnoException env ''fgetfilecon'') (\<lambda>_ u. (Returned None, u)) v)"
    and v: "errnoExceptionClass v = errnoExceptionClass w" "constructor3 v = constructor3 w"
      "constructor2 v = constructor2 w" "next_ref v = next_ref w"
    and e: "errno v = errno w2"
    by auto
  from v f have "errnoExceptionClass v = errnoExceptionClass w0" "constructor3 v = constructor3 w0"
      "constructor2 v = constructor2 w0" "next_ref v = next_ref w0"
    by simp_all
  from raise_then_return [OF sym obj this, where res = None and fn = "''fgetfilecon''"]
  show ?thesis
    unfolding op e by auto
qed

lemma Java_fgetfilecon_quiet:
  assumes fd: "getFileDescriptorDescriptorField env w0 = (Returned field, w)"
    and run: "TEMP_FAILURE_RETRY (fgetfilecon lib (GetIntField javaFd field)) None w
                = Some (r, ctx, w2)"
    and z: "errno w2 = 0"
  shows "\<exists>res w' evs. Java_me_zhanghai_android_libselinux_SeLinux_fgetfilecon env lib javaFd w0
                = Some (res, w')
            \<and> objects w' = objects w0
            \<and> (pending w' = pending w0 \<or> pending w' = Some (oom env))
            \<and> trace w' = trace w0 @ evs \<and> \<not> list_ex is_raise evs"
proof -
  note f = getFileDescriptorDescriptorField_frame [OF fd]
  from f(7) obtain evs0 where t0: "trace w = trace w0 @ evs0" and l0: "list_all is_lookup evs0"
    by blast
  have q0: "\<not> list_ex is_raise evs0"
    using l0 by (induction evs0) (auto elim: is_lookup.elims)
  from Java_fgetfilecon_after_call_frame [OF fd run] z
  obtain v evs where op: "Java_me_zhanghai_android_libselinux_SeLinux_fgetfilecon env lib javaFd w0 =
       Some (bindM (newBytesFromString env ctx)
               (\<lambda>javaContext. bindM (freecon ctx) (\<lambda>_ v. (Returned javaContext, v))) v)"
    and v: "pending v = pending w" "objects v = objects w" "trace v = trace w @ evs"
      "\<not> list_ex is_raise evs"
    by auto
  obtain res w' where c: "bindM (newBytesFromString env ctx)
               (\<lambda>javaContext. bindM (freecon ctx) (\<lambda>_ v. (Returned javaContext, v))) v
               = (res, w')"
    by (cases "bindM (newBytesFromString env ctx)
               (\<lambda>javaContext. bindM (freecon ctx) (\<lambda>_ v. (Returned javaContext, v))) v") auto
  from convert_context_quiet(3) [OF c]
  obtain evs2 where t: "trace w' = trace v @ evs2" and q: "\<not> list_ex is_raise evs2"
    by blast
  from t q v t0 q0 have "trace w' = trace w0 @ (evs0 @ evs @ evs2)"
    and "\<not> list_ex is_raise (evs0 @ evs @ evs2)"
    by simp_all
  with convert_context_quiet(1,2) [OF c] v f(1,2) show ?thesis
    unfolding op c
    by (intro exI [of _ res] exI [of _ w'] exI [of _ "evs0 @ evs @ evs2"]) simp
qed

lemma Java_fsetfilecon_raises:
  assumes fd: "getFileDescriptorDescriptorField env w0 = (Returned field, w)"
    and m: "mallocStringFromBytes env javaContext w = (Returned ctx, w2)"
    and run: "TEMP_FAILURE_RETRY (fsetfilecon lib (GetIntField javaFd field) ctx) () w2
                = Some (r, u, w3)"
    and nz: "errno w3 \<noteq> 0"
    and sym: "symbols_resolve env w0 cls m3 m2" and obj: "NewObject_ok env"
  shows "\<exists>w'. Java_me_zhanghai_android_libselinux_SeLinux_fsetfilecon env lib javaFd javaContext w0
                = Some (Returned (), w')
            \<and> raised w0 w' (if NewStringUTF_ok env then Some ''fsetfilecon'' else None)
                 (errno w3)"
proof -
  note f = getFileDescriptorDescriptorField_frame [OF fd]
  from Java_fsetfilecon_after_call_frame [OF fd m run] nz
  obtain v where op: "Java_me_zhanghai_android_libselinux_SeLinux_fsetfilecon env lib javaFd javaContext w0 =
       Some (throwErrnoException env ''fsetfilecon'' v)"
    and v: "errnoExceptionClass v = errnoExceptionClass w" "constructor3 v = constructor3 w"
      "constructor2 v = constructor2 w" "next_ref v = next_ref w"
    and e: "errno v = errno w3"
    by auto
  from v f have "errnoExceptionClass v = errnoExceptionClass w0" "constructor3 v = constructor3 w0"
      "constructor2 v = constructor2 w0" "next_ref v = next_ref w0"
    by simp_all
  from raise_then_return [OF sym obj this, where res = "()" and fn = "''fsetfilecon''"]
  show ?thesis
    unfolding op e by auto
qed

lemma Java_fsetfilecon_quiet:
  assumes fd: "getFileDescriptorDescriptorField env w0 = (Returned field, w)"
    and m: "mallocStringFromBytes env javaContext w = (Returned ctx, w2)"
    and run: "TEMP_FAILURE_RETRY (fsetfilecon lib (GetIntField javaFd field) ctx) () w2
                = Some (r, u, w3)"
    and z: "errno w3 = 0"
  shows "\<exists>w' evs. Java_me_zhanghai_android_libselinux_SeLinux_fsetfilecon env lib javaFd javaContext w0
                = Some (Returned (), w')
            \<and> objects w' = objects w0 \<and> pending w' = pending w0
            \<and> trace w' = trace w0 @ evs \<and> \<not> list_ex is_raise evs"
proof -
  note f = getFileDescriptorDescriptorField_frame [OF fd]
  from f(7) obtain evs0 where t0: "trace w = trace w0 @ evs0" and l0: "list_all is_lookup evs0"
    by blast
  have q0: "\<not> list_ex is_raise evs0"
    using l0 by (induction evs0) (auto elim: is_lookup.elims)
  from Java_fsetfilecon_after_call_frame [OF fd m run] z
  obtain v evs where op: "Java_me_zhanghai_android_libselinux_SeLinux_fsetfilecon env lib javaFd javaContext w0 =
       Some (Returned (), v)"
    and v: "pending v = pending w" "objects v = objects w" "trace v = trace w @ evs"
      "\<not> list_ex is_raise evs"
    by auto
  from v t0 q0 have "trace v = trace w0 @ (evs0 @ evs)" and "\<not> list_ex is_raise (evs0 @ evs)"
    by simp_all
  with v f(1,2) show ?thesis
    unfolding op by (intro exI [of _ v] exI [of _ "evs0 @ evs"]) simp
qed

section \<open>The success path of the get operations\<close>

text \<open>
  The pending exception after the conversion of the context: the runtime's allocation error
  when \<^verbatim>\<open>NewByteArray\<close> returned NULL, which is when the conversion returns NULL; the one
  before in every other case.
\<close>

lemma convert_context_pending:
  assumes "bindM (newBytesFromString env ctx)
             (\<lambda>javaContext. bindM (freecon ctx) (\<lambda>_ v. (Returned javaContext, v))) v = (res, v')"
  shows "pending v' = (if res = Returned None then Some (oom env) else pending v)"
proof -
  obtain r1 v1 where n: "newBytesFromString env ctx v = (r1, v1)"
    by (cases "newBytesFromString env ctx v") auto
  then have p1: "pending v1 = (if r1 = Returned None then Some (oom env) else pending v)"
    and h1: "r1 \<noteq> Crashed \<longrightarrow> (\<exists>a block. ctx = Some a \<and> heap v1 a = Some block)"
    and a1: "r1 \<noteq> Aborted"
    by (auto simp: newBytesFromString_def NewByteArray_def Let_def
        split: option.splits prod.splits if_splits)
  show ?thesis
  proof (cases r1)
    case (Returned x)
    with h1 obtain a block where cx: "ctx = Some a" "heap v1 a = Some block"
      by auto
    with assms n Returned
    have "res = Returned x" and "pending v' = pending v1"
      by (auto simp: bindM_def freecon_def log_event_def)
    with p1 Returned show ?thesis
      by simp
  next
    case Aborted
    with a1 show ?thesis by simp
  next
    case Crashed
    with assms n p1 show ?thesis
      by (auto simp: bindM_def)
  qed
qed

text \<open>
  When the runtime cannot allocate the result array, the conversion returns NULL, the
  context is released all the same, and the runtime's allocation error is left pending.
\<close>

lemma convert_context_no_array:
  assumes "heap v c = Some block" and "strlen_block block = Some n"
    and "\<not> NewByteArray_ok env"
  shows "bindM (newBytesFromString env (Some c))
           (\<lambda>javaContext. bindM (freecon (Some c)) (\<lambda>_ v. (Returned javaContext, v))) v
         = (Returned None,
            v\<lparr>pending := Some (oom env), heap := (heap v)(c := None),
              trace := trace v @ [EvFreecon c]\<rparr>)"
  using assms
  by (simp add: bindM_def newBytesFromString_def NewByteArray_def freecon_def log_event_def)

lemma doGetfilecon_zero:
  assumes m1: "mallocStringFromBytes env javaPath w = (Returned path, w1)"
    and run: "TEMP_FAILURE_RETRY ((if isL then lgetfilecon else getfilecon) lib path) None w1
                = Some (r, ctx, w2)"
    and z: "errno w2 = 0"
  shows "\<exists>res w' evs. doGetfilecon env lib javaPath isL w = Some (res, w')
            \<and> objects w' = objects w
            \<and> pending w' = (if res = Returned None then Some (oom env) else pending w)
            \<and> trace w' = trace w @ evs \<and> \<not> list_ex is_raise evs
            \<and> (ctx = Some c \<and> heap w2 c = Some block \<and> strlen_block block = Some n
                 \<and> n < 2 ^ 31 \<and> NewByteArray_ok env
               \<longrightarrow> res = Returned (Some (take n block)))
            \<and> (ctx = Some c \<and> heap w2 c = Some block \<and> strlen_block block = Some n
                 \<and> \<not> NewByteArray_ok env
               \<longrightarrow> res = Returned None)"
proof -
  from doGetfilecon_after_call_frame [OF m1 run] z
  obtain v evs where op: "doGetfilecon env lib javaPath isL w =
       Some (bindM (newBytesFromString env ctx)
               (\<lambda>javaContext. bindM (freecon ctx) (\<lambda>_ v. (Returned javaContext, v))) v)"
    and v: "pending v = pending w" "objects v = objects w" "trace v = trace w @ evs"
      "\<not> list_ex is_raise evs"
    and hv: "heap v = (heap w2)(next_addr w := None)"
    by auto
  obtain res w' where cv: "bindM (newBytesFromString env ctx)
               (\<lambda>javaContext. bindM (freecon ctx) (\<lambda>_ v. (Returned javaContext, v))) v
               = (res, w')"
    by (cases "bindM (newBytesFromString env ctx)
               (\<lambda>javaContext. bindM (freecon ctx) (\<lambda>_ v. (Returned javaContext, v))) v") auto
  from convert_context_quiet(3) [OF cv]
  obtain evs2 where t: "trace w' = trace v @ evs2" and q: "\<not> list_ex is_raise evs2"
    by blast
  from t q v have tr: "trace w' = trace w @ (evs @ evs2)"
    and nr: "\<not> list_ex is_raise (evs @ evs2)"
    by simp_all
  have bytes: "ctx = Some c \<and> heap w2 c = Some block \<and> strlen_block block = Some n
                 \<and> n < 2 ^ 31 \<and> NewByteArray_ok env
               \<longrightarrow> res = Returned (Some (take n block))"
  proof (intro impI, elim conjE)
    assume h: "ctx = Some c" "heap w2 c = Some block" "strlen_block block = Some n"
      "n < 2 ^ 31" "NewByteArray_ok env"
    from run h(1)
    have "TEMP_FAILURE_RETRY ((if isL then lgetfilecon else getfilecon) lib path) None w1
            = Some (r, Some c, w2)"
      by simp
    from doGetfilecon_returns_context [OF m1 this z h(2,3,4,5)]
    obtain w'' where "doGetfilecon env lib javaPath isL w
        = Some (Returned (Some (take n block)), w'')"
      by blast
    with op cv show "res = Returned (Some (take n block))"
      by simp
  qed
  have nobytes: "ctx = Some c \<and> heap w2 c = Some block \<and> strlen_block block = Some n
                 \<and> \<not> NewByteArray_ok env
               \<longrightarrow> res = Returned None"
  proof (intro impI, elim conjE)
    assume h: "ctx = Some c" "heap w2 c = Some block" "strlen_block block = Some n"
      "\<not> NewByteArray_ok env"
    from doGetfilecon_after_call(2) [OF m1 run] h(1) have "c \<noteq> next_addr w"
      by auto
    with hv h(2) have "heap v c = Some block"
      by simp
    from convert_context_no_array [OF this h(3,4)] cv h(1)
    show "res = Returned None"
      by simp
  qed
  from convert_context_quiet(1) [OF cv] convert_context_pending [OF cv] v tr nr bytes nobytes
  show ?thesis
    unfolding op cv
    by (intro exI [of _ res] exI [of _ w'] exI [of _ "evs @ evs2"]) simp
qed

lemma Java_fgetfilecon_zero:
  assumes fd: "getFileDescriptorDescriptorField env w0 = (Returned field, w)"
    and run: "TEMP_FAILURE_RETRY (fgetfilecon lib (GetIntField javaFd field)) None w
                = Some (r, ctx, w2)"
    and z: "errno w2 = 0"
  shows "\<exists>res w' evs. Java_me_zhanghai_android_libselinux_SeLinux_fgetfilecon env lib javaFd w0
                = Some (res, w')
            \<and> objects w' = objects w0
            \<and> pending w' = (if res = Returned None then Some (oom env) else pending w0)
            \<and> trace w' = trace w0 @ evs \<and> \<not> list_ex is_raise evs
            \<and> (ctx = Some c \<and> heap w2 c = Some block \<and> strlen_block block = Some n
                 \<and> n < 2 ^ 31 \<and> NewByteArray_ok env
               \<longrightarrow> res = Returned (Some (take n block)))
            \<and> (ctx = Some c \<and> heap w2 c = Some block \<and> strlen_block block = Some n
                 \<and> \<not> NewByteArray_ok env
               \<longrightarrow> res = Returned None)"
proof -
  note f = getFileDescriptorDescriptorField_frame [OF fd]
  from f(7) obtain evs0 where t0: "trace w = trace w0 @ evs0" and l0: "list_all is_lookup evs0"
    by blast
  have q0: "\<not> list_ex is_raise evs0"
    using l0 by (induction evs0) (auto elim: is_lookup.elims)
  from Java_fgetfilecon_after_call_frame [OF fd run] z
  obtain v evs where op: "Java_me_zhanghai_android_libselinux_SeLinux_fgetfilecon env lib javaFd w0 =
       Some (bindM (newBytesFromString env ctx)
               (\<lambda>javaContext. bindM (freecon ctx) (\<lambda>_ v. (Returned javaContext, v))) v)"
    and v: "pending v = pending w" "objects v = objects w" "trace v = trace w @ evs"
      "\<not> list_ex is_raise evs"
    and hv: "heap v = heap w2"
    by auto
  obtain res w' where cv: "bindM (newBytesFromString env ctx)
               (\<lambda>javaContext. bindM (freecon ctx) (\<lambda>_ v. (Returned javaContext, v))) v
               = (res, w')"
    by (cases "bindM (newBytesFromString env ctx)
               (\<lambda>javaContext. bindM (freecon ctx) (\<lambda>_ v. (Returned javaContext, v))) v") auto
  from convert_context_quiet(3) [OF cv]
  obtain evs2 where t: "trace w' = trace v @ evs2" and q: "\<not> list_ex is_raise evs2"
    by blast
  from t q v t0 q0 have tr: "trace w' = trace w0 @ (evs0 @ evs @ evs2)"
    and nr: "\<not> list_ex is_raise (evs0 @ evs @ evs2)"
    by simp_all
  have bytes: "ctx = Some c \<and> heap w2 c = Some block \<and> strlen_block block = Some n
                 \<and> n < 2 ^ 31 \<and> NewByteArray_ok env
               \<longrightarrow> res = Returned (Some (take n block))"
  proof (intro impI, elim conjE)
    assume h: "ctx = Some c" "heap w2 c = Some block" "strlen_block block = Some n"
      "n < 2 ^ 31" "NewByteArray_ok env"
    from h(2) hv have "heap v c = Some block"
      by simp
    from convert_context_result [OF this h(3,4,5)] cv h(1)
    show "res = Returned (Some (take n block))"
      by simp
  qed
  have nobytes: "ctx = Some c \<and> heap w2 c = Some block \<and> strlen_block block = Some n
                 \<and> \<not> NewByteArray_ok env
               \<longrightarrow> res = Returned None"
  proof (intro impI, elim conjE)
    assume h: "ctx = Some c" "heap w2 c = Some block" "strlen_block block = Some n"
      "\<not> NewByteArray_ok env"
    from h(2) hv have "heap v c = Some block"
      by simp
    from convert_context_no_array [OF this h(3,4)] cv h(1)
    show "res = Returned None"
      by simp
  qed
  from convert_context_quiet(1) [OF cv] convert_context_pending [OF cv] v f(1,2) tr nr bytes
    nobytes
  show ?thesis
    unfolding op cv
    by (intro exI [of _ res] exI [of _ w'] exI [of _ "evs0 @ evs @ evs2"]) simp
qed

text \<open>The four exported path operations fix the variant.\<close>

lemma Java_getfilecon_raises:
  assumes "mallocStringFromBytes env javaPath w = (Returned path, w1)"
    and "TEMP_FAILURE_RETRY (getfilecon lib path) None w1 = Some (r, ctx, w2)"
    and "errno w2 \<noteq> 0"
    and "symbols_resolve env w cls m3 m2" and "NewObject_ok env"
  shows "\<exists>w'. Java_me_zhanghai_android_libselinux_SeLinux_getfilecon env lib javaPath w
                = Some (Returned None, w')
            \<and> raised w w' (if NewStringUTF_ok env then Some ''getfilecon'' else None)
                 (errno w2)"
proof -
  from assms(2)
  have "TEMP_FAILURE_RETRY ((if False then lgetfilecon else getfilecon) lib path) None w1
          = Some (r, ctx, w2)"
    by simp
  from doGetfilecon_raises [OF assms(1) this assms(3,4,5)] show ?thesis
    by (cases "NewStringUTF_ok env") (simp_all add: Java_me_zhanghai_android_libselinux_SeLinux_getfilecon_def)
qed

lemma Java_lgetfilecon_raises:
  assumes "mallocStringFromBytes env javaPath w = (Returned path, w1)"
    and "TEMP_FAILURE_RETRY (lgetfilecon lib path) None w1 = Some (r, ctx, w2)"
    and "errno w2 \<noteq> 0"
    and "symbols_resolve env w cls m3 m2" and "NewObject_ok env"
  shows "\<exists>w'. Java_me_zhanghai_android_libselinux_SeLinux_lgetfilecon env lib javaPath w
                = Some (Returned None, w')
            \<and> raised w w' (if NewStringUTF_ok env then Some ''lgetfilecon'' else None)
                 (errno w2)"
proof -
  from assms(2)
  have "TEMP_FAILURE_RETRY ((if True then lgetfilecon else getfilecon) lib path) None w1
          = Some (r, ctx, w2)"
    by simp
  from doGetfilecon_raises [OF assms(1) this assms(3,4,5)] show ?thesis
    by (cases "NewStringUTF_ok env") (simp_all add: Java_me_zhanghai_android_libselinux_SeLinux_lgetfilecon_def)
qed

lemma Java_getfilecon_zero:
  assumes "mallocStringFromBytes env javaPath w = (Returned path, w1)"
    and "TEMP_FAILURE_RETRY (getfilecon lib path) None w1 = Some (r, ctx, w2)"
    and "errno w2 = 0"
  shows "\<exists>res w' evs. Java_me_zhanghai_android_libselinux_SeLinux_getfilecon env lib javaPath w
                = Some (res, w')
            \<and> objects w' = objects w
            \<and> pending w' = (if res = Returned None then Some (oom env) else pending w)
            \<and> trace w' = trace w @ evs \<and> \<not> list_ex is_raise evs
            \<and> (ctx = Some c \<and> heap w2 c = Some block \<and> strlen_block block = Some n
                 \<and> n < 2 ^ 31 \<and> NewByteArray_ok env
               \<longrightarrow> res = Returned (Some (take n block)))
            \<and> (ctx = Some c \<and> heap w2 c = Some block \<and> strlen_block block = Some n
                 \<and> \<not> NewByteArray_ok env
               \<longrightarrow> res = Returned None)"
  unfolding Java_me_zhanghai_android_libselinux_SeLinux_getfilecon_def
  using assms(2) by (intro doGetfilecon_zero [where isL = False, OF assms(1) _ assms(3)]) simp

lemma Java_lgetfilecon_zero:
  assumes "mallocStringFromBytes env javaPath w = (Returned path, w1)"
    and "TEMP_FAILURE_RETRY (lgetfilecon lib path) None w1 = Some (r, ctx, w2)"
    and "errno w2 = 0"
  shows "\<exists>res w' evs. Java_me_zhanghai_android_libselinux_SeLinux_lgetfilecon env lib javaPath w
                = Some (res, w')
            \<and> objects w' = objects w
            \<and> pending w' = (if res = Returned None then Some (oom env) else pending w)
            \<and> trace w' = trace w @ evs \<and> \<not> list_ex is_raise evs
            \<and> (ctx = Some c \<and> heap w2 c = Some block \<and> strlen_block block = Some n
                 \<and> n < 2 ^ 31 \<and> NewByteArray_ok env
               \<longrightarrow> res = Returned (Some (take n block)))
            \<and> (ctx = Some c \<and> heap w2 c = Some block \<and> strlen_block block = Some n
                 \<and> \<not> NewByteArray_ok env
               \<longrightarrow> res = Returned None)"
  unfolding Java_me_zhanghai_android_libselinux_SeLinux_lgetfilecon_def
  using assms(2) by (intro doGetfilecon_zero [where isL = True, OF assms(1) _ assms(3)]) simp

lemma Java_setfilecon_raises:
  assumes "mallocStringFromBytes env javaPath w = (Returned path, w1)"
    and "mallocStringFromBytes env javaContext w1 = (Returned cx, w2)"
    and "TEMP_FAILURE_RETRY (setfilecon lib path cx) () w2 = Some (r, u, w3)"
    and "errno w3 \<noteq> 0"
    and "symbols_resolve env w cls m3 m2" and "NewObject_ok env"
  shows "\<exists>w'. Java_me_zhanghai_android_libselinux_SeLinux_setfilecon env lib javaPath
                javaContext w = Some (Returned (), w')
            \<and> raised w w' (if NewStringUTF_ok env then Some ''setfilecon'' else None)
                 (errno w3)"
proof -
  from assms(3)
  have "TEMP_FAILURE_RETRY ((if False then lsetfilecon else setfilecon) lib path cx) () w2
          = Some (r, u, w3)"
    by simp
  from doSetfilecon_raises [OF assms(1,2) this assms(4,5,6)] show ?thesis
    by (cases "NewStringUTF_ok env") (simp_all add: Java_me_zhanghai_android_libselinux_SeLinux_setfilecon_def)
qed

lemma Java_lsetfilecon_raises:
  assumes "mallocStringFromBytes env javaPath w = (Returned path, w1)"
    and "mallocStringFromBytes env javaContext w1 = (Returned cx, w2)"
    and "TEMP_FAILURE_RETRY (lsetfilecon lib path cx) () w2 = Some (r, u, w3)"
    and "errno w3 \<noteq> 0"
    and "symbols_resolve env w cls m3 m2" and "NewObject_ok env"
  shows "\<exists>w'. Java_me_zhanghai_android_libselinux_SeLinux_lsetfilecon env lib javaPath
                javaContext w = Some (Returned (), w')
            \<and> raised w w' (if NewStringUTF_ok env then Some ''lsetfilecon'' else None)
                 (errno w3)"
proof -
  from assms(3)
  have "TEMP_FAILURE_RETRY ((if True then lsetfilecon else setfilecon) lib path cx) () w2
          = Some (r, u, w3)"
    by simp
  from doSetfilecon_raises [OF assms(1,2) this assms(4,5,6)] show ?thesis
    by (cases "NewStringUTF_ok env") (simp_all add: Java_me_zhanghai_android_libselinux_SeLinux_lsetfilecon_def)
qed

lemma Java_setfilecon_zero:
  assumes "mallocStringFromBytes env javaPath w = (Returned path, w1)"
    and "mallocStringFromBytes env javaContext w1 = (Returned cx, w2)"
    and "TEMP_FAILURE_RETRY (setfilecon lib path cx) () w2 = Some (r, u, w3)"
    and "errno w3 = 0"
  shows "\<exists>w' evs. Java_me_zhanghai_android_libselinux_SeLinux_setfilecon env lib javaPath
                javaContext w = Some (Returned (), w')
            \<and> objects w' = objects w \<and> pending w' = pending w
            \<and> trace w' = trace w @ evs \<and> \<not> list_ex is_raise evs"
  unfolding Java_me_zhanghai_android_libselinux_SeLinux_setfilecon_def
  using assms(3) by (intro doSetfilecon_quiet [where isL = False, OF assms(1,2) _ assms(4)]) simp

lemma Java_lsetfilecon_zero:
  assumes "mallocStringFromBytes env javaPath w = (Returned path, w1)"
    and "mallocStringFromBytes env javaContext w1 = (Returned cx, w2)"
    and "TEMP_FAILURE_RETRY (lsetfilecon lib path cx) () w2 = Some (r, u, w3)"
    and "errno w3 = 0"
  shows "\<exists>w' evs. Java_me_zhanghai_android_libselinux_SeLinux_lsetfilecon env lib javaPath
                javaContext w = Some (Returned (), w')
            \<and> objects w' = objects w \<and> pending w' = pending w
            \<and> trace w' = trace w @ evs \<and> \<not> list_ex is_raise evs"
  unfolding Java_me_zhanghai_android_libselinux_SeLinux_lsetfilecon_def
  using assms(3) by (intro doSetfilecon_quiet [where isL = True, OF assms(1,2) _ assms(4)]) simp

text \<open>
  C5, as the code has it. Take a get-context or set-context operation (the six exported
  ones, and the two helpers behind the path variants for either flag) whose marshaling has
  succeeded and whose retried native call has returned, leaving \<^verbatim>\<open>errno\<close> at \<open>E\<close>.
  \<^item> If \<open>E\<close> is not zero, the exception symbols resolve and the runtime allocates the
    exception object, then the operation returns with a new exception pending whose error
    code is \<open>E\<close> and whose message is the name of the native function of that variant
    (\<^verbatim>\<open>getfilecon\<close> or \<^verbatim>\<open>lgetfilecon\<close>, \<^verbatim>\<open>setfilecon\<close> or \<^verbatim>\<open>lsetfilecon\<close>, \<^verbatim>\<open>fgetfilecon\<close>,
    \<^verbatim>\<open>fsetfilecon\<close>), or is null when the runtime could not allocate the message string.
  \<^item> If \<open>E\<close> is zero, the operation raises nothing: it adds no exception object and the run
    logs no \<^verbatim>\<open>NewObject\<close> and no \<^verbatim>\<open>Throw\<close>. After a set operation the pending exception is
    the one at entry. After a get operation it is the one at entry as well, unless the
    operation returns NULL because the runtime could not allocate the result array: then
    the runtime's own allocation error is pending. When the library has stored a
    terminated context, the get operation returns the bytes before the terminator if
    the runtime allocates the array (the context being shorter than \<open>2^31\<close> bytes), and
    NULL if it does not.
\<close>

theorem C5_errno_decides_and_exception_names_the_function:
  "((mallocStringFromBytes env javaPath w = (Returned path, w1)
    \<and> TEMP_FAILURE_RETRY
        ((if isL then lgetfilecon else getfilecon) lib path) None w1
      = Some (r, ctx, w2))
    \<longrightarrow>
      (errno w2 \<noteq> 0 \<and> symbols_resolve env w cls m3 m2 \<and> NewObject_ok env \<longrightarrow>
         (\<exists>w'. doGetfilecon env lib javaPath isL w
             = Some (Returned None, w')
           \<and> raised w w'
               (if NewStringUTF_ok env
                then Some (if isL then ''lgetfilecon'' else ''getfilecon'')
                else None)
               (errno w2)))
      \<and> (errno w2 = 0 \<longrightarrow>
         (\<exists>res w' evs. doGetfilecon env lib javaPath isL w
             = Some (res, w')
           \<and> objects w' = objects w
           \<and> pending w' = (if res = Returned None then Some (oom env) else pending w)
           \<and> trace w' = trace w @ evs \<and> \<not> list_ex is_raise evs
           \<and> (ctx = Some c \<and> heap w2 c = Some block \<and> strlen_block block = Some n
                \<and> n < 2 ^ 31 \<and> NewByteArray_ok env
              \<longrightarrow> res = Returned (Some (take n block)))
           \<and> (ctx = Some c \<and> heap w2 c = Some block \<and> strlen_block block = Some n
                \<and> \<not> NewByteArray_ok env
              \<longrightarrow> res = Returned None))))
   \<and> ((mallocStringFromBytes env javaPath w = (Returned path, w1)
    \<and> TEMP_FAILURE_RETRY
        (getfilecon lib path) None w1
      = Some (r, ctx, w2))
    \<longrightarrow>
      (errno w2 \<noteq> 0 \<and> symbols_resolve env w cls m3 m2 \<and> NewObject_ok env \<longrightarrow>
         (\<exists>w'. Java_me_zhanghai_android_libselinux_SeLinux_getfilecon env lib javaPath w
             = Some (Returned None, w')
           \<and> raised w w'
               (if NewStringUTF_ok env then Some ''getfilecon'' else None)
               (errno w2)))
      \<and> (errno w2 = 0 \<longrightarrow>
         (\<exists>res w' evs. Java_me_zhanghai_android_libselinux_SeLinux_getfilecon env lib javaPath w
             = Some (res, w')
           \<and> objects w' = objects w
           \<and> pending w' = (if res = Returned None then Some (oom env) else pending w)
           \<and> trace w' = trace w @ evs \<and> \<not> list_ex is_raise evs
           \<and> (ctx = Some c \<and> heap w2 c = Some block \<and> strlen_block block = Some n
                \<and> n < 2 ^ 31 \<and> NewByteArray_ok env
              \<longrightarrow> res = Returned (Some (take n block)))
           \<and> (ctx = Some c \<and> heap w2 c = Some block \<and> strlen_block block = Some n
                \<and> \<not> NewByteArray_ok env
              \<longrightarrow> res = Returned None))))
   \<and> ((mallocStringFromBytes env javaPath w = (Returned path, w1)
    \<and> TEMP_FAILURE_RETRY
        (lgetfilecon lib path) None w1
      = Some (r, ctx, w2))
    \<longrightarrow>
      (errno w2 \<noteq> 0 \<and> symbols_resolve env w cls m3 m2 \<and> NewObject_ok env \<longrightarrow>
         (\<exists>w'. Java_me_zhanghai_android_libselinux_SeLinux_lgetfilecon env lib javaPath w
             = Some (Returned None, w')
           \<and> raised w w'
               (if NewStringUTF_ok env then Some ''lgetfilecon'' else None)
               (errno w2)))
      \<and> (errno w2 = 0 \<longrightarrow>
         (\<exists>res w' evs. Java_me_zhanghai_android_libselinux_SeLinux_lgetfilecon env lib javaPath w
             = Some (res, w')
           \<and> objects w' = objects w
           \<and> pending w' = (if res = Returned None then Some (oom env) else pending w)
           \<and> trace w' = trace w @ evs \<and> \<not> list_ex is_raise evs
           \<and> (ctx = Some c \<and> heap w2 c = Some block \<and> strlen_block block = Some n
                \<and> n < 2 ^ 31 \<and> NewByteArray_ok env
              \<longrightarrow> res = Returned (Some (take n block)))
           \<and> (ctx = Some c \<and> heap w2 c = Some block \<and> strlen_block block = Some n
                \<and> \<not> NewByteArray_ok env
              \<longrightarrow> res = Returned None))))
   \<and> ((getFileDescriptorDescriptorField env w = (Returned field, f1)
    \<and> TEMP_FAILURE_RETRY
        (fgetfilecon lib (GetIntField javaFd field)) None f1
      = Some (r, ctx, f2))
    \<longrightarrow>
      (errno f2 \<noteq> 0 \<and> symbols_resolve env w cls m3 m2 \<and> NewObject_ok env \<longrightarrow>
         (\<exists>w'. Java_me_zhanghai_android_libselinux_SeLinux_fgetfilecon env lib javaFd w
             = Some (Returned None, w')
           \<and> raised w w'
               (if NewStringUTF_ok env then Some ''fgetfilecon'' else None)
               (errno f2)))
      \<and> (errno f2 = 0 \<longrightarrow>
         (\<exists>res w' evs. Java_me_zhanghai_android_libselinux_SeLinux_fgetfilecon env lib javaFd w
             = Some (res, w')
           \<and> objects w' = objects w
           \<and> pending w' = (if res = Returned None then Some (oom env) else pending w)
           \<and> trace w' = trace w @ evs \<and> \<not> list_ex is_raise evs
           \<and> (ctx = Some c \<and> heap f2 c = Some block \<and> strlen_block block = Some n
                \<and> n < 2 ^ 31 \<and> NewByteArray_ok env
              \<longrightarrow> res = Returned (Some (take n block)))
           \<and> (ctx = Some c \<and> heap f2 c = Some block \<and> strlen_block block = Some n
                \<and> \<not> NewByteArray_ok env
              \<longrightarrow> res = Returned None))))
   \<and> ((mallocStringFromBytes env javaPath w = (Returned path, w1)
    \<and> mallocStringFromBytes env javaContext w1 = (Returned cx, v2)
    \<and> TEMP_FAILURE_RETRY
        ((if isL then lsetfilecon else setfilecon) lib path cx) () v2
      = Some (r, u, v3))
    \<longrightarrow>
      (errno v3 \<noteq> 0 \<and> symbols_resolve env w cls m3 m2 \<and> NewObject_ok env \<longrightarrow>
         (\<exists>w'. doSetfilecon env lib javaPath javaContext isL w
             = Some (Returned (), w')
           \<and> raised w w'
               (if NewStringUTF_ok env
                then Some (if isL then ''lsetfilecon'' else ''setfilecon'')
                else None)
               (errno v3)))
      \<and> (errno v3 = 0 \<longrightarrow>
         (\<exists>w' evs. doSetfilecon env lib javaPath javaContext isL w
             = Some (Returned (), w')
           \<and> objects w' = objects w \<and> pending w' = pending w
           \<and> trace w' = trace w @ evs \<and> \<not> list_ex is_raise evs)))
   \<and> ((mallocStringFromBytes env javaPath w = (Returned path, w1)
    \<and> mallocStringFromBytes env javaContext w1 = (Returned cx, v2)
    \<and> TEMP_FAILURE_RETRY
        (setfilecon lib path cx) () v2
      = Some (r, u, v3))
    \<longrightarrow>
      (errno v3 \<noteq> 0 \<and> symbols_resolve env w cls m3 m2 \<and> NewObject_ok env \<longrightarrow>
         (\<exists>w'. Java_me_zhanghai_android_libselinux_SeLinux_setfilecon env lib javaPath
             javaContext w
             = Some (Returned (), w')
           \<and> raised w w'
               (if NewStringUTF_ok env then Some ''setfilecon'' else None)
               (errno v3)))
      \<and> (errno v3 = 0 \<longrightarrow>
         (\<exists>w' evs. Java_me_zhanghai_android_libselinux_SeLinux_setfilecon env lib javaPath
             javaContext w
             = Some (Returned (), w')
           \<and> objects w' = objects w \<and> pending w' = pending w
           \<and> trace w' = trace w @ evs \<and> \<not> list_ex is_raise evs)))
   \<and> ((mallocStringFromBytes env javaPath w = (Returned path, w1)
    \<and> mallocStringFromBytes env javaContext w1 = (Returned cx, v2)
    \<and> TEMP_FAILURE_RETRY
        (lsetfilecon lib path cx) () v2
      = Some (r, u, v3))
    \<longrightarrow>
      (errno v3 \<noteq> 0 \<and> symbols_resolve env w cls m3 m2 \<and> NewObject_ok env \<longrightarrow>
         (\<exists>w'. Java_me_zhanghai_android_libselinux_SeLinux_lsetfilecon env lib javaPath
             javaContext w
             = Some (Returned (), w')
           \<and> raised w w'
               (if NewStringUTF_ok env then Some ''lsetfilecon'' else None)
               (errno v3)))
      \<and> (errno v3 = 0 \<longrightarrow>
         (\<exists>w' evs. Java_me_zhanghai_android_libselinux_SeLinux_lsetfilecon env lib javaPath
             javaContext w
             = Some (Returned (), w')
           \<and> objects w' = objects w \<and> pending w' = pending w
           \<and> trace w' = trace w @ evs \<and> \<not> list_ex is_raise evs)))
   \<and> ((getFileDescriptorDescriptorField env w = (Returned field, f1)
    \<and> mallocStringFromBytes env javaContext f1 = (Returned cx, g2)
    \<and> TEMP_FAILURE_RETRY
        (fsetfilecon lib (GetIntField javaFd field) cx) () g2
      = Some (r, u, g3))
    \<longrightarrow>
      (errno g3 \<noteq> 0 \<and> symbols_resolve env w cls m3 m2 \<and> NewObject_ok env \<longrightarrow>
         (\<exists>w'. Java_me_zhanghai_android_libselinux_SeLinux_fsetfilecon env lib javaFd
             javaContext w
             = Some (Returned (), w')
           \<and> raised w w'
               (if NewStringUTF_ok env then Some ''fsetfilecon'' else None)
               (errno g3)))
      \<and> (errno g3 = 0 \<longrightarrow>
         (\<exists>w' evs. Java_me_zhanghai_android_libselinux_SeLinux_fsetfilecon env lib javaFd
             javaContext w
             = Some (Returned (), w')
           \<and> objects w' = objects w \<and> pending w' = pending w
           \<and> trace w' = trace w @ evs \<and> \<not> list_ex is_raise evs)))"
proof (intro conjI impI; elim conjE)
  assume "mallocStringFromBytes env javaPath w = (Returned path, w1)"
    "TEMP_FAILURE_RETRY
        ((if isL then lgetfilecon else getfilecon) lib path) None w1
      = Some (r, ctx, w2)"
    "errno w2 \<noteq> 0" "symbols_resolve env w cls m3 m2" "NewObject_ok env"
  then show "\<exists>w'. doGetfilecon env lib javaPath isL w
             = Some (Returned None, w')
           \<and> raised w w'
               (if NewStringUTF_ok env
                then Some (if isL then ''lgetfilecon'' else ''getfilecon'')
                else None)
               (errno w2)"
    by (rule doGetfilecon_raises)
next
  assume "mallocStringFromBytes env javaPath w = (Returned path, w1)"
    "TEMP_FAILURE_RETRY
        ((if isL then lgetfilecon else getfilecon) lib path) None w1
      = Some (r, ctx, w2)"
    "errno w2 = 0"
  then show "\<exists>res w' evs. doGetfilecon env lib javaPath isL w
             = Some (res, w')
           \<and> objects w' = objects w
           \<and> pending w' = (if res = Returned None then Some (oom env) else pending w)
           \<and> trace w' = trace w @ evs \<and> \<not> list_ex is_raise evs
           \<and> (ctx = Some c \<and> heap w2 c = Some block \<and> strlen_block block = Some n
                \<and> n < 2 ^ 31 \<and> NewByteArray_ok env
              \<longrightarrow> res = Returned (Some (take n block)))
           \<and> (ctx = Some c \<and> heap w2 c = Some block \<and> strlen_block block = Some n
                \<and> \<not> NewByteArray_ok env
              \<longrightarrow> res = Returned None)"
    by (rule doGetfilecon_zero)
next
  assume "mallocStringFromBytes env javaPath w = (Returned path, w1)"
    "TEMP_FAILURE_RETRY
        (getfilecon lib path) None w1
      = Some (r, ctx, w2)"
    "errno w2 \<noteq> 0" "symbols_resolve env w cls m3 m2" "NewObject_ok env"
  then show "\<exists>w'. Java_me_zhanghai_android_libselinux_SeLinux_getfilecon env lib javaPath w
             = Some (Returned None, w')
           \<and> raised w w'
               (if NewStringUTF_ok env then Some ''getfilecon'' else None)
               (errno w2)"
    by (rule Java_getfilecon_raises)
next
  assume "mallocStringFromBytes env javaPath w = (Returned path, w1)"
    "TEMP_FAILURE_RETRY
        (getfilecon lib path) None w1
      = Some (r, ctx, w2)"
    "errno w2 = 0"
  then show "\<exists>res w' evs. Java_me_zhanghai_android_libselinux_SeLinux_getfilecon env lib javaPath w
             = Some (res, w')
           \<and> objects w' = objects w
           \<and> pending w' = (if res = Returned None then Some (oom env) else pending w)
           \<and> trace w' = trace w @ evs \<and> \<not> list_ex is_raise evs
           \<and> (ctx = Some c \<and> heap w2 c = Some block \<and> strlen_block block = Some n
                \<and> n < 2 ^ 31 \<and> NewByteArray_ok env
              \<longrightarrow> res = Returned (Some (take n block)))
           \<and> (ctx = Some c \<and> heap w2 c = Some block \<and> strlen_block block = Some n
                \<and> \<not> NewByteArray_ok env
              \<longrightarrow> res = Returned None)"
    by (rule Java_getfilecon_zero)
next
  assume "mallocStringFromBytes env javaPath w = (Returned path, w1)"
    "TEMP_FAILURE_RETRY
        (lgetfilecon lib path) None w1
      = Some (r, ctx, w2)"
    "errno w2 \<noteq> 0" "symbols_resolve env w cls m3 m2" "NewObject_ok env"
  then show "\<exists>w'. Java_me_zhanghai_android_libselinux_SeLinux_lgetfilecon env lib javaPath w
             = Some (Returned None, w')
           \<and> raised w w'
               (if NewStringUTF_ok env then Some ''lgetfilecon'' else None)
               (errno w2)"
    by (rule Java_lgetfilecon_raises)
next
  assume "mallocStringFromBytes env javaPath w = (Returned path, w1)"
    "TEMP_FAILURE_RETRY
        (lgetfilecon lib path) None w1
      = Some (r, ctx, w2)"
    "errno w2 = 0"
  then show "\<exists>res w' evs. Java_me_zhanghai_android_libselinux_SeLinux_lgetfilecon env lib javaPath w
             = Some (res, w')
           \<and> objects w' = objects w
           \<and> pending w' = (if res = Returned None then Some (oom env) else pending w)
           \<and> trace w' = trace w @ evs \<and> \<not> list_ex is_raise evs
           \<and> (ctx = Some c \<and> heap w2 c = Some block \<and> strlen_block block = Some n
                \<and> n < 2 ^ 31 \<and> NewByteArray_ok env
              \<longrightarrow> res = Returned (Some (take n block)))
           \<and> (ctx = Some c \<and> heap w2 c = Some block \<and> strlen_block block = Some n
                \<and> \<not> NewByteArray_ok env
              \<longrightarrow> res = Returned None)"
    by (rule Java_lgetfilecon_zero)
next
  assume "getFileDescriptorDescriptorField env w = (Returned field, f1)"
    "TEMP_FAILURE_RETRY
        (fgetfilecon lib (GetIntField javaFd field)) None f1
      = Some (r, ctx, f2)"
    "errno f2 \<noteq> 0" "symbols_resolve env w cls m3 m2" "NewObject_ok env"
  then show "\<exists>w'. Java_me_zhanghai_android_libselinux_SeLinux_fgetfilecon env lib javaFd w
             = Some (Returned None, w')
           \<and> raised w w'
               (if NewStringUTF_ok env then Some ''fgetfilecon'' else None)
               (errno f2)"
    by (rule Java_fgetfilecon_raises)
next
  assume "getFileDescriptorDescriptorField env w = (Returned field, f1)"
    "TEMP_FAILURE_RETRY
        (fgetfilecon lib (GetIntField javaFd field)) None f1
      = Some (r, ctx, f2)"
    "errno f2 = 0"
  then show "\<exists>res w' evs. Java_me_zhanghai_android_libselinux_SeLinux_fgetfilecon env lib javaFd w
             = Some (res, w')
           \<and> objects w' = objects w
           \<and> pending w' = (if res = Returned None then Some (oom env) else pending w)
           \<and> trace w' = trace w @ evs \<and> \<not> list_ex is_raise evs
           \<and> (ctx = Some c \<and> heap f2 c = Some block \<and> strlen_block block = Some n
                \<and> n < 2 ^ 31 \<and> NewByteArray_ok env
              \<longrightarrow> res = Returned (Some (take n block)))
           \<and> (ctx = Some c \<and> heap f2 c = Some block \<and> strlen_block block = Some n
                \<and> \<not> NewByteArray_ok env
              \<longrightarrow> res = Returned None)"
    by (rule Java_fgetfilecon_zero)
next
  assume "mallocStringFromBytes env javaPath w = (Returned path, w1)"
    "mallocStringFromBytes env javaContext w1 = (Returned cx, v2)"
    "TEMP_FAILURE_RETRY
        ((if isL then lsetfilecon else setfilecon) lib path cx) () v2
      = Some (r, u, v3)"
    "errno v3 \<noteq> 0" "symbols_resolve env w cls m3 m2" "NewObject_ok env"
  then show "\<exists>w'. doSetfilecon env lib javaPath javaContext isL w
             = Some (Returned (), w')
           \<and> raised w w'
               (if NewStringUTF_ok env
                then Some (if isL then ''lsetfilecon'' else ''setfilecon'')
                else None)
               (errno v3)"
    by (rule doSetfilecon_raises)
next
  assume "mallocStringFromBytes env javaPath w = (Returned path, w1)"
    "mallocStringFromBytes env javaContext w1 = (Returned cx, v2)"
    "TEMP_FAILURE_RETRY
        ((if isL then lsetfilecon else setfilecon) lib path cx) () v2
      = Some (r, u, v3)"
    "errno v3 = 0"
  then show "\<exists>w' evs. doSetfilecon env lib javaPath javaContext isL w
             = Some (Returned (), w')
           \<and> objects w' = objects w \<and> pending w' = pending w
           \<and> trace w' = trace w @ evs \<and> \<not> list_ex is_raise evs"
    by (rule doSetfilecon_quiet)
next
  assume "mallocStringFromBytes env javaPath w = (Returned path, w1)"
    "mallocStringFromBytes env javaContext w1 = (Returned cx, v2)"
    "TEMP_FAILURE_RETRY
        (setfilecon lib path cx) () v2
      = Some (r, u, v3)"
    "errno v3 \<noteq> 0" "symbols_resolve env w cls m3 m2" "NewObject_ok env"
  then show "\<exists>w'. Java_me_zhanghai_android_libselinux_SeLinux_setfilecon env lib javaPath
             javaContext w
             = Some (Returned (), w')
           \<and> raised w w'
               (if NewStringUTF_ok env then Some ''setfilecon'' else None)
               (errno v3)"
    by (rule Java_setfilecon_raises)
next
  assume "mallocStringFromBytes env javaPath w = (Returned path, w1)"
    "mallocStringFromBytes env javaContext w1 = (Returned cx, v2)"
    "TEMP_FAILURE_RETRY
        (setfilecon lib path cx) () v2
      = Some (r, u, v3)"
    "errno v3 = 0"
  then show "\<exists>w' evs. Java_me_zhanghai_android_libselinux_SeLinux_setfilecon env lib javaPath
             javaContext w
             = Some (Returned (), w')
           \<and> objects w' = objects w \<and> pending w' = pending w
           \<and> trace w' = trace w @ evs \<and> \<not> list_ex is_raise evs"
    by (rule Java_setfilecon_zero)
next
  assume "mallocStringFromBytes env javaPath w = (Returned path, w1)"
    "mallocStringFromBytes env javaContext w1 = (Returned cx, v2)"
    "TEMP_FAILURE_RETRY
        (lsetfilecon lib path cx) () v2
      = Some (r, u, v3)"
    "errno v3 \<noteq> 0" "symbols_resolve env w cls m3 m2" "NewObject_ok env"
  then show "\<exists>w'. Java_me_zhanghai_android_libselinux_SeLinux_lsetfilecon env lib javaPath
             javaContext w
             = Some (Returned (), w')
           \<and> raised w w'
               (if NewStringUTF_ok env then Some ''lsetfilecon'' else None)
               (errno v3)"
    by (rule Java_lsetfilecon_raises)
next
  assume "mallocStringFromBytes env javaPath w = (Returned path, w1)"
    "mallocStringFromBytes env javaContext w1 = (Returned cx, v2)"
    "TEMP_FAILURE_RETRY
        (lsetfilecon lib path cx) () v2
      = Some (r, u, v3)"
    "errno v3 = 0"
  then show "\<exists>w' evs. Java_me_zhanghai_android_libselinux_SeLinux_lsetfilecon env lib javaPath
             javaContext w
             = Some (Returned (), w')
           \<and> objects w' = objects w \<and> pending w' = pending w
           \<and> trace w' = trace w @ evs \<and> \<not> list_ex is_raise evs"
    by (rule Java_lsetfilecon_zero)
next
  assume "getFileDescriptorDescriptorField env w = (Returned field, f1)"
    "mallocStringFromBytes env javaContext f1 = (Returned cx, g2)"
    "TEMP_FAILURE_RETRY
        (fsetfilecon lib (GetIntField javaFd field) cx) () g2
      = Some (r, u, g3)"
    "errno g3 \<noteq> 0" "symbols_resolve env w cls m3 m2" "NewObject_ok env"
  then show "\<exists>w'. Java_me_zhanghai_android_libselinux_SeLinux_fsetfilecon env lib javaFd
             javaContext w
             = Some (Returned (), w')
           \<and> raised w w'
               (if NewStringUTF_ok env then Some ''fsetfilecon'' else None)
               (errno g3)"
    by (rule Java_fsetfilecon_raises)
next
  assume "getFileDescriptorDescriptorField env w = (Returned field, f1)"
    "mallocStringFromBytes env javaContext f1 = (Returned cx, g2)"
    "TEMP_FAILURE_RETRY
        (fsetfilecon lib (GetIntField javaFd field) cx) () g2
      = Some (r, u, g3)"
    "errno g3 = 0"
  then show "\<exists>w' evs. Java_me_zhanghai_android_libselinux_SeLinux_fsetfilecon env lib javaFd
             javaContext w
             = Some (Returned (), w')
           \<and> objects w' = objects w \<and> pending w' = pending w
           \<and> trace w' = trace w @ evs \<and> \<not> list_ex is_raise evs"
    by (rule Java_fsetfilecon_quiet)
qed

theorem C5_errno_decides_witness:
  "(\<exists>w'. Java_me_zhanghai_android_libselinux_SeLinux_lgetfilecon example_env (lib_fails 13)
            [47] example_world = Some (Returned None, w')
       \<and> raised example_world w' (Some ''lgetfilecon'') 13)
   \<and> (\<exists>w'. Java_me_zhanghai_android_libselinux_SeLinux_getfilecon example_env
            (lib_gives [117]) [47] example_world = Some (Returned (Some [117]), w')
       \<and> pending w' = None \<and> objects w' = objects example_world)"
proof -
  let ?w1 = "snd (mallocStringFromBytes example_env [47] example_world)"
  let ?x = "native_get (lib_fails 13) ''lgetfilecon'' None (?w1\<lparr>errno := 0\<rparr>)"
  let ?y = "native_get (lib_gives [117]) ''getfilecon'' None (?w1\<lparr>errno := 0\<rparr>)"
  have ok: "GetByteArrayElements_ok example_env"
    by (simp add: example_env_def)
  have w1: "?w1 = log_event (EvMalloc 0 2)
              (example_world\<lparr>heap := (heap example_world)(0 \<mapsto> [47, 0]),
                 next_addr := 1, avail := 4094\<rparr>)"
    by (simp add: mallocStringFromBytes_ok [OF ok] example_world_def numeral_2_eq_2)
  have m1: "mallocStringFromBytes example_env [47] example_world = (Returned (Some 0), ?w1)"
    by (simp add: mallocStringFromBytes_ok example_env_def example_world_def)
  have run: "TEMP_FAILURE_RETRY (lgetfilecon (lib_fails 13) (Some 0)) None ?w1
               = Some (fst ?x, fst (snd ?x), snd (snd ?x))"
    by (simp add: lgetfilecon_def TEMP_FAILURE_RETRY_get_once lib_fails_def EINTR_def)
  have e: "errno (snd (snd ?x)) = 13"
    by (simp add: native_get_def native_call_def lib_fails_def log_event_def)
  have sym: "symbols_resolve example_env example_world 11 33 32"
    by (simp add: symbols_resolve_def class_handle_def member_handle_def example_env_def
        example_world_def)
  have obj: "NewObject_ok example_env" and str: "NewStringUTF_ok example_env"
    and arr: "NewByteArray_ok example_env"
    by (simp_all add: example_env_def)
  have p: "pending example_world = None"
    by (simp add: example_world_def)
  from C5_errno_decides_and_exception_names_the_function
         [where env = example_env and javaPath = "[47]" and w = example_world
            and lib = "lib_fails 13" and path = "Some 0" and ?w1.0 = ?w1 and r = "fst ?x"
            and ctx = "fst (snd ?x)" and ?w2.0 = "snd (snd ?x)" and cls = 11 and ?m3.0 = 33
            and ?m2.0 = 32, THEN conjunct2, THEN conjunct2, THEN conjunct1]
    m1 run e sym obj str
  have a: "\<exists>w'. Java_me_zhanghai_android_libselinux_SeLinux_lgetfilecon example_env
            (lib_fails 13) [47] example_world = Some (Returned None, w')
       \<and> raised example_world w' (Some ''lgetfilecon'') 13"
    by simp
  have runy: "TEMP_FAILURE_RETRY (getfilecon (lib_gives [117]) (Some 0)) None ?w1
               = Some (fst ?y, fst (snd ?y), snd (snd ?y))"
    by (simp add: getfilecon_def TEMP_FAILURE_RETRY_get_once lib_gives_def)
  have ey: "errno (snd (snd ?y)) = 0" and cy: "fst (snd ?y) = Some 1"
    and hy: "heap (snd (snd ?y)) 1 = Some [117, 0]"
    unfolding w1
    by (simp_all add: native_get_def native_call_def lib_gives_def log_event_def)
  have sl: "strlen_block [117 :: byte, 0] = Some 1" and n: "(1 :: nat) < 2 ^ 31"
    by simp_all
  from C5_errno_decides_and_exception_names_the_function
         [where env = example_env and javaPath = "[47]" and w = example_world
            and lib = "lib_gives [117]" and path = "Some 0" and ?w1.0 = ?w1 and r = "fst ?y"
            and ctx = "fst (snd ?y)" and ?w2.0 = "snd (snd ?y)" and c = 1
            and block = "[117, 0]" and n = 1, THEN conjunct2, THEN conjunct1]
    m1 runy ey cy hy sl n arr
  obtain res w' where op: "Java_me_zhanghai_android_libselinux_SeLinux_getfilecon example_env
            (lib_gives [117]) [47] example_world = Some (res, w')"
    and o: "objects w' = objects example_world"
    and q: "pending w' = (if res = Returned None then Some (oom example_env)
                         else pending example_world)"
    and rs: "res = Returned (Some (take 1 [117, 0]))"
    by auto
  from rs have rs': "res = Returned (Some [117])"
    by simp
  from op o q p have b: "\<exists>w'. Java_me_zhanghai_android_libselinux_SeLinux_getfilecon example_env
            (lib_gives [117]) [47] example_world = Some (Returned (Some [117]), w')
       \<and> pending w' = None \<and> objects w' = objects example_world"
    unfolding rs' by simp
  from a b show ?thesis
    by (rule conjI)
qed

theorem C5_null_message_and_allocation_error_counterexample:
  "map_option fst
     (doGetfilecon (example_env\<lparr>NewStringUTF_ok := False\<rparr>) (lib_fails 13) [47] False
        example_world) = Some (Returned None)
   \<and> map_option (map_option detailMessage \<circ> pending_exception \<circ> snd)
       (doGetfilecon (example_env\<lparr>NewStringUTF_ok := False\<rparr>) (lib_fails 13) [47] False
          example_world) = Some (Some None)
   \<and> map_option (map_option errorCode \<circ> pending_exception \<circ> snd)
       (doGetfilecon (example_env\<lparr>NewStringUTF_ok := False\<rparr>) (lib_fails 13) [47] False
          example_world) = Some (Some 13)
   \<and> pending example_world = None
   \<and> map_option fst
       (doGetfilecon (example_env\<lparr>NewByteArray_ok := False\<rparr>) (lib_gives [117]) [47] False
          example_world) = Some (Returned None)
   \<and> map_option (errno \<circ> snd)
       (doGetfilecon (example_env\<lparr>NewByteArray_ok := False\<rparr>) (lib_gives [117]) [47] False
          example_world) = Some 0
   \<and> map_option (pending \<circ> snd)
       (doGetfilecon (example_env\<lparr>NewByteArray_ok := False\<rparr>) (lib_gives [117]) [47] False
          example_world) = Some (Some 99)"
proof -
  let ?env = "example_env\<lparr>NewStringUTF_ok := False\<rparr>"
  let ?w1 = "snd (mallocStringFromBytes ?env [47] example_world)"
  let ?x = "native_get (lib_fails 13) ''getfilecon'' None (?w1\<lparr>errno := 0\<rparr>)"
  have m1: "mallocStringFromBytes ?env [47] example_world = (Returned (Some 0), ?w1)"
    by (simp add: mallocStringFromBytes_ok example_env_def example_world_def)
  have run: "TEMP_FAILURE_RETRY ((if False then lgetfilecon else getfilecon) (lib_fails 13) (Some 0))
               None ?w1 = Some (fst ?x, fst (snd ?x), snd (snd ?x))"
    by (simp add: getfilecon_def TEMP_FAILURE_RETRY_get_once lib_fails_def EINTR_def)
  have e: "errno (snd (snd ?x)) = 13"
    by (simp add: native_get_def native_call_def lib_fails_def log_event_def)
  have sym: "symbols_resolve ?env example_world 11 33 32"
    by (simp add: symbols_resolve_def class_handle_def member_handle_def example_env_def
        example_world_def)
  have obj: "NewObject_ok ?env" and str: "\<not> NewStringUTF_ok ?env"
    by (simp_all add: example_env_def)
  from doGetfilecon_raises [OF m1 run _ sym obj] e str
  obtain w' where "doGetfilecon ?env (lib_fails 13) [47] False example_world
           = Some (Returned None, w')" and "raised example_world w' None 13"
    by auto
  then have first: "map_option fst
     (doGetfilecon ?env (lib_fails 13) [47] False example_world) = Some (Returned None)
   \<and> map_option (map_option detailMessage \<circ> pending_exception \<circ> snd)
       (doGetfilecon ?env (lib_fails 13) [47] False example_world) = Some (Some None)
   \<and> map_option (map_option errorCode \<circ> pending_exception \<circ> snd)
       (doGetfilecon ?env (lib_fails 13) [47] False example_world) = Some (Some 13)"
    by (auto simp: raised_def pending_exception_def split: option.splits)
  let ?env2 = "example_env\<lparr>NewByteArray_ok := False\<rparr>"
  let ?v1 = "snd (mallocStringFromBytes ?env2 [47] example_world)"
  let ?y = "native_get (lib_gives [117]) ''getfilecon'' None (?v1\<lparr>errno := 0\<rparr>)"
  have ok2: "GetByteArrayElements_ok ?env2"
    by (simp add: example_env_def)
  have v1: "?v1 = log_event (EvMalloc 0 2)
              (example_world\<lparr>heap := (heap example_world)(0 \<mapsto> [47, 0]),
                 next_addr := 1, avail := 4094\<rparr>)"
    by (simp add: mallocStringFromBytes_ok [OF ok2] example_world_def numeral_2_eq_2)
  have n1: "mallocStringFromBytes ?env2 [47] example_world = (Returned (Some 0), ?v1)"
    by (simp add: mallocStringFromBytes_ok [OF ok2] example_world_def)
  have runy: "TEMP_FAILURE_RETRY ((if False then lgetfilecon else getfilecon) (lib_gives [117])
               (Some 0)) None ?v1 = Some (fst ?y, Some 1, snd (snd ?y))"
    unfolding v1
    by (simp add: getfilecon_def TEMP_FAILURE_RETRY_get_once lib_gives_def native_get_def
        native_call_def log_event_def)
  have ey: "errno (snd (snd ?y)) = 0" and hy: "heap (snd (snd ?y)) 1 = Some [117, 0]"
    unfolding v1
    by (simp_all add: native_get_def native_call_def lib_gives_def log_event_def)
  have p: "pending example_world = None" and na: "next_addr example_world = 0"
    by (simp_all add: example_world_def)
  from doGetfilecon_after_call_frame [OF n1 runy] ey
  obtain v where op: "doGetfilecon ?env2 (lib_gives [117]) [47] False example_world =
       Some (bindM (newBytesFromString ?env2 (Some 1))
               (\<lambda>javaContext. bindM (freecon (Some 1)) (\<lambda>_ v. (Returned javaContext, v))) v)"
    and v: "errno v = 0" "heap v = (heap (snd (snd ?y)))(next_addr example_world := None)"
    by auto
  from v(2) hy na have "heap v 1 = Some [117, 0]"
    by simp
  from convert_context_no_array [OF this, where n = 1 and env = ?env2]
  have "bindM (newBytesFromString ?env2 (Some 1))
           (\<lambda>javaContext. bindM (freecon (Some 1)) (\<lambda>_ v. (Returned javaContext, v))) v
         = (Returned None,
            v\<lparr>pending := Some (oom ?env2), heap := (heap v)(1 := None),
              trace := trace v @ [EvFreecon 1]\<rparr>)"
    by simp
  with op v(1) have second: "map_option fst
       (doGetfilecon ?env2 (lib_gives [117]) [47] False example_world) = Some (Returned None)
   \<and> map_option (errno \<circ> snd)
       (doGetfilecon ?env2 (lib_gives [117]) [47] False example_world) = Some 0
   \<and> map_option (pending \<circ> snd)
       (doGetfilecon ?env2 (lib_gives [117]) [47] False example_world) = Some (Some 99)"
    by (simp add: example_env_def)
  from first p second show ?thesis
    by simp
qed

section \<open>Input buffers are freed once, before errno is inspected\<close>

lemma appends_unwatched_refl: "trace v' = trace v \<Longrightarrow> appends_unwatched v v'"
  by (simp add: appends_unwatched_def)

lemma appends_unwatched_trans:
  "appends_unwatched a b \<Longrightarrow> appends_unwatched b c \<Longrightarrow> appends_unwatched a c"
  by (auto simp: appends_unwatched_def)

lemma appends_unwatched_log:
  "\<not> watched e \<Longrightarrow> trace v' = trace v @ [e] \<Longrightarrow> appends_unwatched v v'"
  by (simp add: appends_unwatched_def)

lemma appends_unwatched_bindM:
  assumes "bindM m f v = (res, v')"
    and "\<And>r1 v1. m v = (r1, v1) \<Longrightarrow> appends_unwatched v v1"
    and "\<And>x v1 r2 v2. f x v1 = (r2, v2) \<Longrightarrow> appends_unwatched v1 v2"
  shows "appends_unwatched v v'"
proof -
  obtain r1 v1 where m: "m v = (r1, v1)"
    by (cases "m v") auto
  show ?thesis
  proof (cases r1)
    case (Returned x)
    with assms(1) m have "f x v1 = (res, v')"
      by (simp add: bindM_def)
    from assms(2) [OF m] assms(3) [OF this] show ?thesis
      by (rule appends_unwatched_trans)
  next
    case Aborted
    with assms(1) m have "v' = v1" by (simp add: bindM_def)
    with assms(2) [OF m] show ?thesis by simp
  next
    case Crashed
    with assms(1) m have "v' = v1" by (simp add: bindM_def)
    with assms(2) [OF m] show ?thesis by simp
  qed
qed

lemma findClass_unwatched: "findClass env name v = (res, v') \<Longrightarrow> appends_unwatched v v'"
  by (rule appends_unwatched_log [of "EvFindClass name"])
     (auto simp: findClass_def log_event_def Let_def split: option.splits)

lemma findMethod_unwatched:
  "findMethod env cls name sg v = (res, v') \<Longrightarrow> appends_unwatched v v'"
  by (rule appends_unwatched_log [of "EvGetMethodID name sg"])
     (auto simp: findMethod_def log_event_def Let_def split: option.splits)

lemma findField_unwatched:
  "findField env cls name sg v = (res, v') \<Longrightarrow> appends_unwatched v v'"
  by (rule appends_unwatched_log [of "EvGetFieldID name sg"])
     (auto simp: findField_def log_event_def Let_def split: option.splits)

lemma getErrnoExceptionClass_unwatched:
  assumes "getErrnoExceptionClass env v = (res, v')"
  shows "appends_unwatched v v'"
proof (cases "errnoExceptionClass v")
  case (Some c)
  with assms show ?thesis
    by (simp add: getErrnoExceptionClass_def appends_unwatched_refl)
next
  case None
  with assms have b: "bindM (findClass env ''android/system/ErrnoException'')
            (\<lambda>c w1. (Returned c, w1\<lparr>errnoExceptionClass := Some c\<rparr>)) v = (res, v')"
    by (simp add: getErrnoExceptionClass_def)
  show ?thesis
    by (rule appends_unwatched_bindM [OF b])
       (auto intro: findClass_unwatched appends_unwatched_refl)
qed

lemma throwException_unwatched:
  assumes "throwException env cls m3 m2 fn err v = (res, v')"
  shows "appends_unwatched v v'"
proof -
  have "\<exists>evs. trace v' = trace v @ evs \<and> filter watched evs = []"
    using assms
    by (cases "pending v"; cases "NewStringUTF_ok env"; cases "NewObject_ok env")
       (auto simp: throwException_def ExceptionCheck_def ExceptionOccurred_def
          ExceptionClear_def NewStringUTF_def NewObject_def Throw_def log_event_def)
  then show ?thesis
    by (simp add: appends_unwatched_def)
qed

lemma resolve_constructor_unwatched:
  assumes "(case cache v of
              Some m \<Rightarrow> (Returned m, v)
            | None \<Rightarrow>
                bindM (getErrnoExceptionClass env)
                  (\<lambda>cls. bindM (findMethod env cls name sg)
                     (\<lambda>m w2. (Returned m, upd m w2))) v) = (res, v')"
    and "\<And>m w2. trace (upd m w2) = trace w2"
  shows "appends_unwatched v v'"
proof (cases "cache v")
  case (Some m)
  with assms(1) show ?thesis
    by (simp add: appends_unwatched_refl)
next
  case None
  with assms(1) have b: "bindM (getErrnoExceptionClass env)
                  (\<lambda>cls. bindM (findMethod env cls name sg)
                     (\<lambda>m w2. (Returned m, upd m w2))) v = (res, v')"
    by simp
  show ?thesis
  proof (rule appends_unwatched_bindM [OF b])
    fix r1 v1 assume "getErrnoExceptionClass env v = (r1, v1)"
    then show "appends_unwatched v v1" by (rule getErrnoExceptionClass_unwatched)
  next
    fix x v1 r2 v2
    assume c: "bindM (findMethod env x name sg) (\<lambda>m w2. (Returned m, upd m w2)) v1 = (r2, v2)"
    show "appends_unwatched v1 v2"
      by (rule appends_unwatched_bindM [OF c])
         (auto intro: findMethod_unwatched appends_unwatched_refl simp: assms(2))
  qed
qed

lemma throwErrnoException_unwatched:
  assumes "throwErrnoException env fn v = (res, v')"
  shows "appends_unwatched v v'"
proof -
  let ?r3 = "\<lambda>w. case constructor3 w of
                   Some m \<Rightarrow> (Returned m, w)
                 | None \<Rightarrow>
                     bindM (getErrnoExceptionClass env)
                       (\<lambda>cls. bindM (findMethod env cls ''<init>''
                                  ''(Ljava/lang/String;ILjava/lang/Throwable;)V'')
                          (\<lambda>m w2. (Returned m, w2\<lparr>constructor3 := Some m\<rparr>))) w"
  let ?r2 = "\<lambda>w. case constructor2 w of
                        Some m \<Rightarrow> (Returned m, w)
                      | None \<Rightarrow>
                          bindM (getErrnoExceptionClass env)
                            (\<lambda>cls. bindM (findMethod env cls ''<init>''
                                       ''(Ljava/lang/String;I)V'')
                               (\<lambda>m w2. (Returned m, w2\<lparr>constructor2 := Some m\<rparr>))) w"
  from assms have b: "bindM ?r3
        (\<lambda>ctor3. bindM ?r2
             (\<lambda>ctor2. bindM (getErrnoExceptionClass env)
                  (\<lambda>cls. throwException env cls ctor3 ctor2 fn (errno v)))) v = (res, v')"
    by (simp add: throwErrnoException_def Let_def)
  show ?thesis
  proof (rule appends_unwatched_bindM [OF b])
    fix r1 v1 assume "?r3 v = (r1, v1)"
    then show "appends_unwatched v v1"
      by (rule resolve_constructor_unwatched [where upd = "\<lambda>m w2. w2\<lparr>constructor3 := Some m\<rparr>"])
         simp
  next
    fix x v1 r2 v2
    assume c: "bindM ?r2 (\<lambda>ctor2. bindM (getErrnoExceptionClass env)
                  (\<lambda>cls. throwException env cls x ctor2 fn (errno v))) v1 = (r2, v2)"
    show "appends_unwatched v1 v2"
    proof (rule appends_unwatched_bindM [OF c])
      fix r1 u1 assume "?r2 v1 = (r1, u1)"
      then show "appends_unwatched v1 u1"
        by (rule resolve_constructor_unwatched
              [where upd = "\<lambda>m w2. w2\<lparr>constructor2 := Some m\<rparr>"]) simp
    next
      fix y u1 r3 u2
      assume d: "bindM (getErrnoExceptionClass env)
                  (\<lambda>cls. throwException env cls x y fn (errno v)) u1 = (r3, u2)"
      show "appends_unwatched u1 u2"
        by (rule appends_unwatched_bindM [OF d])
           (auto intro: getErrnoExceptionClass_unwatched throwException_unwatched)
    qed
  qed
qed

lemma convert_context_unwatched:
  assumes "bindM (newBytesFromString env ctx)
             (\<lambda>javaContext. bindM (freecon ctx) (\<lambda>_ v. (Returned javaContext, v))) v = (res, v')"
  shows "appends_unwatched v v'"
proof (rule appends_unwatched_bindM [OF assms])
  fix r1 v1 assume "newBytesFromString env ctx v = (r1, v1)"
  from newBytesFromString_quiet(2) [OF this] show "appends_unwatched v v1"
    by (rule appends_unwatched_refl)
next
  fix x :: "byte list option" and v1 r2 v2
  assume c: "bindM (freecon ctx) (\<lambda>_ v. (Returned x, v)) v1 = (r2, v2)"
  show "appends_unwatched v1 v2"
  proof (rule appends_unwatched_bindM [OF c])
    fix r1 u1 assume "freecon ctx v1 = (r1, u1)"
    then have "trace u1 = trace v1 \<or> (\<exists>a. trace u1 = trace v1 @ [EvFreecon a])"
      by (auto simp: freecon_def log_event_def split: option.splits)
    then show "appends_unwatched v1 u1"
      by (auto simp: appends_unwatched_def)
  next
    fix y :: unit and u1 u2 :: world and r3 :: "byte list option outcome"
    assume "(Returned x, u1) = (r3, u2)"
    then show "appends_unwatched u1 u2"
      by (simp add: appends_unwatched_refl)
  qed
qed

lemma filter_watched_replicate:
  "filter watched (replicate k (EvNativeCall f)) = []"
  by (induction k) simp_all

lemma tail_of_operation:
  assumes "(if E \<noteq> 0 then raise else quiet) v = (res, w')"
    and "\<And>r1 v1. raise v = (r1, v1) \<Longrightarrow> appends_unwatched v v1"
    and "\<And>r1 v1. quiet v = (r1, v1) \<Longrightarrow> appends_unwatched v v1"
    and "trace v = trace w @ evs"
  shows "\<exists>evs2. trace w' = trace w @ evs @ evs2 \<and> filter watched evs2 = []"
proof -
  from assms(1-3) have "appends_unwatched v w'"
    by (cases "E \<noteq> 0") auto
  with assms(4) show ?thesis
    by (auto simp: appends_unwatched_def)
qed

lemma doSetfilecon_buffers:
  assumes m1: "mallocStringFromBytes env javaPath w = (Returned (Some p), w1)"
    and m2: "mallocStringFromBytes env javaContext w1 = (Returned (Some c), w2)"
    and run: "TEMP_FAILURE_RETRY ((if isL then lsetfilecon else setfilecon) lib (Some p) (Some c))
                () w2 = Some (r, u, w3)"
  shows "\<exists>res w' evs. doSetfilecon env lib javaPath javaContext isL w = Some (res, w')
            \<and> trace w' = trace w @ evs
            \<and> filter watched evs =
                [EvMalloc p (length javaPath + 1), EvMalloc c (length javaContext + 1),
                 EvFree p, EvFree c, EvInspectErrno (errno w3)]
            \<and> p \<noteq> c"
proof -
  let ?name = "if isL then ''lsetfilecon'' else ''setfilecon''"
  note a = mallocStringFromBytes_Returned [OF m1]
  note b = mallocStringFromBytes_Returned [OF m2]
  from a(3) have p: "p = next_addr w" by simp
  from b(3) have c: "c = Suc (next_addr w)" by (simp add: a(4))
  from doSetfilecon_after_call [OF m1 m2 run]
  obtain n where op: "doSetfilecon env lib javaPath javaContext isL w =
           Some ((if errno w3 \<noteq> 0
                  then throwErrnoException env ?name
                  else (\<lambda>v. (Returned (), v)))
                 (w\<lparr>errno := errno w3,
                    heap := (heap w)(next_addr w := None, Suc (next_addr w) := None),
                    next_addr := Suc (Suc (next_addr w)),
                    calls := calls w + Suc n,
                    trace := trace w
                      @ [EvMalloc (next_addr w) (length javaPath + 1),
                         EvMalloc (Suc (next_addr w)) (length javaContext + 1)]
                      @ replicate (Suc n) (EvNativeCall ?name)
                      @ [EvFree (next_addr w), EvFree (Suc (next_addr w)),
                         EvInspectErrno (errno w3)]\<rparr>))"
    by (rule exE)
  let ?evs = "[EvMalloc p (length javaPath + 1), EvMalloc c (length javaContext + 1)]
                      @ replicate (Suc n) (EvNativeCall ?name)
                      @ [EvFree p, EvFree c, EvInspectErrno (errno w3)]"
  let ?v = "w\<lparr>errno := errno w3,
                    heap := (heap w)(next_addr w := None, Suc (next_addr w) := None),
                    next_addr := Suc (Suc (next_addr w)),
                    calls := calls w + Suc n,
                    trace := trace w @ ?evs\<rparr>"
  obtain res w' where x: "(if errno w3 \<noteq> 0
                  then throwErrnoException env ?name
                  else (\<lambda>v. (Returned (), v))) ?v = (res, w')"
    by (cases "(if errno w3 \<noteq> 0
                  then throwErrnoException env ?name
                  else (\<lambda>v. (Returned (), v))) ?v") auto
  have "\<exists>evs2. trace w' = trace w @ ?evs @ evs2 \<and> filter watched evs2 = []"
    by (rule tail_of_operation [OF x])
       (auto intro: throwErrnoException_unwatched appends_unwatched_refl)
  then obtain evs2 where t: "trace w' = trace w @ (?evs @ evs2)"
    and f: "filter watched evs2 = []"
    by auto
  have "filter watched (?evs @ evs2) =
                [EvMalloc p (length javaPath + 1), EvMalloc c (length javaContext + 1),
                 EvFree p, EvFree c, EvInspectErrno (errno w3)]"
    using f by (simp add: filter_watched_replicate)
  with t x op p c show ?thesis
    by (intro exI [of _ res] exI [of _ w'] exI [of _ "?evs @ evs2"]) simp
qed

lemma doGetfilecon_buffers:
  assumes m1: "mallocStringFromBytes env javaPath w = (Returned (Some p), w1)"
    and run: "TEMP_FAILURE_RETRY ((if isL then lgetfilecon else getfilecon) lib (Some p)) None w1
                = Some (r, ctx, w2)"
  shows "\<exists>res w' evs. doGetfilecon env lib javaPath isL w = Some (res, w')
            \<and> trace w' = trace w @ evs
            \<and> filter watched evs =
                [EvMalloc p (length javaPath + 1), EvFree p, EvInspectErrno (errno w2)]"
proof -
  let ?name = "if isL then ''lgetfilecon'' else ''getfilecon''"
  note a = mallocStringFromBytes_Returned [OF m1]
  from a(3) have p: "p = next_addr w" by simp
  from doGetfilecon_after_call(1) [OF m1 run]
  obtain n where op: "doGetfilecon env lib javaPath isL w =
           Some ((if errno w2 \<noteq> 0
                  then bindM (throwErrnoException env ?name) (\<lambda>_ v. (Returned None, v))
                  else bindM (newBytesFromString env ctx)
                         (\<lambda>javaContext. bindM (freecon ctx)
                            (\<lambda>_ v. (Returned javaContext, v))))
                 (w\<lparr>errno := errno w2,
                    heap := (heap w2)(next_addr w := None),
                    next_addr := next_addr w2,
                    calls := calls w + Suc n,
                    trace := trace w
                      @ [EvMalloc (next_addr w) (length javaPath + 1)]
                      @ replicate (Suc n) (EvNativeCall ?name)
                      @ [EvFree (next_addr w), EvInspectErrno (errno w2)]\<rparr>))"
    by (rule exE)
  let ?evs = "[EvMalloc p (length javaPath + 1)]
                      @ replicate (Suc n) (EvNativeCall ?name)
                      @ [EvFree p, EvInspectErrno (errno w2)]"
  let ?v = "w\<lparr>errno := errno w2,
                    heap := (heap w2)(next_addr w := None),
                    next_addr := next_addr w2,
                    calls := calls w + Suc n,
                    trace := trace w @ ?evs\<rparr>"
  let ?tail = "if errno w2 \<noteq> 0
                  then bindM (throwErrnoException env ?name)
                         (\<lambda>_ v. (Returned (None :: byte list option), v))
                  else bindM (newBytesFromString env ctx)
                         (\<lambda>javaContext. bindM (freecon ctx)
                            (\<lambda>_ v. (Returned javaContext, v)))"
  obtain res w' where x: "?tail ?v = (res, w')"
    by (cases "?tail ?v") auto
  have thr: "appends_unwatched v v1"
    if "bindM (throwErrnoException env ?name)
          (\<lambda>_ v. (Returned (None :: byte list option), v)) v = (r1, v1)" for v r1 v1
    by (rule appends_unwatched_bindM [OF that])
       (auto intro: throwErrnoException_unwatched appends_unwatched_refl)
  have "\<exists>evs2. trace w' = trace w @ ?evs @ evs2 \<and> filter watched evs2 = []"
    by (rule tail_of_operation [OF x]) (auto intro: thr convert_context_unwatched)
  then obtain evs2 where t: "trace w' = trace w @ (?evs @ evs2)"
    and f: "filter watched evs2 = []"
    by auto
  have "filter watched (?evs @ evs2) =
                [EvMalloc p (length javaPath + 1), EvFree p, EvInspectErrno (errno w2)]"
    using f by (simp add: filter_watched_replicate)
  with t x op p show ?thesis
    by (intro exI [of _ res] exI [of _ w'] exI [of _ "?evs @ evs2"]) simp
qed

lemma Java_fsetfilecon_buffers:
  assumes fd: "getFileDescriptorDescriptorField env w = (Returned field, f1)"
    and m: "mallocStringFromBytes env javaContext f1 = (Returned (Some c), f2)"
    and run: "TEMP_FAILURE_RETRY (fsetfilecon lib (GetIntField javaFd field) (Some c)) () f2
                = Some (r, u, f3)"
  shows "\<exists>res w' evs. Java_me_zhanghai_android_libselinux_SeLinux_fsetfilecon env lib javaFd
                         javaContext w = Some (res, w')
            \<and> trace w' = trace w @ evs
            \<and> filter watched evs =
                [EvMalloc c (length javaContext + 1), EvFree c, EvInspectErrno (errno f3)]"
proof -
  note a = mallocStringFromBytes_Returned [OF m]
  from a(3) have c: "c = next_addr f1" by simp
  from getFileDescriptorDescriptorField_frame(7) [OF fd]
  obtain evs0 where t0: "trace f1 = trace w @ evs0" and l0: "list_all is_lookup evs0"
    by blast
  have q0: "filter watched evs0 = []"
    using l0 by (induction evs0) (auto elim: is_lookup.elims)
  from Java_fsetfilecon_after_call [OF fd m run]
  obtain n where op: "Java_me_zhanghai_android_libselinux_SeLinux_fsetfilecon env lib javaFd javaContext w =
           Some ((if errno f3 \<noteq> 0
                  then throwErrnoException env ''fsetfilecon''
                  else (\<lambda>v. (Returned (), v)))
                 (f1\<lparr>errno := errno f3,
                    heap := (heap f1)(next_addr f1 := None),
                    next_addr := Suc (next_addr f1),
                    calls := calls f1 + Suc n,
                    trace := trace f1
                      @ [EvMalloc (next_addr f1) (length javaContext + 1)]
                      @ replicate (Suc n) (EvNativeCall ''fsetfilecon'')
                      @ [EvFree (next_addr f1), EvInspectErrno (errno f3)]\<rparr>))"
    by (rule exE)
  let ?evs = "evs0 @ [EvMalloc c (length javaContext + 1)]
                      @ replicate (Suc n) (EvNativeCall ''fsetfilecon'')
                      @ [EvFree c, EvInspectErrno (errno f3)]"
  let ?v = "f1\<lparr>errno := errno f3,
                    heap := (heap f1)(next_addr f1 := None),
                    next_addr := Suc (next_addr f1),
                    calls := calls f1 + Suc n,
                    trace := trace w @ ?evs\<rparr>"
  obtain res w' where x: "(if errno f3 \<noteq> 0
                  then throwErrnoException env ''fsetfilecon''
                  else (\<lambda>v. (Returned (), v))) ?v = (res, w')"
    by (cases "(if errno f3 \<noteq> 0
                  then throwErrnoException env ''fsetfilecon''
                  else (\<lambda>v. (Returned (), v))) ?v") auto
  have "\<exists>evs2. trace w' = trace w @ ?evs @ evs2 \<and> filter watched evs2 = []"
    by (rule tail_of_operation [OF x])
       (auto intro: throwErrnoException_unwatched appends_unwatched_refl)
  then obtain evs2 where t: "trace w' = trace w @ (?evs @ evs2)"
    and f: "filter watched evs2 = []"
    by auto
  have "filter watched (?evs @ evs2) =
                [EvMalloc c (length javaContext + 1), EvFree c, EvInspectErrno (errno f3)]"
    using f q0 by (simp add: filter_watched_replicate)
  with t x op c t0 show ?thesis
    by (intro exI [of _ res] exI [of _ w'] exI [of _ "?evs @ evs2"]) simp
qed

text \<open>
  C6. The operations that marshal inputs are \<open>doSetfilecon\<close> (path and context),
  \<open>doGetfilecon\<close> (path) and \<^verbatim>\<open>fsetfilecon\<close> (context). Once the buffers are allocated and
  the retried native call has returned, whatever \<^verbatim>\<open>errno\<close> the call left and however the
  operation ends afterwards (it returns normally, it raises, or the exception machinery
  aborts or crashes), the steps of the run that allocate memory, free memory or inspect
  \<^verbatim>\<open>errno\<close> are exactly these, in this order: one \<^verbatim>\<open>malloc\<close> per input buffer, one
  \<^verbatim>\<open>free\<close> of each of those buffers, then the inspection of \<^verbatim>\<open>errno\<close>.
\<close>

theorem C6_input_buffers_freed_once_before_errno_is_inspected:
  "(mallocStringFromBytes env javaPath w = (Returned (Some p), w1)
    \<and> mallocStringFromBytes env javaContext w1 = (Returned (Some c), w2)
    \<and> TEMP_FAILURE_RETRY ((if isL then lsetfilecon else setfilecon) lib (Some p) (Some c))
         () w2 = Some (r, u, w3)
    \<longrightarrow> (\<exists>res w' evs. doSetfilecon env lib javaPath javaContext isL w = Some (res, w')
            \<and> trace w' = trace w @ evs
            \<and> filter watched evs =
                [EvMalloc p (length javaPath + 1), EvMalloc c (length javaContext + 1),
                 EvFree p, EvFree c, EvInspectErrno (errno w3)]
            \<and> p \<noteq> c))
   \<and> (mallocStringFromBytes env javaPath w = (Returned (Some p), w1)
    \<and> TEMP_FAILURE_RETRY ((if isL then lgetfilecon else getfilecon) lib (Some p)) None w1
         = Some (r, ctx, g2)
    \<longrightarrow> (\<exists>res w' evs. doGetfilecon env lib javaPath isL w = Some (res, w')
            \<and> trace w' = trace w @ evs
            \<and> filter watched evs =
                [EvMalloc p (length javaPath + 1), EvFree p, EvInspectErrno (errno g2)]))
   \<and> (getFileDescriptorDescriptorField env w = (Returned field, f1)
    \<and> mallocStringFromBytes env javaContext f1 = (Returned (Some c), f2)
    \<and> TEMP_FAILURE_RETRY (fsetfilecon lib (GetIntField javaFd field) (Some c)) () f2
         = Some (r, u, f3)
    \<longrightarrow> (\<exists>res w' evs. Java_me_zhanghai_android_libselinux_SeLinux_fsetfilecon env lib javaFd
                         javaContext w = Some (res, w')
            \<and> trace w' = trace w @ evs
            \<and> filter watched evs =
                [EvMalloc c (length javaContext + 1), EvFree c, EvInspectErrno (errno f3)]))"
  by (intro conjI impI; elim conjE)
     (erule (2) doSetfilecon_buffers, erule (1) doGetfilecon_buffers,
      erule (2) Java_fsetfilecon_buffers)

theorem C6_input_buffers_witness:
  "\<exists>res w' evs.
     doSetfilecon example_env (lib_fails 13) [47] [120] False example_world = Some (res, w')
   \<and> trace w' = evs
   \<and> filter watched evs =
       [EvMalloc 0 2, EvMalloc 1 2, EvFree 0, EvFree 1, EvInspectErrno 13]"
proof -
  let ?w1 = "snd (mallocStringFromBytes example_env [47] example_world)"
  let ?w2 = "snd (mallocStringFromBytes example_env [120] ?w1)"
  let ?x = "native_plain (lib_fails 13) ''setfilecon'' () (?w2\<lparr>errno := 0\<rparr>)"
  have ok: "GetByteArrayElements_ok example_env"
    by (simp add: example_env_def)
  have w1: "?w1 = log_event (EvMalloc 0 2)
              (example_world\<lparr>heap := (heap example_world)(0 \<mapsto> [47, 0]),
                 next_addr := 1, avail := 4094\<rparr>)"
    by (simp add: mallocStringFromBytes_ok [OF ok] example_world_def numeral_2_eq_2)
  have m1: "mallocStringFromBytes example_env [47] example_world = (Returned (Some 0), ?w1)"
    by (simp add: mallocStringFromBytes_ok [OF ok] example_world_def)
  have m2: "mallocStringFromBytes example_env [120] ?w1 = (Returned (Some 1), ?w2)"
    unfolding w1 by (simp add: mallocStringFromBytes_ok [OF ok] log_event_def)
  have run: "TEMP_FAILURE_RETRY ((if False then lsetfilecon else setfilecon) (lib_fails 13)
               (Some 0) (Some 1)) () ?w2 = Some (fst ?x, fst (snd ?x), snd (snd ?x))"
    by (simp add: setfilecon_def TEMP_FAILURE_RETRY_plain_once lib_fails_def EINTR_def
          prod_eq_iff)
  have e: "errno (snd (snd ?x)) = 13"
    by (simp add: native_plain_def native_call_def lib_fails_def log_event_def)
  have t: "trace example_world = []"
    by (simp add: example_world_def)
  from C6_input_buffers_freed_once_before_errno_is_inspected
         [where env = example_env and javaPath = "[47]" and javaContext = "[120]"
            and w = example_world and isL = False and lib = "lib_fails 13"
            and p = 0 and c = 1 and ?w1.0 = ?w1 and ?w2.0 = ?w2 and r = "fst ?x"
            and u = "fst (snd ?x)" and ?w3.0 = "snd (snd ?x)", THEN conjunct1]
    m1 m2 run
  show ?thesis
    unfolding e t by (simp add: numeral_2_eq_2)
qed

section \<open>The symbol cache: abort on a failed first lookup, reuse afterwards\<close>

lemma getErrnoExceptionClass_fills:
  "getErrnoExceptionClass env w = (Returned c, w1) \<Longrightarrow> errnoExceptionClass w1 = Some c"
  by (auto simp: getErrnoExceptionClass_def findClass_def bindM_def Let_def
      split: option.splits)

lemma getFileDescriptorClass_fills:
  "getFileDescriptorClass env w = (Returned c, w1) \<Longrightarrow> fileDescriptorClass w1 = Some c"
  by (auto simp: getFileDescriptorClass_def findClass_def bindM_def Let_def
      split: option.splits)

lemma getFileDescriptorDescriptorField_fills:
  "getFileDescriptorDescriptorField env w = (Returned f, w1) \<Longrightarrow>
   fileDescriptorDescriptorField w1 = Some f"
  by (auto simp: getFileDescriptorDescriptorField_def getFileDescriptorClass_def findClass_def
      findField_def bindM_def Let_def split: option.splits)

lemma getErrnoExceptionClass_aborts:
  "errnoExceptionClass w = None \<Longrightarrow>
   class_handle env ''android/system/ErrnoException'' None = None \<Longrightarrow>
   getErrnoExceptionClass env w
     = (Aborted, log_event (EvFindClass ''android/system/ErrnoException'') w)"
  by (simp add: getErrnoExceptionClass_def findClass_result bindM_def)

lemma getFileDescriptorClass_aborts:
  "fileDescriptorClass w = None \<Longrightarrow>
   class_handle env ''java/io/FileDescriptor'' None = None \<Longrightarrow>
   getFileDescriptorClass env w = (Aborted, log_event (EvFindClass ''java/io/FileDescriptor'') w)"
  by (simp add: getFileDescriptorClass_def findClass_result bindM_def)

lemma getFileDescriptorClass_handle:
  "fst (getFileDescriptorClass env w)
     = (case class_handle env ''java/io/FileDescriptor'' (fileDescriptorClass w) of
          None \<Rightarrow> Aborted | Some c \<Rightarrow> Returned c)"
  by (auto simp: getFileDescriptorClass_def findClass_result bindM_def class_handle_def
      split: option.splits)

lemma getErrnoExceptionClass_handle:
  "fst (getErrnoExceptionClass env w)
     = (case class_handle env ''android/system/ErrnoException'' (errnoExceptionClass w) of
          None \<Rightarrow> Aborted | Some c \<Rightarrow> Returned c)"
  by (auto simp: getErrnoExceptionClass_def findClass_result bindM_def class_handle_def
      split: option.splits)

lemma getFileDescriptorDescriptorField_aborts:
  assumes "fileDescriptorDescriptorField w = None"
    and "(case class_handle env ''java/io/FileDescriptor'' (fileDescriptorClass w) of
            None \<Rightarrow> None
          | Some cls \<Rightarrow> GetFieldID env cls ''descriptor'' ''I'') = None"
  shows "fst (getFileDescriptorDescriptorField env w) = Aborted"
proof -
  obtain r1 v1 where g: "getFileDescriptorClass env w = (r1, v1)"
    by (cases "getFileDescriptorClass env w") auto
  with getFileDescriptorClass_handle [of env w]
  have r1: "r1 = (case class_handle env ''java/io/FileDescriptor'' (fileDescriptorClass w) of
          None \<Rightarrow> Aborted | Some c \<Rightarrow> Returned c)"
    by simp
  show ?thesis
    using assms r1
    by (auto simp: getFileDescriptorDescriptorField_def g bindM_def findField_result
        split: option.splits)
qed

lemma throwErrnoException_cached:
  "errnoExceptionClass w = Some cls \<Longrightarrow> constructor3 w = Some m3 \<Longrightarrow>
   constructor2 w = Some m2 \<Longrightarrow>
   throwErrnoException env fn w = throwException env cls m3 m2 fn (errno w) w"
  by (simp add: throwErrnoException_def getErrnoExceptionClass_def bindM_def)

lemma throwErrnoException_aborts:
  assumes "\<And>cls m3 m2. \<not> symbols_resolve env w cls m3 m2"
  shows "fst (throwErrnoException env fn w) = Aborted"
    and "pending (snd (throwErrnoException env fn w)) = pending w"
    and "objects (snd (throwErrnoException env fn w)) = objects w"
proof -
  have "fst (throwErrnoException env fn w) = Aborted
      \<and> pending (snd (throwErrnoException env fn w)) = pending w
      \<and> objects (snd (throwErrnoException env fn w)) = objects w"
    using assms
    by (cases "errnoExceptionClass w"; cases "constructor3 w"; cases "constructor2 w";
        cases "FindClass env ''android/system/ErrnoException''")
       (auto simp: symbols_resolve_def class_handle_def member_handle_def
          throwErrnoException_def getErrnoExceptionClass_def findClass_def findMethod_def
          bindM_def log_event_def Let_def
          split: option.splits)
  then show "fst (throwErrnoException env fn w) = Aborted"
    and "pending (snd (throwErrnoException env fn w)) = pending w"
    and "objects (snd (throwErrnoException env fn w)) = objects w"
    by simp_all
qed

lemma throwException_Returned:
  "throwException env cls m3 m2 fn err w = (Returned (), w1) \<Longrightarrow> NewObject_ok env"
  by (cases "NewObject_ok env"; cases "pending w"; cases "NewStringUTF_ok env")
     (auto simp: throwException_def ExceptionCheck_def ExceptionOccurred_def
        ExceptionClear_def NewStringUTF_def NewObject_def Throw_def log_event_def)

lemma throwErrnoException_fills:
  assumes "throwErrnoException env fn w = (Returned (), w1)"
  shows "\<exists>cls m3 m2. errnoExceptionClass w1 = Some cls \<and> constructor3 w1 = Some m3
            \<and> constructor2 w1 = Some m2"
proof -
  from assms throwErrnoException_aborts(1) [of env w fn]
  obtain cls m3 m2 where sym: "symbols_resolve env w cls m3 m2"
    by auto
  from throwErrnoException_resolved_events [OF sym, of fn] assms
  have "\<exists>v. throwException env cls m3 m2 fn (errno w) v = (Returned (), w1)"
    by (intro exI) (erule subst)
  then have "NewObject_ok env"
    by (auto dest: throwException_Returned)
  from throwErrnoException_raises [OF sym this, of fn] assms
  show ?thesis
    by auto
qed

text \<open>
  C7. A symbol is resolved for the first time when its cache is empty. If the lookup then
  fails (\<^verbatim>\<open>FindClass\<close>, \<^verbatim>\<open>NewGlobalRef\<close>, \<^verbatim>\<open>GetFieldID\<close> or \<^verbatim>\<open>GetMethodID\<close> returns NULL), the
  outcome is \<open>Aborted\<close>: the class getters stop right after the lookup, and
  \<open>throwErrnoException\<close> aborts with the pending exception and the exception objects as they
  were, so nothing is raised. Once a getter has returned a handle, every later call returns
  the same handle and leaves the world as it is (no lookup is logged), whatever the runtime
  \<open>env'\<close> would answer; once \<open>throwErrnoException\<close> has returned, the class and both
  constructors are cached and every later call is \<open>throwException\<close> on the cached handles.
\<close>

theorem C7_first_lookup_aborts_and_later_calls_reuse_the_handle:
  "(errnoExceptionClass w = None
      \<and> class_handle env ''android/system/ErrnoException'' None = None
      \<longrightarrow> getErrnoExceptionClass env w
            = (Aborted, log_event (EvFindClass ''android/system/ErrnoException'') w))
   \<and> (getErrnoExceptionClass env w = (Returned c, w1)
      \<longrightarrow> getErrnoExceptionClass env' w1 = (Returned c, w1))
   \<and> (fileDescriptorClass w = None
      \<and> class_handle env ''java/io/FileDescriptor'' None = None
      \<longrightarrow> getFileDescriptorClass env w
            = (Aborted, log_event (EvFindClass ''java/io/FileDescriptor'') w))
   \<and> (getFileDescriptorClass env w = (Returned c, w1)
      \<longrightarrow> getFileDescriptorClass env' w1 = (Returned c, w1))
   \<and> (fileDescriptorDescriptorField w = None
      \<and> (case class_handle env ''java/io/FileDescriptor'' (fileDescriptorClass w) of
            None \<Rightarrow> None
          | Some cls \<Rightarrow> GetFieldID env cls ''descriptor'' ''I'') = None
      \<longrightarrow> fst (getFileDescriptorDescriptorField env w) = Aborted)
   \<and> (getFileDescriptorDescriptorField env w = (Returned f, w1)
      \<longrightarrow> getFileDescriptorDescriptorField env' w1 = (Returned f, w1))
   \<and> (constructor3 w = None
      \<and> (case class_handle env ''android/system/ErrnoException'' (errnoExceptionClass w) of
            None \<Rightarrow> None
          | Some cls \<Rightarrow> GetMethodID env cls ''<init>''
                         ''(Ljava/lang/String;ILjava/lang/Throwable;)V'') = None
      \<longrightarrow> fst (throwErrnoException env fn w) = Aborted
          \<and> pending (snd (throwErrnoException env fn w)) = pending w
          \<and> objects (snd (throwErrnoException env fn w)) = objects w)
   \<and> (constructor2 w = None
      \<and> (case class_handle env ''android/system/ErrnoException'' (errnoExceptionClass w) of
            None \<Rightarrow> None
          | Some cls \<Rightarrow> GetMethodID env cls ''<init>'' ''(Ljava/lang/String;I)V'') = None
      \<longrightarrow> fst (throwErrnoException env fn w) = Aborted
          \<and> pending (snd (throwErrnoException env fn w)) = pending w
          \<and> objects (snd (throwErrnoException env fn w)) = objects w)
   \<and> (throwErrnoException env fn w = (Returned (), w1)
      \<longrightarrow> (\<exists>cls m3 m2. errnoExceptionClass w1 = Some cls \<and> constructor3 w1 = Some m3
             \<and> constructor2 w1 = Some m2
             \<and> throwErrnoException env' fn' w1
                 = throwException env' cls m3 m2 fn' (errno w1) w1))"
proof (intro conjI impI; (elim conjE)?)
  assume "errnoExceptionClass w = None"
    "class_handle env ''android/system/ErrnoException'' None = None"
  then show "getErrnoExceptionClass env w
            = (Aborted, log_event (EvFindClass ''android/system/ErrnoException'') w)"
    by (rule getErrnoExceptionClass_aborts)
next
  assume "getErrnoExceptionClass env w = (Returned c, w1)"
  then have "errnoExceptionClass w1 = Some c"
    by (rule getErrnoExceptionClass_fills)
  then show "getErrnoExceptionClass env' w1 = (Returned c, w1)"
    by (rule getErrnoExceptionClass_cached)
next
  assume "fileDescriptorClass w = None"
    "class_handle env ''java/io/FileDescriptor'' None = None"
  then show "getFileDescriptorClass env w
            = (Aborted, log_event (EvFindClass ''java/io/FileDescriptor'') w)"
    by (rule getFileDescriptorClass_aborts)
next
  assume "getFileDescriptorClass env w = (Returned c, w1)"
  then have "fileDescriptorClass w1 = Some c"
    by (rule getFileDescriptorClass_fills)
  then show "getFileDescriptorClass env' w1 = (Returned c, w1)"
    by (rule getFileDescriptorClass_cached)
next
  assume "fileDescriptorDescriptorField w = None"
    "(case class_handle env ''java/io/FileDescriptor'' (fileDescriptorClass w) of
            None \<Rightarrow> None
          | Some cls \<Rightarrow> GetFieldID env cls ''descriptor'' ''I'') = None"
  then show "fst (getFileDescriptorDescriptorField env w) = Aborted"
    by (rule getFileDescriptorDescriptorField_aborts)
next
  assume "getFileDescriptorDescriptorField env w = (Returned f, w1)"
  then have "fileDescriptorDescriptorField w1 = Some f"
    by (rule getFileDescriptorDescriptorField_fills)
  then show "getFileDescriptorDescriptorField env' w1 = (Returned f, w1)"
    by (rule getFileDescriptorDescriptorField_cached)
next
  assume a: "constructor3 w = None"
    "(case class_handle env ''android/system/ErrnoException'' (errnoExceptionClass w) of
            None \<Rightarrow> None
          | Some cls \<Rightarrow> GetMethodID env cls ''<init>''
                         ''(Ljava/lang/String;ILjava/lang/Throwable;)V'') = None"
  then have n: "\<not> symbols_resolve env w cls m3 m2" for cls m3 m2
    by (auto simp: symbols_resolve_def member_handle_def)
  from throwErrnoException_aborts [of env w fn, OF n]
  show "fst (throwErrnoException env fn w) = Aborted"
    "pending (snd (throwErrnoException env fn w)) = pending w"
    "objects (snd (throwErrnoException env fn w)) = objects w"
    by simp_all
next
  assume a: "constructor2 w = None"
    "(case class_handle env ''android/system/ErrnoException'' (errnoExceptionClass w) of
            None \<Rightarrow> None
          | Some cls \<Rightarrow> GetMethodID env cls ''<init>'' ''(Ljava/lang/String;I)V'') = None"
  then have n: "\<not> symbols_resolve env w cls m3 m2" for cls m3 m2
    by (auto simp: symbols_resolve_def member_handle_def)
  from throwErrnoException_aborts [of env w fn, OF n]
  show "fst (throwErrnoException env fn w) = Aborted"
    "pending (snd (throwErrnoException env fn w)) = pending w"
    "objects (snd (throwErrnoException env fn w)) = objects w"
    by simp_all
next
  assume "throwErrnoException env fn w = (Returned (), w1)"
  from throwErrnoException_fills [OF this]
  obtain cls m3 m2 where c: "errnoExceptionClass w1 = Some cls" "constructor3 w1 = Some m3"
    "constructor2 w1 = Some m2"
    by blast
  from throwErrnoException_cached [OF c, of env' fn'] c
  show "\<exists>cls m3 m2. errnoExceptionClass w1 = Some cls \<and> constructor3 w1 = Some m3
             \<and> constructor2 w1 = Some m2
             \<and> throwErrnoException env' fn' w1
                 = throwException env' cls m3 m2 fn' (errno w1) w1"
    by blast
qed

theorem C7_symbol_cache_witness:
  "getErrnoExceptionClass (example_env\<lparr>FindClass := \<lambda>_. None\<rparr>) example_world
     = (Aborted, log_event (EvFindClass ''android/system/ErrnoException'') example_world)
   \<and> fst (getErrnoExceptionClass example_env example_world) = Returned 11
   \<and> getErrnoExceptionClass (example_env\<lparr>FindClass := \<lambda>_. None\<rparr>)
        (snd (getErrnoExceptionClass example_env example_world))
     = (Returned 11, snd (getErrnoExceptionClass example_env example_world))"
proof -
  let ?bad = "example_env\<lparr>FindClass := \<lambda>_. None\<rparr>"
  have e: "errnoExceptionClass example_world = None"
    by (simp add: example_world_def)
  have f: "class_handle ?bad ''android/system/ErrnoException'' None = None"
    by (simp add: class_handle_def)
  have g: "getErrnoExceptionClass example_env example_world
            = (Returned 11, snd (getErrnoExceptionClass example_env example_world))"
    by (simp add: getErrnoExceptionClass_def findClass_def bindM_def example_env_def
        example_world_def Let_def)
  from C7_first_lookup_aborts_and_later_calls_reuse_the_handle
         [where env = ?bad and w = example_world, THEN conjunct1] e f
  have 1: "getErrnoExceptionClass ?bad example_world
     = (Aborted, log_event (EvFindClass ''android/system/ErrnoException'') example_world)"
    by simp
  from C7_first_lookup_aborts_and_later_calls_reuse_the_handle
         [where env = example_env and w = example_world and c = 11 and env' = ?bad
            and ?w1.0 = "snd (getErrnoExceptionClass example_env example_world)",
          THEN conjunct2, THEN conjunct1] g
  have 2: "getErrnoExceptionClass ?bad (snd (getErrnoExceptionClass example_env example_world))
     = (Returned 11, snd (getErrnoExceptionClass example_env example_world))"
    by simp
  from g have 3: "fst (getErrnoExceptionClass example_env example_world) = Returned 11"
    by (metis fst_conv)
  from 1 2 3 show ?thesis
    by simp
qed

section \<open>The return value of the native call\<close>

lemma native_plain_rc:
  "snd (native_plain (\<lambda>k. (lib k)\<lparr>rc := v k\<rparr>) f s w) = snd (native_plain lib f s w)"
  by (simp add: native_plain_def native_call_def Let_def)

lemma native_get_rc:
  "snd (native_get (\<lambda>k. (lib k)\<lparr>rc := v k\<rparr>) f s w) = snd (native_get lib f s w)"
  by (simp add: native_get_def native_call_def Let_def split: option.splits)

lemma TEMP_FAILURE_RETRY_rc:
  assumes "\<And>s v. snd (exp s v) = snd (exp' s v)"
  shows "map_option snd (TEMP_FAILURE_RETRY exp st w)
         = map_option snd (TEMP_FAILURE_RETRY exp' st w)"
  unfolding TEMP_FAILURE_RETRY_def using assms by (rule retry_loop_rc_irrelevant)

lemma rc_dropped:
  assumes "map_option snd X = map_option snd Y"
  shows "(case X of None \<Rightarrow> None | Some (r, c, v) \<Rightarrow> Some (F c v))
         = (case Y of None \<Rightarrow> None | Some (r, c, v) \<Rightarrow> Some (F c v))"
  using assms by (cases X; cases Y) auto

lemma doGetfilecon_rc:
  "doGetfilecon env (\<lambda>k. (lib k)\<lparr>rc := v k\<rparr>) javaPath isL w
   = doGetfilecon env lib javaPath isL w"
  unfolding doGetfilecon_def
  by (auto split: prod.splits outcome.splits
      intro!: rc_dropped TEMP_FAILURE_RETRY_rc
      simp: lgetfilecon_def getfilecon_def native_get_rc)

lemma doSetfilecon_rc:
  "doSetfilecon env (\<lambda>k. (lib k)\<lparr>rc := v k\<rparr>) javaPath javaContext isL w
   = doSetfilecon env lib javaPath javaContext isL w"
  unfolding doSetfilecon_def
  by (auto split: prod.splits outcome.splits
      intro!: rc_dropped TEMP_FAILURE_RETRY_rc
      simp: lsetfilecon_def setfilecon_def native_plain_rc)

lemma Java_fgetfilecon_rc:
  "Java_me_zhanghai_android_libselinux_SeLinux_fgetfilecon env (\<lambda>k. (lib k)\<lparr>rc := v k\<rparr>)
     javaFd w
   = Java_me_zhanghai_android_libselinux_SeLinux_fgetfilecon env lib javaFd w"
  unfolding Java_me_zhanghai_android_libselinux_SeLinux_fgetfilecon_def
  by (auto split: prod.splits outcome.splits
      intro!: rc_dropped TEMP_FAILURE_RETRY_rc
      simp: fgetfilecon_def native_get_rc Let_def)

lemma Java_fsetfilecon_rc:
  "Java_me_zhanghai_android_libselinux_SeLinux_fsetfilecon env (\<lambda>k. (lib k)\<lparr>rc := v k\<rparr>)
     javaFd javaContext w
   = Java_me_zhanghai_android_libselinux_SeLinux_fsetfilecon env lib javaFd javaContext w"
  unfolding Java_me_zhanghai_android_libselinux_SeLinux_fsetfilecon_def
  by (auto split: prod.splits outcome.splits
      intro!: rc_dropped TEMP_FAILURE_RETRY_rc
      simp: fsetfilecon_def native_plain_rc Let_def)

lemma TEMP_FAILURE_RETRY_plain_errno:
  assumes "set_errno (lib (calls w)) \<noteq> Some EINTR"
  shows "\<exists>r u w3. TEMP_FAILURE_RETRY (native_plain lib f) s w = Some (r, u, w3)
            \<and> errno w3 = (case set_errno (lib (calls w)) of None \<Rightarrow> 0 | Some e \<Rightarrow> e)"
  using assms
  by (simp add: TEMP_FAILURE_RETRY_plain_once native_plain_def native_call_def log_event_def
      Let_def split: option.splits)

lemma TEMP_FAILURE_RETRY_get_errno:
  assumes "set_errno (lib (calls w)) \<noteq> Some EINTR"
  shows "\<exists>r c w3. TEMP_FAILURE_RETRY (native_get lib f) s w = Some (r, c, w3)
            \<and> errno w3 = (case set_errno (lib (calls w)) of None \<Rightarrow> 0 | Some e \<Rightarrow> e)"
  using assms
  by (simp add: TEMP_FAILURE_RETRY_get_once native_get_def native_call_def log_event_def
      Let_def split: option.splits)

lemma getFileDescriptorDescriptorField_calls:
  assumes "getFileDescriptorDescriptorField env w0 = (Returned field, w)"
  shows "calls w = calls w0"
  using assms
  by (auto simp: getFileDescriptorDescriptorField_def getFileDescriptorClass_def
      findClass_def findField_def bindM_def log_event_def Let_def
      split: option.splits outcome.splits prod.splits)

lemma mallocStringFromBytes_calls:
  assumes "mallocStringFromBytes env B w = (Returned p, w1)"
  shows "calls w1 = calls w"
  by (subst mallocStringFromBytes_Returned(4) [OF assms]) simp

lemma doSetfilecon_errno_untouched:
  assumes m1: "mallocStringFromBytes env javaPath w = (Returned path, w1)"
    and m2: "mallocStringFromBytes env javaContext w1 = (Returned ctx, w2)"
    and e: "set_errno (lib (calls w)) = None"
  shows "\<exists>w' evs. doSetfilecon env lib javaPath javaContext isL w = Some (Returned (), w')
            \<and> objects w' = objects w \<and> pending w' = pending w
            \<and> trace w' = trace w @ evs \<and> \<not> list_ex is_raise evs"
proof -
  have c: "calls w2 = calls w"
    using mallocStringFromBytes_calls [OF m1] mallocStringFromBytes_calls [OF m2] by simp
  with e have "set_errno (lib (calls w2)) \<noteq> Some EINTR"
    by simp
  from TEMP_FAILURE_RETRY_plain_errno [where lib = lib and w = w2 and s = "()"
      and f = "(if isL then ''lsetfilecon'' else ''setfilecon'')", OF this] c e
  obtain r u w3 where run: "TEMP_FAILURE_RETRY
        (native_plain lib (if isL then ''lsetfilecon'' else ''setfilecon'')) () w2
      = Some (r, u, w3)" and z: "errno w3 = 0"
    by fastforce
  from run have "TEMP_FAILURE_RETRY ((if isL then lsetfilecon else setfilecon) lib path ctx) () w2
      = Some (r, u, w3)"
    by (cases isL) (simp_all add: lsetfilecon_def setfilecon_def)
  from doSetfilecon_quiet [OF m1 m2 this z] show ?thesis .
qed

lemma doSetfilecon_errno_set:
  assumes m1: "mallocStringFromBytes env javaPath w = (Returned path, w1)"
    and m2: "mallocStringFromBytes env javaContext w1 = (Returned ctx, w2)"
    and e: "set_errno (lib (calls w)) = Some e" "e \<noteq> 0" "e \<noteq> EINTR"
    and sym: "symbols_resolve env w cls m3 m2" and obj: "NewObject_ok env"
  shows "\<exists>w'. doSetfilecon env lib javaPath javaContext isL w = Some (Returned (), w')
            \<and> raised w w' (if NewStringUTF_ok env
                            then Some (if isL then ''lsetfilecon'' else ''setfilecon'')
                            else None) e"
proof -
  have c: "calls w2 = calls w"
    using mallocStringFromBytes_calls [OF m1] mallocStringFromBytes_calls [OF m2] by simp
  with e have "set_errno (lib (calls w2)) \<noteq> Some EINTR"
    by simp
  from TEMP_FAILURE_RETRY_plain_errno [where lib = lib and w = w2 and s = "()"
      and f = "(if isL then ''lsetfilecon'' else ''setfilecon'')", OF this] c e
  obtain r u w3 where run: "TEMP_FAILURE_RETRY
        (native_plain lib (if isL then ''lsetfilecon'' else ''setfilecon'')) () w2
      = Some (r, u, w3)" and z: "errno w3 = e"
    by fastforce
  from run have "TEMP_FAILURE_RETRY ((if isL then lsetfilecon else setfilecon) lib path ctx) () w2
      = Some (r, u, w3)"
    by (cases isL) (simp_all add: lsetfilecon_def setfilecon_def)
  from doSetfilecon_raises [OF m1 m2 this _ sym obj] z e(2) show ?thesis
    by simp
qed

lemma doGetfilecon_errno_untouched:
  assumes m1: "mallocStringFromBytes env javaPath w = (Returned path, w1)"
    and e: "set_errno (lib (calls w)) = None"
  shows "\<exists>res w' evs. doGetfilecon env lib javaPath isL w = Some (res, w')
            \<and> objects w' = objects w
            \<and> (pending w' = pending w \<or> pending w' = Some (oom env))
            \<and> trace w' = trace w @ evs \<and> \<not> list_ex is_raise evs"
proof -
  note c = mallocStringFromBytes_calls [OF m1]
  with e have "set_errno (lib (calls w1)) \<noteq> Some EINTR"
    by simp
  from TEMP_FAILURE_RETRY_get_errno [where lib = lib and w = w1 and s = "None"
      and f = "(if isL then ''lgetfilecon'' else ''getfilecon'')", OF this] c e
  obtain r x w2 where run: "TEMP_FAILURE_RETRY
        (native_get lib (if isL then ''lgetfilecon'' else ''getfilecon'')) None w1
      = Some (r, x, w2)" and z: "errno w2 = 0"
    by fastforce
  from run have "TEMP_FAILURE_RETRY ((if isL then lgetfilecon else getfilecon) lib path) None w1
      = Some (r, x, w2)"
    by (cases isL) (simp_all add: lgetfilecon_def getfilecon_def)
  from doGetfilecon_quiet [OF m1 this z] show ?thesis .
qed

lemma doGetfilecon_errno_set:
  assumes m1: "mallocStringFromBytes env javaPath w = (Returned path, w1)"
    and e: "set_errno (lib (calls w)) = Some e" "e \<noteq> 0" "e \<noteq> EINTR"
    and sym: "symbols_resolve env w cls m3 m2" and obj: "NewObject_ok env"
  shows "\<exists>w'. doGetfilecon env lib javaPath isL w = Some (Returned None, w')
            \<and> raised w w' (if NewStringUTF_ok env
                            then Some (if isL then ''lgetfilecon'' else ''getfilecon'')
                            else None) e"
proof -
  note c = mallocStringFromBytes_calls [OF m1]
  with e have "set_errno (lib (calls w1)) \<noteq> Some EINTR"
    by simp
  from TEMP_FAILURE_RETRY_get_errno [where lib = lib and w = w1 and s = "None"
      and f = "(if isL then ''lgetfilecon'' else ''getfilecon'')", OF this] c e
  obtain r x w2 where run: "TEMP_FAILURE_RETRY
        (native_get lib (if isL then ''lgetfilecon'' else ''getfilecon'')) None w1
      = Some (r, x, w2)" and z: "errno w2 = e"
    by fastforce
  from run have "TEMP_FAILURE_RETRY ((if isL then lgetfilecon else getfilecon) lib path) None w1
      = Some (r, x, w2)"
    by (cases isL) (simp_all add: lgetfilecon_def getfilecon_def)
  from doGetfilecon_raises [OF m1 this _ sym obj] z e(2) show ?thesis
    by simp
qed

lemma Java_fsetfilecon_errno_untouched:
  assumes fd: "getFileDescriptorDescriptorField env w = (Returned field, w1)"
    and m: "mallocStringFromBytes env javaContext w1 = (Returned ctx, w2)"
    and e: "set_errno (lib (calls w)) = None"
  shows "\<exists>w' evs. Java_me_zhanghai_android_libselinux_SeLinux_fsetfilecon env lib javaFd
                  javaContext w = Some (Returned (), w')
            \<and> objects w' = objects w \<and> pending w' = pending w
            \<and> trace w' = trace w @ evs \<and> \<not> list_ex is_raise evs"
proof -
  have c: "calls w2 = calls w"
    using getFileDescriptorDescriptorField_calls [OF fd] mallocStringFromBytes_calls [OF m]
    by simp
  with e have "set_errno (lib (calls w2)) \<noteq> Some EINTR"
    by simp
  from TEMP_FAILURE_RETRY_plain_errno [where lib = lib and w = w2 and s = "()"
      and f = "''fsetfilecon''", OF this] c e
  obtain r u w3 where run: "TEMP_FAILURE_RETRY (native_plain lib ''fsetfilecon'') () w2
      = Some (r, u, w3)" and z: "errno w3 = 0"
    by fastforce
  from run have "TEMP_FAILURE_RETRY (fsetfilecon lib (GetIntField javaFd field) ctx) () w2
      = Some (r, u, w3)"
    by (simp add: fsetfilecon_def)
  from Java_fsetfilecon_quiet [OF fd m this z] show ?thesis .
qed

lemma Java_fsetfilecon_errno_set:
  assumes fd: "getFileDescriptorDescriptorField env w = (Returned field, w1)"
    and m: "mallocStringFromBytes env javaContext w1 = (Returned ctx, w2)"
    and e: "set_errno (lib (calls w)) = Some e" "e \<noteq> 0" "e \<noteq> EINTR"
    and sym: "symbols_resolve env w cls m3 m2" and obj: "NewObject_ok env"
  shows "\<exists>w'. Java_me_zhanghai_android_libselinux_SeLinux_fsetfilecon env lib javaFd
                  javaContext w = Some (Returned (), w')
            \<and> raised w w' (if NewStringUTF_ok env then Some ''fsetfilecon'' else None) e"
proof -
  have c: "calls w2 = calls w"
    using getFileDescriptorDescriptorField_calls [OF fd] mallocStringFromBytes_calls [OF m]
    by simp
  with e have "set_errno (lib (calls w2)) \<noteq> Some EINTR"
    by simp
  from TEMP_FAILURE_RETRY_plain_errno [where lib = lib and w = w2 and s = "()"
      and f = "''fsetfilecon''", OF this] c e
  obtain r u w3 where run: "TEMP_FAILURE_RETRY (native_plain lib ''fsetfilecon'') () w2
      = Some (r, u, w3)" and z: "errno w3 = e"
    by fastforce
  from run have "TEMP_FAILURE_RETRY (fsetfilecon lib (GetIntField javaFd field) ctx) () w2
      = Some (r, u, w3)"
    by (simp add: fsetfilecon_def)
  from Java_fsetfilecon_raises [OF fd m this _ sym obj] z e(2) show ?thesis
    by simp
qed

lemma Java_fgetfilecon_errno_untouched:
  assumes fd: "getFileDescriptorDescriptorField env w = (Returned field, w1)"
    and e: "set_errno (lib (calls w)) = None"
  shows "\<exists>res w' evs. Java_me_zhanghai_android_libselinux_SeLinux_fgetfilecon env lib javaFd w
                  = Some (res, w')
            \<and> objects w' = objects w
            \<and> (pending w' = pending w \<or> pending w' = Some (oom env))
            \<and> trace w' = trace w @ evs \<and> \<not> list_ex is_raise evs"
proof -
  note c = getFileDescriptorDescriptorField_calls [OF fd]
  with e have "set_errno (lib (calls w1)) \<noteq> Some EINTR"
    by simp
  from TEMP_FAILURE_RETRY_get_errno [where lib = lib and w = w1 and s = "None"
      and f = "''fgetfilecon''", OF this] c e
  obtain r x w2 where run: "TEMP_FAILURE_RETRY (native_get lib ''fgetfilecon'') None w1
      = Some (r, x, w2)" and z: "errno w2 = 0"
    by fastforce
  from run have "TEMP_FAILURE_RETRY (fgetfilecon lib (GetIntField javaFd field)) None w1
      = Some (r, x, w2)"
    by (simp add: fgetfilecon_def)
  from Java_fgetfilecon_quiet [OF fd this z] show ?thesis .
qed

lemma Java_fgetfilecon_errno_set:
  assumes fd: "getFileDescriptorDescriptorField env w = (Returned field, w1)"
    and e: "set_errno (lib (calls w)) = Some e" "e \<noteq> 0" "e \<noteq> EINTR"
    and sym: "symbols_resolve env w cls m3 m2" and obj: "NewObject_ok env"
  shows "\<exists>w'. Java_me_zhanghai_android_libselinux_SeLinux_fgetfilecon env lib javaFd w
                  = Some (Returned None, w')
            \<and> raised w w' (if NewStringUTF_ok env then Some ''fgetfilecon'' else None) e"
proof -
  note c = getFileDescriptorDescriptorField_calls [OF fd]
  with e have "set_errno (lib (calls w1)) \<noteq> Some EINTR"
    by simp
  from TEMP_FAILURE_RETRY_get_errno [where lib = lib and w = w1 and s = "None"
      and f = "''fgetfilecon''", OF this] c e
  obtain r x w2 where run: "TEMP_FAILURE_RETRY (native_get lib ''fgetfilecon'') None w1
      = Some (r, x, w2)" and z: "errno w2 = e"
    by fastforce
  from run have "TEMP_FAILURE_RETRY (fgetfilecon lib (GetIntField javaFd field)) None w1
      = Some (r, x, w2)"
    by (simp add: fgetfilecon_def)
  from Java_fgetfilecon_raises [OF fd this _ sym obj] z e(2) show ?thesis
    by simp
qed

text \<open>
  C9. The value the native call returns never reaches the result of a get-context or
  set-context operation: replace the return value of every response of the library by any
  other (\<open>v k\<close> for the \<open>k\<close>-th call) and each of the six exported operations, and the two
  helpers behind the path variants, behaves the same, down to the final world. What decides
  is \<^verbatim>\<open>errno\<close> alone. Once the marshaling has succeeded, a call that leaves \<^verbatim>\<open>errno\<close>
  untouched (so that it is still the zero the retry stored), whatever it returns, sends
  the operation down the success path: it returns, constructs and throws nothing, and adds
  no exception object. A call that stores a nonzero code \<open>e\<close> other than \<^verbatim>\<open>EINTR\<close>, whatever
  it returns, makes the operation raise the exception that carries \<open>e\<close>, provided the
  exception symbols resolve and the runtime allocates the object.
\<close>

theorem C9_return_value_is_discarded_and_errno_alone_decides:
  "Java_me_zhanghai_android_libselinux_SeLinux_fgetfilecon env (\<lambda>k. (lib k)\<lparr>rc := v k\<rparr>)
       javaFd w
     = Java_me_zhanghai_android_libselinux_SeLinux_fgetfilecon env lib javaFd w
   \<and> Java_me_zhanghai_android_libselinux_SeLinux_fsetfilecon env (\<lambda>k. (lib k)\<lparr>rc := v k\<rparr>)
       javaFd javaContext w
     = Java_me_zhanghai_android_libselinux_SeLinux_fsetfilecon env lib javaFd javaContext w
   \<and> Java_me_zhanghai_android_libselinux_SeLinux_getfilecon env (\<lambda>k. (lib k)\<lparr>rc := v k\<rparr>)
       javaPath w
     = Java_me_zhanghai_android_libselinux_SeLinux_getfilecon env lib javaPath w
   \<and> Java_me_zhanghai_android_libselinux_SeLinux_lgetfilecon env (\<lambda>k. (lib k)\<lparr>rc := v k\<rparr>)
       javaPath w
     = Java_me_zhanghai_android_libselinux_SeLinux_lgetfilecon env lib javaPath w
   \<and> Java_me_zhanghai_android_libselinux_SeLinux_setfilecon env (\<lambda>k. (lib k)\<lparr>rc := v k\<rparr>)
       javaPath javaContext w
     = Java_me_zhanghai_android_libselinux_SeLinux_setfilecon env lib javaPath javaContext w
   \<and> Java_me_zhanghai_android_libselinux_SeLinux_lsetfilecon env (\<lambda>k. (lib k)\<lparr>rc := v k\<rparr>)
       javaPath javaContext w
     = Java_me_zhanghai_android_libselinux_SeLinux_lsetfilecon env lib javaPath javaContext w
   \<and> doGetfilecon env (\<lambda>k. (lib k)\<lparr>rc := v k\<rparr>) javaPath isL w
     = doGetfilecon env lib javaPath isL w
   \<and> doSetfilecon env (\<lambda>k. (lib k)\<lparr>rc := v k\<rparr>) javaPath javaContext isL w
     = doSetfilecon env lib javaPath javaContext isL w
   \<and> (mallocStringFromBytes env javaPath w = (Returned path, w1)
      \<and> mallocStringFromBytes env javaContext w1 = (Returned cx, w2)
      \<and> set_errno (lib (calls w)) = None
      \<longrightarrow> (\<exists>w' evs. doSetfilecon env lib javaPath javaContext isL w = Some (Returned (), w')
             \<and> objects w' = objects w \<and> pending w' = pending w
             \<and> trace w' = trace w @ evs \<and> \<not> list_ex is_raise evs))
   \<and> (mallocStringFromBytes env javaPath w = (Returned path, w1)
      \<and> mallocStringFromBytes env javaContext w1 = (Returned cx, w2)
      \<and> set_errno (lib (calls w)) = Some e \<and> e \<noteq> 0 \<and> e \<noteq> EINTR
      \<and> symbols_resolve env w cls m3 m2 \<and> NewObject_ok env
      \<longrightarrow> (\<exists>w'. doSetfilecon env lib javaPath javaContext isL w = Some (Returned (), w')
             \<and> raised w w' (if NewStringUTF_ok env
                             then Some (if isL then ''lsetfilecon'' else ''setfilecon'')
                             else None) e))
   \<and> (mallocStringFromBytes env javaPath w = (Returned path, w1)
      \<and> set_errno (lib (calls w)) = None
      \<longrightarrow> (\<exists>res w' evs. doGetfilecon env lib javaPath isL w = Some (res, w')
             \<and> objects w' = objects w
             \<and> (pending w' = pending w \<or> pending w' = Some (oom env))
             \<and> trace w' = trace w @ evs \<and> \<not> list_ex is_raise evs))
   \<and> (mallocStringFromBytes env javaPath w = (Returned path, w1)
      \<and> set_errno (lib (calls w)) = Some e \<and> e \<noteq> 0 \<and> e \<noteq> EINTR
      \<and> symbols_resolve env w cls m3 m2 \<and> NewObject_ok env
      \<longrightarrow> (\<exists>w'. doGetfilecon env lib javaPath isL w = Some (Returned None, w')
             \<and> raised w w' (if NewStringUTF_ok env
                             then Some (if isL then ''lgetfilecon'' else ''getfilecon'')
                             else None) e))
   \<and> (getFileDescriptorDescriptorField env w = (Returned field, f1)
      \<and> mallocStringFromBytes env javaContext f1 = (Returned cx, f2)
      \<and> set_errno (lib (calls w)) = None
      \<longrightarrow> (\<exists>w' evs. Java_me_zhanghai_android_libselinux_SeLinux_fsetfilecon env lib javaFd
                  javaContext w = Some (Returned (), w')
             \<and> objects w' = objects w \<and> pending w' = pending w
             \<and> trace w' = trace w @ evs \<and> \<not> list_ex is_raise evs))
   \<and> (getFileDescriptorDescriptorField env w = (Returned field, f1)
      \<and> mallocStringFromBytes env javaContext f1 = (Returned cx, f2)
      \<and> set_errno (lib (calls w)) = Some e \<and> e \<noteq> 0 \<and> e \<noteq> EINTR
      \<and> symbols_resolve env w cls m3 m2 \<and> NewObject_ok env
      \<longrightarrow> (\<exists>w'. Java_me_zhanghai_android_libselinux_SeLinux_fsetfilecon env lib javaFd
                  javaContext w = Some (Returned (), w')
             \<and> raised w w' (if NewStringUTF_ok env then Some ''fsetfilecon'' else None) e))
   \<and> (getFileDescriptorDescriptorField env w = (Returned field, f1)
      \<and> set_errno (lib (calls w)) = None
      \<longrightarrow> (\<exists>res w' evs. Java_me_zhanghai_android_libselinux_SeLinux_fgetfilecon env lib
                  javaFd w = Some (res, w')
             \<and> objects w' = objects w
             \<and> (pending w' = pending w \<or> pending w' = Some (oom env))
             \<and> trace w' = trace w @ evs \<and> \<not> list_ex is_raise evs))
   \<and> (getFileDescriptorDescriptorField env w = (Returned field, f1)
      \<and> set_errno (lib (calls w)) = Some e \<and> e \<noteq> 0 \<and> e \<noteq> EINTR
      \<and> symbols_resolve env w cls m3 m2 \<and> NewObject_ok env
      \<longrightarrow> (\<exists>w'. Java_me_zhanghai_android_libselinux_SeLinux_fgetfilecon env lib javaFd w
                  = Some (Returned None, w')
             \<and> raised w w' (if NewStringUTF_ok env then Some ''fgetfilecon'' else None) e))"
proof (intro conjI impI; (elim conjE)?)
  show "Java_me_zhanghai_android_libselinux_SeLinux_fgetfilecon env (\<lambda>k. (lib k)\<lparr>rc := v k\<rparr>)
       javaFd w
     = Java_me_zhanghai_android_libselinux_SeLinux_fgetfilecon env lib javaFd w"
    by (rule Java_fgetfilecon_rc)
  show "Java_me_zhanghai_android_libselinux_SeLinux_fsetfilecon env (\<lambda>k. (lib k)\<lparr>rc := v k\<rparr>)
       javaFd javaContext w
     = Java_me_zhanghai_android_libselinux_SeLinux_fsetfilecon env lib javaFd javaContext w"
    by (rule Java_fsetfilecon_rc)
  show "Java_me_zhanghai_android_libselinux_SeLinux_getfilecon env (\<lambda>k. (lib k)\<lparr>rc := v k\<rparr>)
       javaPath w
     = Java_me_zhanghai_android_libselinux_SeLinux_getfilecon env lib javaPath w"
    unfolding Java_me_zhanghai_android_libselinux_SeLinux_getfilecon_def
    by (rule doGetfilecon_rc)
  show "Java_me_zhanghai_android_libselinux_SeLinux_lgetfilecon env (\<lambda>k. (lib k)\<lparr>rc := v k\<rparr>)
       javaPath w
     = Java_me_zhanghai_android_libselinux_SeLinux_lgetfilecon env lib javaPath w"
    unfolding Java_me_zhanghai_android_libselinux_SeLinux_lgetfilecon_def
    by (rule doGetfilecon_rc)
  show "Java_me_zhanghai_android_libselinux_SeLinux_setfilecon env (\<lambda>k. (lib k)\<lparr>rc := v k\<rparr>)
       javaPath javaContext w
     = Java_me_zhanghai_android_libselinux_SeLinux_setfilecon env lib javaPath javaContext w"
    unfolding Java_me_zhanghai_android_libselinux_SeLinux_setfilecon_def
    by (rule doSetfilecon_rc)
  show "Java_me_zhanghai_android_libselinux_SeLinux_lsetfilecon env (\<lambda>k. (lib k)\<lparr>rc := v k\<rparr>)
       javaPath javaContext w
     = Java_me_zhanghai_android_libselinux_SeLinux_lsetfilecon env lib javaPath javaContext w"
    unfolding Java_me_zhanghai_android_libselinux_SeLinux_lsetfilecon_def
    by (rule doSetfilecon_rc)
  show "doGetfilecon env (\<lambda>k. (lib k)\<lparr>rc := v k\<rparr>) javaPath isL w
     = doGetfilecon env lib javaPath isL w"
    by (rule doGetfilecon_rc)
  show "doSetfilecon env (\<lambda>k. (lib k)\<lparr>rc := v k\<rparr>) javaPath javaContext isL w
     = doSetfilecon env lib javaPath javaContext isL w"
    by (rule doSetfilecon_rc)
next
  assume "mallocStringFromBytes env javaPath w = (Returned path, w1)"
    "mallocStringFromBytes env javaContext w1 = (Returned cx, w2)"
    "set_errno (lib (calls w)) = None"
  then show "\<exists>w' evs. doSetfilecon env lib javaPath javaContext isL w = Some (Returned (), w')
             \<and> objects w' = objects w \<and> pending w' = pending w
             \<and> trace w' = trace w @ evs \<and> \<not> list_ex is_raise evs"
    by (rule doSetfilecon_errno_untouched)
next
  assume "mallocStringFromBytes env javaPath w = (Returned path, w1)"
    "mallocStringFromBytes env javaContext w1 = (Returned cx, w2)"
    "set_errno (lib (calls w)) = Some e" "e \<noteq> 0" "e \<noteq> EINTR"
    "symbols_resolve env w cls m3 m2" "NewObject_ok env"
  then show "\<exists>w'. doSetfilecon env lib javaPath javaContext isL w = Some (Returned (), w')
             \<and> raised w w' (if NewStringUTF_ok env
                             then Some (if isL then ''lsetfilecon'' else ''setfilecon'')
                             else None) e"
    by (rule doSetfilecon_errno_set)
next
  assume "mallocStringFromBytes env javaPath w = (Returned path, w1)"
    "set_errno (lib (calls w)) = None"
  then show "\<exists>res w' evs. doGetfilecon env lib javaPath isL w = Some (res, w')
             \<and> objects w' = objects w
             \<and> (pending w' = pending w \<or> pending w' = Some (oom env))
             \<and> trace w' = trace w @ evs \<and> \<not> list_ex is_raise evs"
    by (rule doGetfilecon_errno_untouched)
next
  assume "mallocStringFromBytes env javaPath w = (Returned path, w1)"
    "set_errno (lib (calls w)) = Some e" "e \<noteq> 0" "e \<noteq> EINTR"
    "symbols_resolve env w cls m3 m2" "NewObject_ok env"
  then show "\<exists>w'. doGetfilecon env lib javaPath isL w = Some (Returned None, w')
             \<and> raised w w' (if NewStringUTF_ok env
                             then Some (if isL then ''lgetfilecon'' else ''getfilecon'')
                             else None) e"
    by (rule doGetfilecon_errno_set)
next
  assume "getFileDescriptorDescriptorField env w = (Returned field, f1)"
    "mallocStringFromBytes env javaContext f1 = (Returned cx, f2)"
    "set_errno (lib (calls w)) = None"
  then show "\<exists>w' evs. Java_me_zhanghai_android_libselinux_SeLinux_fsetfilecon env lib javaFd
                  javaContext w = Some (Returned (), w')
             \<and> objects w' = objects w \<and> pending w' = pending w
             \<and> trace w' = trace w @ evs \<and> \<not> list_ex is_raise evs"
    by (rule Java_fsetfilecon_errno_untouched)
next
  assume "getFileDescriptorDescriptorField env w = (Returned field, f1)"
    "mallocStringFromBytes env javaContext f1 = (Returned cx, f2)"
    "set_errno (lib (calls w)) = Some e" "e \<noteq> 0" "e \<noteq> EINTR"
    "symbols_resolve env w cls m3 m2" "NewObject_ok env"
  then show "\<exists>w'. Java_me_zhanghai_android_libselinux_SeLinux_fsetfilecon env lib javaFd
                  javaContext w = Some (Returned (), w')
             \<and> raised w w' (if NewStringUTF_ok env then Some ''fsetfilecon'' else None) e"
    by (rule Java_fsetfilecon_errno_set)
next
  assume "getFileDescriptorDescriptorField env w = (Returned field, f1)"
    "set_errno (lib (calls w)) = None"
  then show "\<exists>res w' evs. Java_me_zhanghai_android_libselinux_SeLinux_fgetfilecon env lib
                  javaFd w = Some (res, w')
             \<and> objects w' = objects w
             \<and> (pending w' = pending w \<or> pending w' = Some (oom env))
             \<and> trace w' = trace w @ evs \<and> \<not> list_ex is_raise evs"
    by (rule Java_fgetfilecon_errno_untouched)
next
  assume "getFileDescriptorDescriptorField env w = (Returned field, f1)"
    "set_errno (lib (calls w)) = Some e" "e \<noteq> 0" "e \<noteq> EINTR"
    "symbols_resolve env w cls m3 m2" "NewObject_ok env"
  then show "\<exists>w'. Java_me_zhanghai_android_libselinux_SeLinux_fgetfilecon env lib javaFd w
                  = Some (Returned None, w')
             \<and> raised w w' (if NewStringUTF_ok env then Some ''fgetfilecon'' else None) e"
    by (rule Java_fgetfilecon_errno_set)
qed

theorem C9_errno_alone_decides_witness:
  "(\<exists>w' evs. doSetfilecon example_env (\<lambda>k. \<lparr>rc = - 1, set_errno = None, out = None\<rparr>)
                [47] [120] False example_world = Some (Returned (), w')
       \<and> objects w' = objects example_world \<and> pending w' = None
       \<and> trace w' = evs \<and> \<not> list_ex is_raise evs)
   \<and> (\<exists>w'. doSetfilecon example_env (\<lambda>k. \<lparr>rc = 0, set_errno = Some 13, out = None\<rparr>)
                [47] [120] False example_world = Some (Returned (), w')
       \<and> raised example_world w' (Some ''setfilecon'') 13)"
proof -
  let ?w1 = "snd (mallocStringFromBytes example_env [47] example_world)"
  let ?w2 = "snd (mallocStringFromBytes example_env [120] ?w1)"
  have ok: "GetByteArrayElements_ok example_env"
    by (simp add: example_env_def)
  have w1: "?w1 = log_event (EvMalloc 0 2)
              (example_world\<lparr>heap := (heap example_world)(0 \<mapsto> [47, 0]),
                 next_addr := 1, avail := 4094\<rparr>)"
    by (simp add: mallocStringFromBytes_ok [OF ok] example_world_def numeral_2_eq_2)
  have m1: "mallocStringFromBytes example_env [47] example_world = (Returned (Some 0), ?w1)"
    by (simp add: mallocStringFromBytes_ok [OF ok] example_world_def)
  have m2: "mallocStringFromBytes example_env [120] ?w1 = (Returned (Some 1), ?w2)"
    unfolding w1 by (simp add: mallocStringFromBytes_ok [OF ok] log_event_def)
  have sym: "symbols_resolve example_env example_world 11 33 32"
    by (simp add: symbols_resolve_def class_handle_def member_handle_def example_env_def
        example_world_def)
  have obj: "NewObject_ok example_env" and str: "NewStringUTF_ok example_env"
    by (simp_all add: example_env_def)
  have t: "trace example_world = []" and p: "pending example_world = None"
    by (simp_all add: example_world_def)
  have ne: "(13 :: cint) \<noteq> 0" "(13 :: cint) \<noteq> EINTR"
    by (simp_all add: EINTR_def)
  from C9_return_value_is_discarded_and_errno_alone_decides
         [where env = example_env and javaPath = "[47]" and javaContext = "[120]"
            and w = example_world and isL = False
            and lib = "\<lambda>k. \<lparr>rc = - 1, set_errno = None, out = None\<rparr>"
            and path = "Some 0" and cx = "Some 1" and ?w1.0 = ?w1 and ?w2.0 = ?w2,
          THEN conjunct2, THEN conjunct2, THEN conjunct2, THEN conjunct2, THEN conjunct2,
          THEN conjunct2, THEN conjunct2, THEN conjunct2, THEN conjunct1]
    m1 m2
  have a: "\<exists>w' evs. doSetfilecon example_env (\<lambda>k. \<lparr>rc = - 1, set_errno = None, out = None\<rparr>)
                [47] [120] False example_world = Some (Returned (), w')
       \<and> objects w' = objects example_world \<and> pending w' = None
       \<and> trace w' = evs \<and> \<not> list_ex is_raise evs"
    unfolding t p by simp
  from C9_return_value_is_discarded_and_errno_alone_decides
         [where env = example_env and javaPath = "[47]" and javaContext = "[120]"
            and w = example_world and isL = False
            and lib = "\<lambda>k. \<lparr>rc = 0, set_errno = Some 13, out = None\<rparr>"
            and path = "Some 0" and cx = "Some 1" and ?w1.0 = ?w1 and ?w2.0 = ?w2
            and e = 13 and cls = 11 and ?m3.0 = 33 and ?m2.0 = 32,
          THEN conjunct2, THEN conjunct2, THEN conjunct2, THEN conjunct2, THEN conjunct2,
          THEN conjunct2, THEN conjunct2, THEN conjunct2, THEN conjunct2, THEN conjunct1]
    m1 m2 sym obj str ne
  have b: "\<exists>w'. doSetfilecon example_env (\<lambda>k. \<lparr>rc = 0, set_errno = Some 13, out = None\<rparr>)
                [47] [120] False example_world = Some (Returned (), w')
       \<and> raised example_world w' (Some ''setfilecon'') 13"
    by simp
  from a b show ?thesis
    by (rule conjI)
qed

section \<open>A call that is interrupted and then succeeds\<close>

text \<open>
  The retry stores zero in \<^verbatim>\<open>errno\<close> once, before the loop, and repeats the call while
  \<^verbatim>\<open>errno\<close> is \<^verbatim>\<open>EINTR\<close>. An invocation that succeeds stores nothing there, so after one
  interrupted invocation every successful one still finds \<^verbatim>\<open>EINTR\<close> and the loop goes on.
\<close>

lemma interrupted_plain_step:
  assumes "calls v < N \<or> errno v = EINTR"
    and "native_plain (interrupted_then_ok N) f s v = (a, s1, v1)"
  shows "errno v1 = EINTR \<and> (calls v1 < N \<or> errno v1 = EINTR)"
  using assms
  by (auto simp: native_plain_def native_call_def interrupted_then_ok_def log_event_def Let_def
      split: if_splits)

lemma interrupted_get_step:
  assumes "calls v < N \<or> errno v = EINTR"
    and "native_get (interrupted_then_ok N) f s v = (a, s1, v1)"
  shows "errno v1 = EINTR \<and> (calls v1 < N \<or> errno v1 = EINTR)"
  using assms
  by (auto simp: native_get_def native_call_def interrupted_then_ok_def log_event_def Let_def
      split: if_splits)

lemma TEMP_FAILURE_RETRY_plain_interrupted:
  assumes "calls w < N"
  shows "TEMP_FAILURE_RETRY (native_plain (interrupted_then_ok N) f) s w = None"
  unfolding TEMP_FAILURE_RETRY_def
proof (rule retry_loop_diverges [where I = "\<lambda>s v. calls v < N \<or> errno v = EINTR"])
  from assms show "calls (w\<lparr>errno := 0\<rparr>) < N \<or> errno (w\<lparr>errno := 0\<rparr>) = EINTR"
    by simp
next
  fix s v a s1 v1
  assume "calls v < N \<or> errno v = EINTR"
    and "native_plain (interrupted_then_ok N) f s v = (a, s1, v1)"
  then show "errno v1 = EINTR \<and> (calls v1 < N \<or> errno v1 = EINTR)"
    by (rule interrupted_plain_step)
qed

lemma TEMP_FAILURE_RETRY_get_interrupted:
  assumes "calls w < N"
  shows "TEMP_FAILURE_RETRY (native_get (interrupted_then_ok N) f) s w = None"
  unfolding TEMP_FAILURE_RETRY_def
proof (rule retry_loop_diverges [where I = "\<lambda>s v. calls v < N \<or> errno v = EINTR"])
  from assms show "calls (w\<lparr>errno := 0\<rparr>) < N \<or> errno (w\<lparr>errno := 0\<rparr>) = EINTR"
    by simp
next
  fix s v a s1 v1
  assume "calls v < N \<or> errno v = EINTR"
    and "native_get (interrupted_then_ok N) f s v = (a, s1, v1)"
  then show "errno v1 = EINTR \<and> (calls v1 < N \<or> errno v1 = EINTR)"
    by (rule interrupted_get_step)
qed

lemma Java_security_getenforce_uninterrupted:
  "\<exists>w'. Java_me_zhanghai_android_libselinux_SeLinux_security_1getenforce env
            (interrupted_then_ok 0) w = Some (Returned False, w')
        \<and> pending w' = pending w \<and> objects w' = objects w \<and> errno w' = 0"
  by (simp add: Java_me_zhanghai_android_libselinux_SeLinux_security_1getenforce_def
      security_getenforce_def TEMP_FAILURE_RETRY_plain_once interrupted_then_ok_def
      native_plain_def native_call_def log_event_def bindM_def Let_def)

text \<open>
  C2, on the code. Take the library \<open>interrupted_then_ok N\<close> and a world in which at least one
  of the interrupted invocations lies ahead (\<open>calls w < N\<close>). Then no retried operation
  returns: \<^verbatim>\<open>security_getenforce\<close>, and the get-context and set-context operations once
  their marshaling has succeeded, have no result at all, where the claim promises the
  result of the uninterrupted run. With no interruption (\<open>N = 0\<close>) \<^verbatim>\<open>security_getenforce\<close>
  returns \<open>False\<close>, raises nothing and leaves \<^verbatim>\<open>errno\<close> zero.
\<close>

theorem C2_interrupted_then_successful_call_never_returns:
  "(calls w < N
      \<longrightarrow> Java_me_zhanghai_android_libselinux_SeLinux_security_1getenforce env
            (interrupted_then_ok N) w = None)
   \<and> (calls w < N
      \<and> mallocStringFromBytes env javaPath w = (Returned path, w1)
      \<and> mallocStringFromBytes env javaContext w1 = (Returned cx, w2)
      \<longrightarrow> doSetfilecon env (interrupted_then_ok N) javaPath javaContext isL w = None)
   \<and> (calls w < N
      \<and> mallocStringFromBytes env javaPath w = (Returned path, w1)
      \<longrightarrow> doGetfilecon env (interrupted_then_ok N) javaPath isL w = None)
   \<and> (calls w < N
      \<and> getFileDescriptorDescriptorField env w = (Returned field, f1)
      \<and> mallocStringFromBytes env javaContext f1 = (Returned cx, f2)
      \<longrightarrow> Java_me_zhanghai_android_libselinux_SeLinux_fsetfilecon env (interrupted_then_ok N)
            javaFd javaContext w = None)
   \<and> (calls w < N
      \<and> getFileDescriptorDescriptorField env w = (Returned field, f1)
      \<longrightarrow> Java_me_zhanghai_android_libselinux_SeLinux_fgetfilecon env (interrupted_then_ok N)
            javaFd w = None)
   \<and> (\<exists>w'. Java_me_zhanghai_android_libselinux_SeLinux_security_1getenforce env
              (interrupted_then_ok 0) w = Some (Returned False, w')
          \<and> pending w' = pending w \<and> objects w' = objects w \<and> errno w' = 0)"
proof (intro conjI impI; (elim conjE)?)
  assume "calls w < N"
  then show "Java_me_zhanghai_android_libselinux_SeLinux_security_1getenforce env
            (interrupted_then_ok N) w = None"
    by (simp add: Java_me_zhanghai_android_libselinux_SeLinux_security_1getenforce_def
        security_getenforce_def TEMP_FAILURE_RETRY_plain_interrupted)
next
  assume n: "calls w < N"
    and m1: "mallocStringFromBytes env javaPath w = (Returned path, w1)"
    and m2: "mallocStringFromBytes env javaContext w1 = (Returned cx, w2)"
  from n mallocStringFromBytes_calls [OF m1] mallocStringFromBytes_calls [OF m2]
  have "calls w2 < N"
    by simp
  then have "TEMP_FAILURE_RETRY
      (native_plain (interrupted_then_ok N) (if isL then ''lsetfilecon'' else ''setfilecon''))
      () w2 = None"
    by (rule TEMP_FAILURE_RETRY_plain_interrupted)
  then have "TEMP_FAILURE_RETRY
      ((if isL then lsetfilecon else setfilecon) (interrupted_then_ok N) path cx) () w2 = None"
    by (cases isL) (simp_all add: lsetfilecon_def setfilecon_def)
  then show "doSetfilecon env (interrupted_then_ok N) javaPath javaContext isL w = None"
    by (simp add: doSetfilecon_def m1 m2)
next
  assume n: "calls w < N"
    and m1: "mallocStringFromBytes env javaPath w = (Returned path, w1)"
  from n mallocStringFromBytes_calls [OF m1] have "calls w1 < N"
    by simp
  then have "TEMP_FAILURE_RETRY
      (native_get (interrupted_then_ok N) (if isL then ''lgetfilecon'' else ''getfilecon''))
      None w1 = None"
    by (rule TEMP_FAILURE_RETRY_get_interrupted)
  then have "TEMP_FAILURE_RETRY
      ((if isL then lgetfilecon else getfilecon) (interrupted_then_ok N) path) None w1 = None"
    by (cases isL) (simp_all add: lgetfilecon_def getfilecon_def)
  then show "doGetfilecon env (interrupted_then_ok N) javaPath isL w = None"
    by (simp add: doGetfilecon_def m1)
next
  assume n: "calls w < N"
    and fd: "getFileDescriptorDescriptorField env w = (Returned field, f1)"
    and m: "mallocStringFromBytes env javaContext f1 = (Returned cx, f2)"
  from n getFileDescriptorDescriptorField_calls [OF fd] mallocStringFromBytes_calls [OF m]
  have "calls f2 < N"
    by simp
  then have "TEMP_FAILURE_RETRY (native_plain (interrupted_then_ok N) ''fsetfilecon'') () f2
      = None"
    by (rule TEMP_FAILURE_RETRY_plain_interrupted)
  then show "Java_me_zhanghai_android_libselinux_SeLinux_fsetfilecon env (interrupted_then_ok N)
            javaFd javaContext w = None"
    by (simp add: Java_me_zhanghai_android_libselinux_SeLinux_fsetfilecon_def fd m
        fsetfilecon_def)
next
  assume n: "calls w < N"
    and fd: "getFileDescriptorDescriptorField env w = (Returned field, f1)"
  from n getFileDescriptorDescriptorField_calls [OF fd] have "calls f1 < N"
    by simp
  then have "TEMP_FAILURE_RETRY (native_get (interrupted_then_ok N) ''fgetfilecon'') None f1
      = None"
    by (rule TEMP_FAILURE_RETRY_get_interrupted)
  then show "Java_me_zhanghai_android_libselinux_SeLinux_fgetfilecon env (interrupted_then_ok N)
            javaFd w = None"
    by (simp add: Java_me_zhanghai_android_libselinux_SeLinux_fgetfilecon_def fd
        fgetfilecon_def)
next
  show "\<exists>w'. Java_me_zhanghai_android_libselinux_SeLinux_security_1getenforce env
              (interrupted_then_ok 0) w = Some (Returned False, w')
          \<and> pending w' = pending w \<and> objects w' = objects w \<and> errno w' = 0"
    by (rule Java_security_getenforce_uninterrupted)
qed

theorem C2_interrupted_once_witness:
  "Java_me_zhanghai_android_libselinux_SeLinux_security_1getenforce example_env
     (interrupted_then_ok 1) example_world = None
   \<and> doSetfilecon example_env (interrupted_then_ok 3) [47] [120] False example_world = None
   \<and> (\<exists>w'. Java_me_zhanghai_android_libselinux_SeLinux_security_1getenforce example_env
              (interrupted_then_ok 0) example_world = Some (Returned False, w')
          \<and> pending w' = None \<and> errno w' = 0)"
proof -
  let ?w1 = "snd (mallocStringFromBytes example_env [47] example_world)"
  let ?w2 = "snd (mallocStringFromBytes example_env [120] ?w1)"
  have ok: "GetByteArrayElements_ok example_env"
    by (simp add: example_env_def)
  have w1: "?w1 = log_event (EvMalloc 0 2)
              (example_world\<lparr>heap := (heap example_world)(0 \<mapsto> [47, 0]),
                 next_addr := 1, avail := 4094\<rparr>)"
    by (simp add: mallocStringFromBytes_ok [OF ok] example_world_def numeral_2_eq_2)
  have m1: "mallocStringFromBytes example_env [47] example_world = (Returned (Some 0), ?w1)"
    by (simp add: mallocStringFromBytes_ok [OF ok] example_world_def)
  have m2: "mallocStringFromBytes example_env [120] ?w1 = (Returned (Some 1), ?w2)"
    unfolding w1 by (simp add: mallocStringFromBytes_ok [OF ok] log_event_def)
  have c: "calls example_world = 0" and p: "pending example_world = None"
    by (simp_all add: example_world_def)
  from C2_interrupted_then_successful_call_never_returns
         [where env = example_env and w = example_world and N = 1, THEN conjunct1] c
  have a: "Java_me_zhanghai_android_libselinux_SeLinux_security_1getenforce example_env
     (interrupted_then_ok 1) example_world = None"
    by simp
  from C2_interrupted_then_successful_call_never_returns
         [where env = example_env and w = example_world and N = 3 and javaPath = "[47]"
            and javaContext = "[120]" and isL = False and path = "Some 0" and cx = "Some 1"
            and ?w1.0 = ?w1 and ?w2.0 = ?w2, THEN conjunct2, THEN conjunct1] c m1 m2
  have b: "doSetfilecon example_env (interrupted_then_ok 3) [47] [120] False example_world
      = None"
    by simp
  from C2_interrupted_then_successful_call_never_returns
         [where env = example_env and w = example_world, THEN conjunct2, THEN conjunct2,
          THEN conjunct2, THEN conjunct2, THEN conjunct2]
  have d: "\<exists>w'. Java_me_zhanghai_android_libselinux_SeLinux_security_1getenforce example_env
              (interrupted_then_ok 0) example_world = Some (Returned False, w')
          \<and> pending w' = None \<and> errno w' = 0"
    unfolding p by blast
  from a b d show ?thesis
    by (intro conjI)
qed

end
